(* ===== verification/Prelude.thy ===== *)
theory Prelude
  imports Main "HOL-Library.AList"
begin

text \<open>
  Shared vocabulary of the development: MongoDB object ids and collections as
  association lists in insertion (natural) order, the HTTP error replies the
  Express handlers send, and the generic list lemmas on which the vote and
  store proofs rest. The collection \<open>store_simps\<close> gathers the facts that
  evaluate collection look-ups and updates; \<open>vote_list_simps\<close> the facts on
  the filtered and appended vote lists.
\<close>

named_theorems store_simps "look-up and update facts of the collections"
named_theorems vote_list_simps "facts on the filtered and appended id lists"

section \<open>Object ids and collections\<close>

text \<open>
  A MongoDB \<open>ObjectId\<close> is an opaque, totally ordered identifier; the model
  uses \<open>nat\<close>, and the store hands out fresh ones from a counter. A route
  parameter is the raw string of the URL: either the text of an object id or
  something that is not one, on which Mongoose's \<open>findById\<close> throws a
  \<open>CastError\<close>.
\<close>

type_synonym oid = nat

datatype id_param = Oid oid | Malformed string

text \<open>
  A collection is the list of its documents keyed by \<open>_id\<close>, in natural order
  (the order in which \<open>find()\<close> returns them when no sort is given). New
  documents are appended.
\<close>

type_synonym 'a coll = "(oid \<times> 'a) list"

definition coll_ids :: "'a coll \<Rightarrow> oid list" where
  "coll_ids c = map fst c"

definition coll_ok :: "'a coll \<Rightarrow> oid \<Rightarrow> bool" where
  "coll_ok c n \<longleftrightarrow> distinct (coll_ids c) \<and> (\<forall>i\<in>set (coll_ids c). i < n)"

text \<open>\<open>findOne(filter)\<close>: the first document, in natural order, that matches.\<close>

definition find_one :: "('a \<Rightarrow> bool) \<Rightarrow> 'a coll \<Rightarrow> (oid \<times> 'a) option" where
  "find_one P c = find (\<lambda>(i, d). P d) c"

text \<open>\<open>find(filter)\<close>: every matching document, in natural order.\<close>

definition find_all :: "('a \<Rightarrow> bool) \<Rightarrow> 'a coll \<Rightarrow> (oid \<times> 'a) list" where
  "find_all P c = filter (\<lambda>(i, d). P d) c"

text \<open>JavaScript's \<open>x ?? y\<close>: \<open>y\<close> when \<open>x\<close> is absent (\<open>undefined\<close> or \<open>null\<close>).\<close>

definition nullish :: "'a option \<Rightarrow> 'a \<Rightarrow> 'a" where
  "nullish x y = (case x of None \<Rightarrow> y | Some v \<Rightarrow> v)"

section \<open>HTTP replies\<close>

text \<open>
  Every error path of a handler is a value. \<open>Http n m\<close> is
  \<open>res.status(n).json({message: m})\<close>; \<open>SendStatus n\<close> is
  \<open>res.sendStatus(n)\<close>; \<open>ValidationErrors es\<close> is the 400 reply of
  \<open>handleValidationErrors\<close> listing each failed check as its field and
  message; \<open>DefaultError n\<close> is the page Express's final handler sends with
  status \<open>n\<close>, for an error passed to \<open>next(err)\<close> or a request no route
  matches; \<open>NoResponse\<close> is an exception thrown outside a handler's
  \<open>try\<close> block: the async handler's promise is rejected, Express 4 does not
  catch it and no reply is ever sent.
\<close>

datatype api_error =
    Http nat string
  | SendStatus nat
  | ValidationErrors "(string \<times> string) list"
  | DefaultError nat
  | NoResponse

abbreviation server_error :: api_error where
  "server_error \<equiv> Http 500 ''Something went wrong''"

fun status_of :: "api_error \<Rightarrow> nat option" where
  "status_of (Http n m) = Some n"
| "status_of (SendStatus n) = Some n"
| "status_of (ValidationErrors es) = Some 400"
| "status_of (DefaultError n) = Some n"
| "status_of NoResponse = None"

text \<open>A handler's outcome: an error reply, or a success status with a body.\<close>

type_synonym 'a response = "api_error + nat \<times> 'a"

section \<open>Generic lemmas\<close>

subsection \<open>Collections\<close>

lemma nullish_simps [simp]: "nullish None y = y" "nullish (Some v) y = v"
  by (simp_all add: nullish_def)

lemma find_one_Some_in [store_simps]:
  "find_one P c = Some (i, d) \<Longrightarrow> (i, d) \<in> set c \<and> P d"
  by (auto simp: find_one_def find_Some_iff dest: nth_mem)

lemma find_one_None [store_simps]:
  "find_one P c = None \<longleftrightarrow> (\<forall>(i, d)\<in>set c. \<not> P d)"
  by (auto simp: find_one_def find_None_iff)

lemma find_one_append_new [store_simps]:
  "find_one P (c @ [(i, d)]) =
     (case find_one P c of None \<Rightarrow> (if P d then Some (i, d) else None) | Some r \<Rightarrow> Some r)"
  by (induction c) (auto simp: find_one_def)

lemma coll_ok_map_of_fresh [store_simps]:
  "coll_ok c n \<Longrightarrow> map_of c n = None"
  by (auto simp: coll_ok_def coll_ids_def map_of_eq_None_iff)

lemma coll_ok_append [store_simps]:
  "coll_ok c n \<Longrightarrow> coll_ok (c @ [(n, d)]) (Suc n)"
  by (fastforce simp: coll_ok_def coll_ids_def)

lemma coll_ok_mono:
  "coll_ok c n \<Longrightarrow> n \<le> m \<Longrightarrow> coll_ok c m"
  by (fastforce simp: coll_ok_def)

lemma coll_ok_update [store_simps]:
  "coll_ok c n \<Longrightarrow> map_of c i = Some d \<Longrightarrow> coll_ok (AList.update i d' c) n"
  by (auto simp: coll_ok_def coll_ids_def AList.update_keys dest: map_of_SomeD)

lemma coll_ok_delete [store_simps]:
  "coll_ok c n \<Longrightarrow> coll_ok (AList.delete i c) n"
  by (auto simp: coll_ok_def coll_ids_def AList.delete_keys distinct_removeAll)

lemma map_of_update_same [store_simps]:
  "map_of (AList.update i d c) i = Some d"
  by (simp add: AList.update_conv')

lemma map_of_update_other [store_simps]:
  "j \<noteq> i \<Longrightarrow> map_of (AList.update i d c) j = map_of c j"
  by (simp add: AList.update_conv')

lemma list_all_update [store_simps]:
  "list_all P c \<Longrightarrow> P (i, v) \<Longrightarrow> list_all P (AList.update i v c)"
  by (induction c) auto

lemma list_all_delete [store_simps]:
  "list_all P c \<Longrightarrow> list_all P (AList.delete i c)"
  by (simp add: AList.delete_eq list_all_iff)

subsection \<open>Id lists used as sets\<close>

text \<open>
  The vote lists are JavaScript arrays of ids: \<open>includes\<close> is membership,
  \<open>filter(id => id !== u)\<close> drops every copy of \<open>u\<close>, \<open>push\<close> appends.
\<close>

lemma set_filter_neq [vote_list_simps]:
  "set (filter (\<lambda>x. x \<noteq> u) xs) = set xs - {u}"
  by auto

lemma distinct_filter_neq [vote_list_simps]:
  "distinct xs \<Longrightarrow> distinct (filter (\<lambda>x. x \<noteq> u) xs)"
  by simp

lemma length_filter_neq_distinct [vote_list_simps]:
  assumes "distinct xs" and "u \<in> set xs"
  shows "int (length (filter (\<lambda>x. x \<noteq> u) xs)) = int (length xs) - 1"
proof -
  have "filter (\<lambda>x. x \<noteq> u) xs = removeAll u xs"
    by (induction xs) auto
  moreover have "Suc 0 \<le> length xs"
    using assms(2) by (cases xs) auto
  ultimately show ?thesis
    using assms by (simp add: distinct_remove1_removeAll [symmetric] length_remove1 of_nat_diff)
qed

lemma distinct_snoc_iff [vote_list_simps]:
  "distinct (xs @ [u]) \<longleftrightarrow> distinct xs \<and> u \<notin> set xs"
  by auto

end
