(* ===== verification/Model.thy ===== *)
theory Model
  imports Prelude
begin

text \<open>
  The persistent data of the API (\<open>src/models/User.ts\<close>, \<open>src/models/Post.ts\<close>,
  and the comment model that the controllers use but whose file is not part of
  the sources), the store holding the three collections, and what Mongoose does
  on \<open>save()\<close>: it runs the schema validators (\<open>required\<close>, \<open>enum\<close>) and the
  unique indexes, and throws when one fails.
\<close>

section \<open>Categories\<close>

datatype category = Kidney | Liver | Heart | Lungs | Diabetes | Cancer | Nutrition | Fitness

fun category_name :: "category \<Rightarrow> string" where
  "category_name Kidney = ''Kidney''"
| "category_name Liver = ''Liver''"
| "category_name Heart = ''Heart''"
| "category_name Lungs = ''Lungs''"
| "category_name Diabetes = ''Diabetes''"
| "category_name Cancer = ''Cancer''"
| "category_name Nutrition = ''Nutrition''"
| "category_name Fitness = ''Fitness''"

text \<open>The \<open>enum\<close> list of the schema, in the source's order.\<close>

definition category_names :: "string list" where
  "category_names = map category_name [Kidney, Liver, Heart, Lungs, Diabetes, Cancer, Nutrition, Fitness]"

section \<open>Users\<close>

text \<open>
  bcrypt is an external library. Its output is modelled symbolically: the hash
  of a password under a salt records both, and \<open>compare\<close> re-hashes the
  candidate under the salt stored in the hash, as bcrypt does. The model thus
  assumes a collision-free hash: two passwords agree on a hash only if equal.
\<close>

datatype pw_hash = BHash (hash_salt: nat) string

definition bcrypt_hash :: "string \<Rightarrow> nat \<Rightarrow> pw_hash" where
  "bcrypt_hash pw salt = BHash salt pw"

definition bcrypt_compare :: "string \<Rightarrow> pw_hash \<Rightarrow> bool" where
  "bcrypt_compare pw h \<longleftrightarrow> bcrypt_hash pw (hash_salt h) = h"

record user =
  username :: string
  email :: string
  password :: pw_hash
  user_imageUrl :: string

definition default_user_image :: string where
  "default_user_image = ''https://cdn-icons-png.flaticon.com/512/6596/6596121.png''"

text \<open>\<open>required: true\<close> on a String rejects the empty string.\<close>

definition user_valid :: "user \<Rightarrow> bool" where
  "user_valid u \<longleftrightarrow> username u \<noteq> [] \<and> email u \<noteq> []"

section \<open>Posts\<close>

text \<open>
  The Post schema. \<open>author\<close>, \<open>imageUrl\<close> and \<open>lastUpdated\<close> may be absent
  in a document; \<open>category\<close> is stored as the string the client sent, and only
  the \<open>enum\<close> validator on save restricts it. Dates are clock readings.
\<close>

record post =
  author :: "oid option"
  title :: string
  content :: string
  category :: string
  upVotes :: int
  downVotes :: int
  upVotedBy :: "oid list"
  downVotedBy :: "oid list"
  imageUrl :: "string option"
  comments :: "oid list"
  lastUpdated :: "nat option"

definition post_valid :: "post \<Rightarrow> bool" where
  "post_valid p \<longleftrightarrow>
     title p \<noteq> [] \<and> content p \<noteq> [] \<and> category p \<in> set category_names \<and>
     (case imageUrl p of None \<Rightarrow> False | Some u \<Rightarrow> u \<noteq> [])"

section \<open>Comments and replies\<close>

text \<open>
  The comment model file is not among the sources; its shape is the one the
  comment controller and the specification give: a post reference, an author,
  the content, and embedded replies with their own generated id.
\<close>

record reply =
  r_id :: oid
  r_author :: oid
  r_content :: string
  r_lastUpdated :: nat

record comment =
  c_postId :: oid
  c_author :: oid
  c_content :: string
  replies :: "reply list"

section \<open>The store\<close>

text \<open>
  The database: one collection per model and the generator of fresh object
  ids (Mongoose assigns \<open>_id\<close> when a document is constructed).
\<close>

record db =
  user_coll :: "user coll"
  post_coll :: "post coll"
  comment_coll :: "comment coll"
  next_oid :: oid

definition empty_db :: db where
  "empty_db = \<lparr>user_coll = [], post_coll = [], comment_coll = [], next_oid = 0\<rparr>"

text \<open>
  Well-formed store: the keys of each collection are distinct and below the
  id generator, so that a generated id is fresh. It is the one invariant that
  every handler keeps (\<open>Api.thy\<close>).
\<close>

definition db_ok :: "db \<Rightarrow> bool" where
  "db_ok d \<longleftrightarrow> coll_ok (user_coll d) (next_oid d) \<and> coll_ok (post_coll d) (next_oid d) \<and>
     coll_ok (comment_coll d) (next_oid d)"

text \<open>Every stored post passed the schema validators when it was saved.\<close>

definition posts_valid :: "db \<Rightarrow> bool" where
  "posts_valid d \<longleftrightarrow> list_all (\<lambda>(i, p). post_valid p) (post_coll d)"

section \<open>save()\<close>

text \<open>
  Saving a new user: schema validation, then the unique indexes on
  \<open>username\<close> and \<open>email\<close> (a duplicate-key error E11000). \<open>None\<close> is the
  exception \<open>save()\<close> throws.
\<close>

definition save_new_user :: "user \<Rightarrow> db \<Rightarrow> (oid \<times> db) option" where
  "save_new_user u d =
     (if \<not> user_valid u
         \<or> find_one (\<lambda>v. username v = username u) (user_coll d) \<noteq> None
         \<or> find_one (\<lambda>v. email v = email u) (user_coll d) \<noteq> None
      then None
      else Some (next_oid d,
                 d\<lparr>user_coll := user_coll d @ [(next_oid d, u)], next_oid := Suc (next_oid d)\<rparr>))"

definition save_new_post :: "post \<Rightarrow> db \<Rightarrow> (oid \<times> db) option" where
  "save_new_post p d =
     (if \<not> post_valid p then None
      else Some (next_oid d,
                 d\<lparr>post_coll := post_coll d @ [(next_oid d, p)], next_oid := Suc (next_oid d)\<rparr>))"

text \<open>Saving a post that was loaded with \<open>findById\<close>: validate, write in place.\<close>

definition save_post :: "oid \<Rightarrow> post \<Rightarrow> db \<Rightarrow> db option" where
  "save_post i p d =
     (if \<not> post_valid p then None else Some (d\<lparr>post_coll := AList.update i p (post_coll d)\<rparr>))"

section \<open>Lemmas\<close>

lemma set_category_names: "set category_names = range category_name"
proof
  show "set category_names \<subseteq> range category_name"
    unfolding category_names_def set_map by (rule image_mono) simp
next
  show "range category_name \<subseteq> set category_names"
  proof
    fix s assume "s \<in> range category_name"
    then obtain c where "s = category_name c" by blast
    then show "s \<in> set category_names" by (cases c) (simp_all add: category_names_def)
  qed
qed

lemma bcrypt_compare_hash [simp]: "bcrypt_compare pw' (bcrypt_hash pw salt) \<longleftrightarrow> pw' = pw"
  by (simp add: bcrypt_compare_def bcrypt_hash_def)

lemma save_new_user_Some [store_simps]:
  "save_new_user u d = Some (i, d') \<Longrightarrow>
     i = next_oid d \<and> d' = d\<lparr>user_coll := user_coll d @ [(next_oid d, u)], next_oid := Suc (next_oid d)\<rparr>"
  by (auto simp: save_new_user_def split: if_splits)

lemma save_new_post_Some [store_simps]:
  "save_new_post p d = Some (i, d') \<Longrightarrow>
     i = next_oid d \<and> post_valid p \<and>
     d' = d\<lparr>post_coll := post_coll d @ [(next_oid d, p)], next_oid := Suc (next_oid d)\<rparr>"
  by (auto simp: save_new_post_def split: if_splits)

lemma save_post_Some [store_simps]:
  "save_post i p d = Some d' \<longleftrightarrow> post_valid p \<and> d' = d\<lparr>post_coll := AList.update i p (post_coll d)\<rparr>"
  by (auto simp: save_post_def)

lemma db_ok_save_new_user:
  "db_ok d \<Longrightarrow> save_new_user u d = Some (i, d') \<Longrightarrow> db_ok d'"
  by (auto simp: db_ok_def dest!: save_new_user_Some intro: coll_ok_append coll_ok_mono)

lemma db_ok_save_new_post:
  "db_ok d \<Longrightarrow> save_new_post p d = Some (i, d') \<Longrightarrow> db_ok d'"
  by (auto simp: db_ok_def dest!: save_new_post_Some intro: coll_ok_append coll_ok_mono)

lemma db_ok_save_post:
  "db_ok d \<Longrightarrow> map_of (post_coll d) i = Some p \<Longrightarrow> save_post i p' d = Some d' \<Longrightarrow> db_ok d'"
  by (auto simp: db_ok_def save_post_Some intro: coll_ok_update)

lemma db_ok_empty: "db_ok empty_db"
  by (simp add: db_ok_def empty_db_def coll_ok_def coll_ids_def)


lemma db_ok_update_post:
  "db_ok d \<Longrightarrow> map_of (post_coll d) i = Some p \<Longrightarrow> db_ok (d\<lparr>post_coll := AList.update i p' (post_coll d)\<rparr>)"
  by (auto simp: db_ok_def intro: coll_ok_update)

lemma posts_valid_update:
  "posts_valid d \<Longrightarrow> post_valid p' \<Longrightarrow> posts_valid (d\<lparr>post_coll := AList.update i p' (post_coll d)\<rparr>)"
  by (auto simp: posts_valid_def intro: list_all_update)

lemma posts_valid_stored:
  "posts_valid d \<Longrightarrow> map_of (post_coll d) i = Some p \<Longrightarrow> post_valid p"
  by (auto simp: posts_valid_def list_all_iff dest: map_of_SomeD)

end
