(* ===== verification/Auth.thy ===== *)
theory Auth
  imports Model
begin

text \<open>
  Authentication: the session token (\<open>jsonwebtoken\<close>, an external library
  modelled abstractly), the \<open>verifyToken\<close> middleware of
  \<open>src/middleware/auth.ts\<close> and the three handlers of
  \<open>src/controllers/authController.ts\<close>. A handler takes the request's
  fields, the server's configuration (the signing secret) and the random salt
  bcrypt draws, and returns its reply together with the new store.
\<close>

section \<open>Identities and tokens\<close>

text \<open>
  An identity is a user document read with \<open>.lean()\<close> and without its
  password: the fields a token carries and the handlers read as
  \<open>req.user.user\<close>.
\<close>

record identity =
  id_oid :: oid
  id_username :: string
  id_email :: string
  id_imageUrl :: string

definition identity_of :: "oid \<Rightarrow> user \<Rightarrow> identity" where
  "identity_of i u =
     \<lparr>id_oid = i, id_username = username u, id_email = email u, id_imageUrl = user_imageUrl u\<rparr>"

text \<open>
  The payload \<open>{user: ...}\<close> of a token. Its \<open>user\<close> property is absent when
  the value signed was not serialisable data (a function is dropped by
  \<open>JSON.stringify\<close>).
\<close>

datatype claims = Claims (claim_user: "identity option")

text \<open>
  A token is either a signature over claims under a secret, or any other
  string. The signature is modelled as perfect: only the holder of the secret
  makes a token that verifies under it.
\<close>

datatype token = JWT claims string | Garbage string

definition jwt_sign :: "claims \<Rightarrow> string \<Rightarrow> token" where
  "jwt_sign c secret = JWT c secret"

fun jwt_verify :: "token \<Rightarrow> string \<Rightarrow> claims option" where
  "jwt_verify (JWT c k) secret = (if k = secret then Some c else None)"
| "jwt_verify (Garbage s) secret = None"

datatype cookie_op = SetCookie token | ClearCookie

section \<open>The verifyToken middleware\<close>

text \<open>
  \<open>verifyToken\<close>: no \<open>access_token\<close> cookie, or one that fails
  verification, is a bare 401; otherwise the decoded claims become
  \<open>req.user\<close> and the next handler runs.
\<close>

definition verifyToken :: "string \<Rightarrow> token option \<Rightarrow> api_error + claims" where
  "verifyToken secret cookie =
     (case cookie of
        None \<Rightarrow> Inl (SendStatus 401)
      | Some t \<Rightarrow> (case jwt_verify t secret of None \<Rightarrow> Inl (SendStatus 401) | Some c \<Rightarrow> Inr c))"

text \<open>
  \<open>req.user.user._id\<close>, as every authenticated handler reads it: a
  \<open>TypeError\<close> (here \<open>None\<close>) when the claims carry no user.
\<close>

definition req_user_id :: "claims \<Rightarrow> oid option" where
  "req_user_id c = map_option id_oid (claim_user c)"

section \<open>registerUser\<close>

text \<open>
  The e-mail is checked first, then the user name; the password is hashed with
  a fresh salt; the user is saved (schema and unique indexes again), read back
  by e-mail without the password, and a token is set. The token signs
  \<open>{user: registerUser}\<close>, the handler function itself, not the user just
  read back (\<open>registeredUser\<close>): its payload carries no user.
\<close>

definition registerUser ::
  "string \<Rightarrow> string \<Rightarrow> string \<Rightarrow> string \<Rightarrow> nat \<Rightarrow> db \<Rightarrow> (identity \<times> cookie_op) response \<times> db" where
  "registerUser secret uname mail pw salt d =
     (if find_one (\<lambda>u. email u = mail) (user_coll d) \<noteq> None
      then (Inl (Http 409 ''User email already exists''), d)
      else if find_one (\<lambda>u. username u = uname) (user_coll d) \<noteq> None
      then (Inl (Http 409 ''Username already exists''), d)
      else
        (let newUser = \<lparr>username = uname, email = mail, password = bcrypt_hash pw salt,
                        user_imageUrl = default_user_image\<rparr>
         in case save_new_user newUser d of
              None \<Rightarrow> (Inl server_error, d)
            | Some (i, d') \<Rightarrow>
                (case find_one (\<lambda>u. email u = mail) (user_coll d') of
                   None \<Rightarrow> (Inl (Http 404 ''User not found''), d')
                 | Some (j, u) \<Rightarrow>
                     (Inr (201, identity_of j u, SetCookie (jwt_sign (Claims None) secret)), d'))))"

section \<open>loginUser\<close>

text \<open>
  An unknown user name and a wrong password give the same 400 reply. On
  success the token signs the user without its password.
\<close>

definition loginUser ::
  "string \<Rightarrow> string \<Rightarrow> string \<Rightarrow> db \<Rightarrow> (identity \<times> cookie_op) response" where
  "loginUser secret uname pw d =
     (case find_one (\<lambda>u. username u = uname) (user_coll d) of
        None \<Rightarrow> Inl (Http 400 ''Invalid credentials'')
      | Some (i, u) \<Rightarrow>
          (if \<not> bcrypt_compare pw (password u) then Inl (Http 400 ''Invalid credentials'')
           else Inr (201, identity_of i u, SetCookie (jwt_sign (Claims (Some (identity_of i u))) secret))))"

section \<open>logoutUser\<close>

definition logoutUser :: "(string \<times> cookie_op) response" where
  "logoutUser = Inr (200, ''Successfully logged out'', ClearCookie)"

section \<open>Concrete data for the witnesses\<close>

definition demo_user :: "string \<Rightarrow> user" where
  "demo_user n =
     \<lparr>username = n, email = n @ ''@mail.example'', password = bcrypt_hash ''pass'' 7,
      user_imageUrl = default_user_image\<rparr>"

definition demo_users :: "user coll" where
  "demo_users = [(1, demo_user ''alice''), (2, demo_user ''bob'')]"

section \<open>Lemmas\<close>

lemma jwt_verify_sign [simp]: "jwt_verify (jwt_sign c secret) secret' = (if secret = secret' then Some c else None)"
  by (simp add: jwt_sign_def)

lemma verifyToken_Inr:
  "verifyToken secret cookie = Inr c \<longleftrightarrow> (\<exists>t. cookie = Some t \<and> jwt_verify t secret = Some c)"
  by (auto simp: verifyToken_def split: option.splits)

lemma registerUser_fresh_cases:
  assumes "find_one (\<lambda>u. email u = mail) (user_coll d) = None"
    and "find_one (\<lambda>u. username u = uname) (user_coll d) = None"
  shows "registerUser secret uname mail pw salt d =
    (if uname = [] \<or> mail = [] then (Inl server_error, d)
     else (Inr (201, identity_of (next_oid d) \<lparr>username = uname, email = mail, password = bcrypt_hash pw salt,
                        user_imageUrl = default_user_image\<rparr>,
                SetCookie (jwt_sign (Claims None) secret)),
           d\<lparr>user_coll := user_coll d @ [(next_oid d, \<lparr>username = uname, email = mail,
                password = bcrypt_hash pw salt, user_imageUrl = default_user_image\<rparr>)],
             next_oid := Suc (next_oid d)\<rparr>))"
  using assms
  by (simp add: registerUser_def save_new_user_def user_valid_def find_one_append_new)

lemma registerUser_Inr:
  assumes "registerUser secret uname mail pw salt d = (Inr x, d')"
  shows "find_one (\<lambda>u. email u = mail) (user_coll d) = None \<and>
         find_one (\<lambda>u. username u = uname) (user_coll d) = None \<and> uname \<noteq> [] \<and> mail \<noteq> [] \<and>
         x = (201, identity_of (next_oid d) \<lparr>username = uname, email = mail, password = bcrypt_hash pw salt,
                        user_imageUrl = default_user_image\<rparr>, SetCookie (jwt_sign (Claims None) secret)) \<and>
         d' = d\<lparr>user_coll := user_coll d @ [(next_oid d, \<lparr>username = uname, email = mail,
                password = bcrypt_hash pw salt, user_imageUrl = default_user_image\<rparr>)],
             next_oid := Suc (next_oid d)\<rparr>"
proof -
  have e: "find_one (\<lambda>u. email u = mail) (user_coll d) = None"
  proof (rule ccontr)
    assume "find_one (\<lambda>u. email u = mail) (user_coll d) \<noteq> None"
    then have "fst (registerUser secret uname mail pw salt d) = Inl (Http 409 ''User email already exists'')"
      by (simp add: registerUser_def)
    with assms show False by simp
  qed
  have n: "find_one (\<lambda>u. username u = uname) (user_coll d) = None"
  proof (rule ccontr)
    assume "find_one (\<lambda>u. username u = uname) (user_coll d) \<noteq> None"
    with e have "fst (registerUser secret uname mail pw salt d) = Inl (Http 409 ''Username already exists'')"
      by (simp add: registerUser_def)
    with assms show False by simp
  qed
  show ?thesis
    using assms registerUser_fresh_cases [OF e n, of secret pw salt] e n by (auto split: if_splits)
qed

lemma registerUser_db_ok:
  "db_ok d \<Longrightarrow> registerUser secret uname mail pw salt d = (r, d') \<Longrightarrow> db_ok d'"
  by (auto simp: registerUser_def Let_def db_ok_save_new_user
           split: if_splits option.splits prod.splits)


section \<open>Properties of the authenticator\<close>

text \<open>
  C16. Registering with an e-mail already in use fails with 409, whatever the
  user name, and changes nothing.
\<close>

theorem registerUser_duplicate_email:
  assumes "find_one (\<lambda>u. email u = mail) (user_coll d) \<noteq> None"
  shows "registerUser secret uname mail pw salt d = (Inl (Http 409 ''User email already exists''), d)"
  using assms by (simp add: registerUser_def)

lemma registerUser_duplicate_email_witness:
  "registerUser ''k'' ''carol'' ''bob@mail.example'' ''pw12'' 3 \<lparr>user_coll = demo_users, post_coll = [],
      comment_coll = [], next_oid = 4\<rparr> =
   (Inl (Http 409 ''User email already exists''),
    \<lparr>user_coll = demo_users, post_coll = [], comment_coll = [], next_oid = 4\<rparr>)"
proof -
  have h: "find_one (\<lambda>u. email u = ''bob@mail.example'')
      (user_coll \<lparr>user_coll = demo_users, post_coll = [], comment_coll = [], next_oid = 4\<rparr>) \<noteq> None"
    by (simp add: find_one_def demo_users_def demo_user_def)
  show ?thesis using registerUser_duplicate_email [OF h] .
qed

text \<open>
  C6. Registering with a fresh e-mail but a user name already in use fails
  with 409 and changes nothing.
\<close>

theorem registerUser_duplicate_username:
  assumes "find_one (\<lambda>u. email u = mail) (user_coll d) = None"
    and "find_one (\<lambda>u. username u = uname) (user_coll d) \<noteq> None"
  shows "registerUser secret uname mail pw salt d = (Inl (Http 409 ''Username already exists''), d)"
  using assms by (simp add: registerUser_def)

lemma registerUser_duplicate_username_witness:
  "registerUser ''k'' ''bob'' ''new@mail.example'' ''pw12'' 3 \<lparr>user_coll = demo_users, post_coll = [],
      comment_coll = [], next_oid = 4\<rparr> =
   (Inl (Http 409 ''Username already exists''),
    \<lparr>user_coll = demo_users, post_coll = [], comment_coll = [], next_oid = 4\<rparr>)"
proof -
  let ?d = "\<lparr>user_coll = demo_users, post_coll = [], comment_coll = [], next_oid = 4\<rparr>"
  have h1: "find_one (\<lambda>u. email u = ''new@mail.example'') (user_coll ?d) = None"
    by (simp add: find_one_def demo_users_def demo_user_def)
  have h2: "find_one (\<lambda>u. username u = ''bob'') (user_coll ?d) \<noteq> None"
    by (simp add: find_one_def demo_users_def demo_user_def)
  show ?thesis using registerUser_duplicate_username [OF h1 h2] .
qed

text \<open>
  C18. Every failed login gets the same reply, 400 "Invalid credentials":
  an unknown user name and a wrong password cannot be told apart.
\<close>

theorem loginUser_failure_uniform:
  assumes "loginUser secret uname pw d = Inl e"
  shows "e = Http 400 ''Invalid credentials''"
  using assms by (auto simp: loginUser_def split: option.splits if_splits)

lemma loginUser_failure_uniform_witness:
  "loginUser ''k'' ''carol'' ''pass'' \<lparr>user_coll = demo_users, post_coll = [], comment_coll = [], next_oid = 4\<rparr> =
     Inl (Http 400 ''Invalid credentials'') \<and>
   loginUser ''k'' ''bob'' ''wrong'' \<lparr>user_coll = demo_users, post_coll = [], comment_coll = [], next_oid = 4\<rparr> =
     Inl (Http 400 ''Invalid credentials'')"
proof -
  let ?d = "\<lparr>user_coll = demo_users, post_coll = [], comment_coll = [], next_oid = 4\<rparr>"
  have h1: "loginUser ''k'' ''carol'' ''pass'' ?d = Inl (Http 400 ''Invalid credentials'')"
    by (simp add: loginUser_def find_one_def demo_users_def demo_user_def)
  have h2: "loginUser ''k'' ''bob'' ''wrong'' ?d = Inl (Http 400 ''Invalid credentials'')"
    by (simp add: loginUser_def find_one_def demo_users_def demo_user_def)
  show ?thesis
    using loginUser_failure_uniform [OF h1] loginUser_failure_uniform [OF h2] h1 h2 by simp
qed

text \<open>
  C19. \<open>verifyToken\<close> lets a request through with claims \<open>c\<close> exactly when
  its cookie is the token the server signed for \<open>c\<close> with its own secret;
  a missing cookie, a forged or foreign token is the bare 401.
\<close>

theorem verifyToken_accepts_only_signed:
  "(verifyToken secret cookie = Inr c \<longleftrightarrow> cookie = Some (jwt_sign c secret)) \<and>
   (verifyToken secret cookie = Inl (SendStatus 401) \<or> (\<exists>c'. verifyToken secret cookie = Inr c'))"
proof
  show "verifyToken secret cookie = Inr c \<longleftrightarrow> cookie = Some (jwt_sign c secret)"
  proof
    assume "verifyToken secret cookie = Inr c"
    then obtain t where "cookie = Some t" and "jwt_verify t secret = Some c"
      by (auto simp: verifyToken_Inr)
    then show "cookie = Some (jwt_sign c secret)"
      by (cases t) (auto simp: jwt_sign_def split: if_splits)
  qed (simp add: verifyToken_def)
  show "verifyToken secret cookie = Inl (SendStatus 401) \<or> (\<exists>c'. verifyToken secret cookie = Inr c')"
    by (auto simp: verifyToken_def split: option.splits)
qed

end
