(* ===== verification/Registration.thy ===== *)
theory Registration
  imports Auth
begin

text \<open>
  Concurrent registrations. \<open>registerUser\<close> (\<open>src/controllers/authController.ts\<close>)
  awaits \<open>User.findOne({email})\<close>, then \<open>User.findOne({username})\<close>, then
  \<open>newUser.save()\<close> (and the read-back \<open>findOne\<close>); Node.js runs other
  requests' steps at each await. A request is therefore three steps over the
  shared store: the e-mail check, the user-name check, and the save with its
  read-back. The salt and the hash touch no shared state, and no handler
  deletes a user, so merging them and the read-back into the save step loses
  no interleaving that changes an outcome.

  The checks are the handler's own; the unique indexes of \<open>src/models/User.ts\<close>
  are checked again by \<open>save()\<close> (\<open>save_new_user\<close>), which throws the
  duplicate-key error E11000 into the handler's \<open>catch\<close>: a 500.
\<close>

section \<open>Registration requests in flight\<close>

text \<open>
  A registration: not started, past the e-mail check, past the user-name
  check, or answered with the handler's whole reply.
\<close>

datatype rphase = RReady | REmailFree | RNameFree | RDone "(identity \<times> cookie_op) response"

record rreq =
  rg_username :: string
  rg_email :: string
  rg_password :: string
  rg_salt :: nat
  rg_phase :: rphase

text \<open>The document \<open>new User({username, email, password})\<close> with the hashed password.\<close>

definition reg_user :: "rreq \<Rightarrow> user" where
  "reg_user r =
     \<lparr>username = rg_username r, email = rg_email r, password = bcrypt_hash (rg_password r) (rg_salt r),
      user_imageUrl = default_user_image\<rparr>"

text \<open>\<open>await User.findOne({email})\<close> and its 409.\<close>

definition email_check_step :: "db \<Rightarrow> rreq \<Rightarrow> rphase" where
  "email_check_step d r =
     (if find_one (\<lambda>u. email u = rg_email r) (user_coll d) \<noteq> None
      then RDone (Inl (Http 409 ''User email already exists''))
      else REmailFree)"

text \<open>\<open>await User.findOne({username})\<close> and its 409.\<close>

definition name_check_step :: "db \<Rightarrow> rreq \<Rightarrow> rphase" where
  "name_check_step d r =
     (if find_one (\<lambda>u. username u = rg_username r) (user_coll d) \<noteq> None
      then RDone (Inl (Http 409 ''Username already exists''))
      else RNameFree)"

text \<open>\<open>await newUser.save()\<close>, the read-back by e-mail and the reply.\<close>

definition save_step :: "string \<Rightarrow> db \<Rightarrow> rreq \<Rightarrow> db \<times> rphase" where
  "save_step secret d r =
     (case save_new_user (reg_user r) d of
        None \<Rightarrow> (d, RDone (Inl server_error))
      | Some (i, d') \<Rightarrow>
          (case find_one (\<lambda>u. email u = rg_email r) (user_coll d') of
             None \<Rightarrow> (d', RDone (Inl (Http 404 ''User not found'')))
           | Some (j, u) \<Rightarrow> (d', RDone (Inr (201, identity_of j u, SetCookie (jwt_sign (Claims None) secret))))))"

text \<open>One step of the \<open>k\<close>-th request; an answered request does nothing.\<close>

definition reg_step :: "string \<Rightarrow> nat \<Rightarrow> db \<times> rreq list \<Rightarrow> db \<times> rreq list" where
  "reg_step secret k st =
     (let (d, rs) = st in
      if k < length rs then
        (case rg_phase (rs ! k) of
           RReady \<Rightarrow> (d, rs[k := (rs ! k)\<lparr>rg_phase := email_check_step d (rs ! k)\<rparr>])
         | REmailFree \<Rightarrow> (d, rs[k := (rs ! k)\<lparr>rg_phase := name_check_step d (rs ! k)\<rparr>])
         | RNameFree \<Rightarrow> (let (d', ph) = save_step secret d (rs ! k) in (d', rs[k := (rs ! k)\<lparr>rg_phase := ph\<rparr>]))
         | RDone x \<Rightarrow> (d, rs))
      else (d, rs))"

text \<open>A schedule: the indices of the requests whose steps run, in order.\<close>

definition run_reg :: "string \<Rightarrow> nat list \<Rightarrow> db \<times> rreq list \<Rightarrow> db \<times> rreq list" where
  "run_reg secret ks st = fold (reg_step secret) ks st"

definition reg_request :: "string \<Rightarrow> string \<Rightarrow> string \<Rightarrow> nat \<Rightarrow> rreq" where
  "reg_request n m pw salt = \<lparr>rg_username = n, rg_email = m, rg_password = pw, rg_salt = salt, rg_phase = RReady\<rparr>"

text \<open>
  What the unique indexes promise (and the specification states of users):
  no two stored users share an e-mail or a user name.
\<close>

definition users_unique :: "db \<Rightarrow> bool" where
  "users_unique d \<longleftrightarrow>
     distinct (map (\<lambda>(i, u). email u) (user_coll d)) \<and> distinct (map (\<lambda>(i, u). username u) (user_coll d))"

text \<open>
  Concrete data for the witnesses: the two demonstration users, and two
  registrations of new users with the same new e-mail.
\<close>

definition demo_reg_db :: db where
  "demo_reg_db = empty_db\<lparr>user_coll := demo_users, next_oid := 3\<rparr>"

definition demo_regs :: "rreq list" where
  "demo_regs = [reg_request ''carol'' ''carol@mail.example'' ''pw1'' 1,
                reg_request ''dave'' ''carol@mail.example'' ''pw2'' 2]"

section \<open>Lemmas\<close>

lemma users_unique_save_new_user:
  assumes "users_unique d" and "save_new_user u d = Some (i, d')"
  shows "users_unique d'"
proof -
  have "\<forall>(j, v)\<in>set (user_coll d). email v \<noteq> email u" "\<forall>(j, v)\<in>set (user_coll d). username v \<noteq> username u"
    using assms(2) by (auto simp: save_new_user_def find_one_None split: if_splits)
  then show ?thesis
    using assms by (fastforce simp: users_unique_def dest!: save_new_user_Some)
qed

lemma users_unique_save_step:
  "users_unique d \<Longrightarrow> users_unique (fst (save_step secret d r))"
  by (auto simp: save_step_def intro: users_unique_save_new_user split: option.splits prod.splits)

lemma users_unique_reg_step:
  assumes "users_unique (fst st)"
  shows "users_unique (fst (reg_step secret k st))"
proof (cases st)
  case (Pair d rs)
  then show ?thesis
    using assms users_unique_save_step [of d secret "rs ! k"]
    by (auto simp: reg_step_def split: prod.splits rphase.splits)
qed

lemma run_reg_Cons [simp]: "run_reg secret (k # ks) st = run_reg secret ks (reg_step secret k st)"
  by (simp add: run_reg_def)

lemma run_reg_Nil [simp]: "run_reg secret [] st = st"
  by (simp add: run_reg_def)

lemma reg_user_simps [simp]:
  "username (reg_user r) = rg_username r" "email (reg_user r) = rg_email r"
  by (simp_all add: reg_user_def)

lemmas reg_step_simps = reg_step_def email_check_step_def name_check_step_def save_step_def
  reg_request_def save_new_user_def user_valid_def

section \<open>Properties of concurrent registration\<close>

text \<open>
  C39. Two registrations with the same new e-mail whose checks both run
  before either save: both pass the handler's checks, the first is stored and
  answered 201, the second's save fails on the unique index and it is
  answered 500 ``Something went wrong''. Run one after the other, the second
  gets the 409 ``User email already exists'' that the specification's
  \<open>Conflict\<close> promises.
\<close>

theorem racing_registrations_conflict_500:
  assumes "find_one (\<lambda>u. email u = m) (user_coll d) = None"
    and "find_one (\<lambda>u. username u = na) (user_coll d) = None"
    and "find_one (\<lambda>u. username u = nb) (user_coll d) = None"
    and "na \<noteq> []" and "m \<noteq> []"
  shows "run_reg secret [0, 1, 0, 1, 0, 1] (d, [reg_request na m pa sa, reg_request nb m pb sb]) =
           (d\<lparr>user_coll := user_coll d @ [(next_oid d, reg_user (reg_request na m pa sa))],
              next_oid := Suc (next_oid d)\<rparr>,
            [(reg_request na m pa sa)\<lparr>rg_phase := RDone (Inr (201,
                identity_of (next_oid d) (reg_user (reg_request na m pa sa)),
                SetCookie (jwt_sign (Claims None) secret)))\<rparr>,
             (reg_request nb m pb sb)\<lparr>rg_phase := RDone (Inl server_error)\<rparr>]) \<and>
         rg_phase (snd (run_reg secret [0, 0, 0, 1, 1, 1]
             (d, [reg_request na m pa sa, reg_request nb m pb sb])) ! 1) =
           RDone (Inl (Http 409 ''User email already exists''))"
  using assms by (simp add: reg_step_simps reg_user_def find_one_append_new)

theorem racing_registrations_conflict_500_witness:
  "map rg_phase (snd (run_reg ''secret'' [0, 1, 0, 1, 0, 1] (demo_reg_db, demo_regs))) =
     [RDone (Inr (201, identity_of 3 (reg_user (hd demo_regs)), SetCookie (jwt_sign (Claims None) ''secret''))),
      RDone (Inl server_error)] \<and>
   rg_phase (snd (run_reg ''secret'' [0, 0, 0, 1, 1, 1] (demo_reg_db, demo_regs)) ! 1) =
     RDone (Inl (Http 409 ''User email already exists''))"
  using racing_registrations_conflict_500 [where m = "''carol@mail.example''" and d = demo_reg_db
      and na = "''carol''" and nb = "''dave''" and secret = "''secret''"
      and pa = "''pw1''" and sa = 1 and pb = "''pw2''" and sb = 2]
  by (simp add: demo_regs_def demo_reg_db_def empty_db_def demo_users_def demo_user_def find_one_def)

text \<open>
  C31. Every schedule of any registration requests keeps user names and
  e-mails unique in the store: however the steps interleave, the unique
  indexes checked by \<open>save()\<close> reject a duplicate the handler's own checks
  missed.
\<close>

theorem registration_schedules_keep_users_unique:
  "users_unique (fst st) \<Longrightarrow> users_unique (fst (run_reg secret ks st))"
  unfolding run_reg_def by (induction ks arbitrary: st) (simp_all add: users_unique_reg_step)

theorem registration_schedules_keep_users_unique_witness:
  "users_unique (fst (run_reg ''secret'' [0, 1, 0, 1, 0, 1] (demo_reg_db, demo_regs)))"
  using registration_schedules_keep_users_unique [where st = "(demo_reg_db, demo_regs)"
      and secret = "''secret''" and ks = "[0, 1, 0, 1, 0, 1]"]
  by (simp add: users_unique_def demo_reg_db_def empty_db_def demo_users_def demo_user_def)

end
