(* ===== verification/Votes.thy ===== *)
theory Votes
  imports Auth
begin

text \<open>
  The vote engine: the handlers \<open>upvotePost\<close> and \<open>downvotePost\<close> of
  \<open>src/controllers/postController.ts\<close>. Each is split as the code is: the
  document mutation (\<open>upvote_apply\<close>, \<open>downvote_apply\<close>: the lines between
  the guards and \<open>save()\<close>) and the whole handler around it (the id read
  from the token, the look-up, the repeated-vote guard, the save). Beside them,
  the abstract specification of the vote engine (a per-user state
  none/upvoted/downvoted and its transition function), the post invariant, and
  the lemmas that the handlers refine the specification and keep the invariant.
\<close>

section \<open>The document mutations\<close>

text \<open>
  \<open>upvotePost\<close>, once the guard \<open>post.upVotedBy.includes(userId)\<close> has
  passed: withdraw a downvote if there is one, then count the upvote.
\<close>

definition upvote_apply :: "oid \<Rightarrow> post \<Rightarrow> post" where
  "upvote_apply u p =
     (let p1 = (if u \<in> set (downVotedBy p)
                then p\<lparr>downVotes := downVotes p - 1, downVotedBy := filter (\<lambda>x. x \<noteq> u) (downVotedBy p)\<rparr>
                else p)
      in p1\<lparr>upVotes := upVotes p1 + 1, upVotedBy := upVotedBy p1 @ [u]\<rparr>)"

definition downvote_apply :: "oid \<Rightarrow> post \<Rightarrow> post" where
  "downvote_apply u p =
     (let p1 = (if u \<in> set (upVotedBy p)
                then p\<lparr>upVotes := upVotes p - 1, upVotedBy := filter (\<lambda>x. x \<noteq> u) (upVotedBy p)\<rparr>
                else p)
      in p1\<lparr>downVotes := downVotes p1 + 1, downVotedBy := downVotedBy p1 @ [u]\<rparr>)"

section \<open>The handlers\<close>

text \<open>
  \<open>const userId = req.user.user._id\<close> stands before the \<open>try\<close> block: a
  token without a user makes the handler's promise reject and no reply is sent.
  A malformed \<open>postId\<close> makes \<open>findById\<close> throw inside the \<open>try\<close>: 500.
\<close>

definition upvotePost :: "db \<Rightarrow> id_param \<Rightarrow> claims \<Rightarrow> post response \<times> db" where
  "upvotePost d postId c =
     (case req_user_id c of
        None \<Rightarrow> (Inl NoResponse, d)
      | Some userId \<Rightarrow>
          (case postId of
             Malformed s \<Rightarrow> (Inl server_error, d)
           | Oid i \<Rightarrow>
               (case map_of (post_coll d) i of
                  None \<Rightarrow> (Inl (Http 404 ''Post not found''), d)
                | Some post \<Rightarrow>
                    (if userId \<in> set (upVotedBy post)
                     then (Inl (Http 400 ''You have already upvoted this post''), d)
                     else
                       (let post' = upvote_apply userId post
                        in case save_post i post' d of
                             None \<Rightarrow> (Inl server_error, d)
                           | Some d' \<Rightarrow> (Inr (200, post'), d'))))))"

definition downvotePost :: "db \<Rightarrow> id_param \<Rightarrow> claims \<Rightarrow> post response \<times> db" where
  "downvotePost d postId c =
     (case req_user_id c of
        None \<Rightarrow> (Inl NoResponse, d)
      | Some userId \<Rightarrow>
          (case postId of
             Malformed s \<Rightarrow> (Inl server_error, d)
           | Oid i \<Rightarrow>
               (case map_of (post_coll d) i of
                  None \<Rightarrow> (Inl (Http 404 ''Post not found''), d)
                | Some post \<Rightarrow>
                    (if userId \<in> set (downVotedBy post)
                     then (Inl (Http 400 ''You have already downvoted this post''), d)
                     else
                       (let post' = downvote_apply userId post
                        in case save_post i post' d of
                             None \<Rightarrow> (Inl server_error, d)
                           | Some d' \<Rightarrow> (Inr (200, post'), d'))))))"

section \<open>Specification: the per-user vote state\<close>

datatype vote_state = NoVote | Upvoted | Downvoted

datatype direction = Up | Down

text \<open>
  The state of a user on a post, read from the two id lists. The code tests
  \<open>upVotedBy\<close> first, and so does the abstraction.
\<close>

definition vote_of :: "post \<Rightarrow> oid \<Rightarrow> vote_state" where
  "vote_of p u =
     (if u \<in> set (upVotedBy p) then Upvoted else if u \<in> set (downVotedBy p) then Downvoted else NoVote)"

text \<open>
  The transition function of the specification: a repeated vote in the same
  direction is refused (\<open>None\<close>, the \<open>AlreadyVoted\<close> error), every other
  vote moves the user to that direction.
\<close>

fun cast_vote :: "vote_state \<Rightarrow> direction \<Rightarrow> vote_state option" where
  "cast_vote Upvoted Up = None"
| "cast_vote Downvoted Down = None"
| "cast_vote s Up = Some Upvoted"
| "cast_vote s Down = Some Downvoted"

text \<open>
  The post invariant: the counters are the lengths of the id lists, a user
  appears at most once in each list and never in both.
\<close>

definition votes_ok :: "post \<Rightarrow> bool" where
  "votes_ok p \<longleftrightarrow>
     upVotes p = int (length (upVotedBy p)) \<and> downVotes p = int (length (downVotedBy p)) \<and>
     distinct (upVotedBy p) \<and> distinct (downVotedBy p) \<and>
     set (upVotedBy p) \<inter> set (downVotedBy p) = {}"

definition all_votes_ok :: "db \<Rightarrow> bool" where
  "all_votes_ok d \<longleftrightarrow> list_all (\<lambda>(i, p). votes_ok p) (post_coll d)"

text \<open>The vote handler of one direction, as the specification sees it.\<close>

fun vote_apply :: "direction \<Rightarrow> oid \<Rightarrow> post \<Rightarrow> post" where
  "vote_apply Up = upvote_apply"
| "vote_apply Down = downvote_apply"

fun vote_handler :: "direction \<Rightarrow> db \<Rightarrow> id_param \<Rightarrow> claims \<Rightarrow> post response \<times> db" where
  "vote_handler Up = upvotePost"
| "vote_handler Down = downvotePost"

text \<open>The 400 message of a repeated vote, by direction.\<close>

fun already_voted_msg :: "direction \<Rightarrow> string" where
  "already_voted_msg Up = ''You have already upvoted this post''"
| "already_voted_msg Down = ''You have already downvoted this post''"

section \<open>Concrete data for the witnesses\<close>

text \<open>
  User A (id 1) wrote post P (id 3); user B (id 2) votes on it. The store is the
  one the specification's scenario starts from.
\<close>

definition demo_post :: post where
  "demo_post =
     \<lparr>author = Some 1, title = ''Kidney care'', content = ''Drink water'', category = ''Kidney'',
      upVotes = 0, downVotes = 0, upVotedBy = [], downVotedBy = [],
      imageUrl = Some ''https://img.example/p.png'', comments = [], lastUpdated = Some 0\<rparr>"

definition demo_db :: db where
  "demo_db =
     \<lparr>user_coll = [(1, demo_user ''alice''), (2, demo_user ''bob'')],
      post_coll = [(3, demo_post)], comment_coll = [], next_oid = 4\<rparr>"

definition claims_of :: "oid \<Rightarrow> user \<Rightarrow> claims" where
  "claims_of i u = Claims (Some (identity_of i u))"

definition bob :: claims where
  "bob = claims_of 2 (demo_user ''bob'')"

section \<open>Lemmas on the mutations\<close>

lemma upvote_apply_fields [simp]:
  "upVotedBy (upvote_apply u p) = upVotedBy p @ [u]"
  "downVotedBy (upvote_apply u p) =
     (if u \<in> set (downVotedBy p) then filter (\<lambda>x. x \<noteq> u) (downVotedBy p) else downVotedBy p)"
  "upVotes (upvote_apply u p) = upVotes p + 1"
  "downVotes (upvote_apply u p) = (if u \<in> set (downVotedBy p) then downVotes p - 1 else downVotes p)"
  "title (upvote_apply u p) = title p" "content (upvote_apply u p) = content p"
  "category (upvote_apply u p) = category p" "imageUrl (upvote_apply u p) = imageUrl p"
  "author (upvote_apply u p) = author p" "comments (upvote_apply u p) = comments p"
  "lastUpdated (upvote_apply u p) = lastUpdated p"
  by (simp_all add: upvote_apply_def Let_def)

lemma downvote_apply_fields [simp]:
  "downVotedBy (downvote_apply u p) = downVotedBy p @ [u]"
  "upVotedBy (downvote_apply u p) =
     (if u \<in> set (upVotedBy p) then filter (\<lambda>x. x \<noteq> u) (upVotedBy p) else upVotedBy p)"
  "downVotes (downvote_apply u p) = downVotes p + 1"
  "upVotes (downvote_apply u p) = (if u \<in> set (upVotedBy p) then upVotes p - 1 else upVotes p)"
  "title (downvote_apply u p) = title p" "content (downvote_apply u p) = content p"
  "category (downvote_apply u p) = category p" "imageUrl (downvote_apply u p) = imageUrl p"
  "author (downvote_apply u p) = author p" "comments (downvote_apply u p) = comments p"
  "lastUpdated (downvote_apply u p) = lastUpdated p"
  by (simp_all add: downvote_apply_def Let_def)

lemmas vote_apply_fields = upvote_apply_fields downvote_apply_fields

lemma post_valid_upvote_apply [simp]: "post_valid (upvote_apply u p) \<longleftrightarrow> post_valid p"
  by (simp add: post_valid_def)

lemma post_valid_downvote_apply [simp]: "post_valid (downvote_apply u p) \<longleftrightarrow> post_valid p"
  by (simp add: post_valid_def)

lemma votes_ok_upvote_apply:
  assumes "votes_ok p" and "u \<notin> set (upVotedBy p)"
  shows "votes_ok (upvote_apply u p)"
  using assms
  by (auto simp: votes_ok_def vote_list_simps length_filter_neq_distinct)

lemma votes_ok_downvote_apply:
  assumes "votes_ok p" and "u \<notin> set (downVotedBy p)"
  shows "votes_ok (downvote_apply u p)"
  using assms
  by (auto simp: votes_ok_def vote_list_simps length_filter_neq_distinct)

lemma vote_of_upvote_apply:
  "u \<notin> set (upVotedBy p) \<Longrightarrow> vote_of (upvote_apply u p) = (vote_of p)(u := Upvoted)"
  by (auto simp: vote_of_def fun_eq_iff)

lemma vote_of_downvote_apply:
  "votes_ok p \<Longrightarrow> u \<notin> set (downVotedBy p) \<Longrightarrow> vote_of (downvote_apply u p) = (vote_of p)(u := Downvoted)"
  by (auto simp: vote_of_def votes_ok_def fun_eq_iff)

section \<open>Lemmas on the handlers\<close>

lemma req_user_id_claims_of [simp]: "req_user_id (claims_of i u) = Some i"
  by (simp add: req_user_id_def claims_of_def identity_of_def)

lemma upvotePost_found:
  assumes "req_user_id c = Some u" and "map_of (post_coll d) i = Some p"
  shows "upvotePost d (Oid i) c =
    (if u \<in> set (upVotedBy p) then (Inl (Http 400 (already_voted_msg Up)), d)
     else if post_valid p
     then (Inr (200, upvote_apply u p), d\<lparr>post_coll := AList.update i (upvote_apply u p) (post_coll d)\<rparr>)
     else (Inl server_error, d))"
  using assms by (simp add: upvotePost_def save_post_def Let_def)

lemma downvotePost_found:
  assumes "req_user_id c = Some u" and "map_of (post_coll d) i = Some p"
  shows "downvotePost d (Oid i) c =
    (if u \<in> set (downVotedBy p) then (Inl (Http 400 (already_voted_msg Down)), d)
     else if post_valid p
     then (Inr (200, downvote_apply u p), d\<lparr>post_coll := AList.update i (downvote_apply u p) (post_coll d)\<rparr>)
     else (Inl server_error, d))"
  using assms by (simp add: downvotePost_def save_post_def Let_def)

text \<open>
  The only way a vote handler changes the store: it rewrites one stored post
  with the mutation, for a user not yet in the list of that direction.
\<close>

lemma upvotePost_effect:
  assumes "upvotePost d pid c = (r, d')"
  shows "(\<exists>e. r = Inl e) \<and> d' = d \<or>
    (\<exists>i p u. pid = Oid i \<and> map_of (post_coll d) i = Some p \<and> req_user_id c = Some u \<and>
       u \<notin> set (upVotedBy p) \<and> post_valid p \<and>
       r = Inr (200, upvote_apply u p) \<and>
       d' = d\<lparr>post_coll := AList.update i (upvote_apply u p) (post_coll d)\<rparr>)"
  using assms
  by (auto simp: upvotePost_def save_post_def Let_def split: option.splits id_param.splits if_splits)

lemma downvotePost_effect:
  assumes "downvotePost d pid c = (r, d')"
  shows "(\<exists>e. r = Inl e) \<and> d' = d \<or>
    (\<exists>i p u. pid = Oid i \<and> map_of (post_coll d) i = Some p \<and> req_user_id c = Some u \<and>
       u \<notin> set (downVotedBy p) \<and> post_valid p \<and>
       r = Inr (200, downvote_apply u p) \<and>
       d' = d\<lparr>post_coll := AList.update i (downvote_apply u p) (post_coll d)\<rparr>)"
  using assms
  by (auto simp: downvotePost_def save_post_def Let_def split: option.splits id_param.splits if_splits)

lemma all_votes_ok_stored:
  "all_votes_ok d \<Longrightarrow> map_of (post_coll d) i = Some p \<Longrightarrow> votes_ok p"
  by (auto simp: all_votes_ok_def list_all_iff dest: map_of_SomeD)

lemma all_votes_ok_update:
  "all_votes_ok d \<Longrightarrow> votes_ok p \<Longrightarrow>
     all_votes_ok (d\<lparr>post_coll := AList.update i p (post_coll d)\<rparr>)"
  by (auto simp: all_votes_ok_def intro: list_all_update)

lemma votes_ok_counts:
  assumes "votes_ok p"
  shows "upVotes p = int (card {u. vote_of p u = Upvoted})"
    and "downVotes p = int (card {u. vote_of p u = Downvoted})"
proof -
  have "{u. vote_of p u = Upvoted} = set (upVotedBy p)"
    by (auto simp: vote_of_def split: if_splits)
  moreover have "{u. vote_of p u = Downvoted} = set (downVotedBy p)"
    using assms by (auto simp: vote_of_def votes_ok_def split: if_splits)
  ultimately show "upVotes p = int (card {u. vote_of p u = Upvoted})"
    and "downVotes p = int (card {u. vote_of p u = Downvoted})"
    using assms by (simp_all add: votes_ok_def distinct_card)
qed

lemma cast_vote_guard:
  assumes "votes_ok p"
  shows "cast_vote (vote_of p u) dir =
    (case dir of
       Up \<Rightarrow> (if u \<in> set (upVotedBy p) then None else Some Upvoted)
     | Down \<Rightarrow> (if u \<in> set (downVotedBy p) then None else Some Downvoted))"
  using assms by (cases dir) (auto simp: vote_of_def votes_ok_def)

lemmas demo_defs = demo_db_def demo_post_def demo_user_def bob_def claims_of_def identity_of_def

section \<open>Properties of the vote engine\<close>

text \<open>
  C1. Upvoting keeps the post invariant on every post of the store: counters
  equal to the lengths of the id lists, no duplicates, no user in both lists.
\<close>

theorem upvotePost_keeps_votes_ok:
  assumes "all_votes_ok d"
  shows "all_votes_ok (snd (upvotePost d pid c))"
proof -
  obtain r d' where eq: "upvotePost d pid c = (r, d')"
    by (cases "upvotePost d pid c")
  from upvotePost_effect [OF eq] assms have "all_votes_ok d'"
    by (auto intro: all_votes_ok_update votes_ok_upvote_apply all_votes_ok_stored)
  with eq show ?thesis by simp
qed

lemma upvotePost_keeps_votes_ok_witness:
  "all_votes_ok demo_db \<and> all_votes_ok (snd (upvotePost demo_db (Oid 3) bob))"
proof -
  have h: "all_votes_ok demo_db"
    by (simp add: all_votes_ok_def votes_ok_def demo_defs)
  show ?thesis using h upvotePost_keeps_votes_ok [OF h] by simp
qed

text \<open>C2. Downvoting keeps the post invariant on every post of the store.\<close>

theorem downvotePost_keeps_votes_ok:
  assumes "all_votes_ok d"
  shows "all_votes_ok (snd (downvotePost d pid c))"
proof -
  obtain r d' where eq: "downvotePost d pid c = (r, d')"
    by (cases "downvotePost d pid c")
  from downvotePost_effect [OF eq] assms have "all_votes_ok d'"
    by (auto intro: all_votes_ok_update votes_ok_downvote_apply all_votes_ok_stored)
  with eq show ?thesis by simp
qed

lemma downvotePost_keeps_votes_ok_witness:
  "all_votes_ok demo_db \<and> all_votes_ok (snd (downvotePost demo_db (Oid 3) bob))"
proof -
  have h: "all_votes_ok demo_db"
    by (simp add: all_votes_ok_def votes_ok_def demo_defs)
  show ?thesis using h downvotePost_keeps_votes_ok [OF h] by simp
qed

text \<open>
  C3. Refinement: on a stored, valid post that satisfies the invariant, each
  vote handler does what the abstract transition \<open>cast_vote\<close> prescribes for
  the voter's state. A refused transition is the 400 reply with the store
  unchanged; an accepted one writes back the mutated post, whose abstract
  state is the old one with the voter moved, and which again satisfies the
  invariant.
\<close>

theorem vote_handler_refines_cast_vote:
  assumes stored: "map_of (post_coll d) i = Some p" and inv: "votes_ok p"
    and valid: "post_valid p" and user: "req_user_id c = Some u"
  shows "vote_handler dir d (Oid i) c =
      (case cast_vote (vote_of p u) dir of
         None \<Rightarrow> (Inl (Http 400 (already_voted_msg dir)), d)
       | Some s \<Rightarrow> (Inr (200, vote_apply dir u p),
                    d\<lparr>post_coll := AList.update i (vote_apply dir u p) (post_coll d)\<rparr>))
    \<and> (\<forall>s. cast_vote (vote_of p u) dir = Some s \<longrightarrow>
           vote_of (vote_apply dir u p) = (vote_of p)(u := s) \<and> votes_ok (vote_apply dir u p))"
proof (cases dir)
  case Up
  then show ?thesis
    using upvotePost_found [OF user stored] cast_vote_guard [OF inv, of u dir] valid inv
    by (simp add: vote_of_upvote_apply votes_ok_upvote_apply)
next
  case Down
  then show ?thesis
    using downvotePost_found [OF user stored] cast_vote_guard [OF inv, of u dir] valid inv
    by (simp add: vote_of_downvote_apply votes_ok_downvote_apply)
qed

lemma vote_handler_refines_cast_vote_witness:
  "vote_handler Up demo_db (Oid 3) bob =
     (Inr (200, upvote_apply 2 demo_post),
      demo_db\<lparr>post_coll := AList.update 3 (upvote_apply 2 demo_post) (post_coll demo_db)\<rparr>)"
proof -
  have stored: "map_of (post_coll demo_db) 3 = Some demo_post" by (simp add: demo_db_def)
  have inv: "votes_ok demo_post" by (simp add: votes_ok_def demo_post_def)
  have valid: "post_valid demo_post" by (simp add: post_valid_def demo_post_def category_names_def)
  have user: "req_user_id bob = Some 2" by (simp add: bob_def)
  have "cast_vote (vote_of demo_post 2) Up = Some Upvoted" by (simp add: vote_of_def demo_post_def)
  then show ?thesis
    using vote_handler_refines_cast_vote [OF stored inv valid user, of Up] by simp
qed

text \<open>
  C4. A repeated upvote by the same user fails with 400 and leaves the store as
  the first upvote left it.
\<close>

theorem upvotePost_repeat_fails:
  assumes "upvotePost d pid c = (Inr x, d')"
  shows "upvotePost d' pid c = (Inl (Http 400 ''You have already upvoted this post''), d')"
proof -
  from upvotePost_effect [OF assms] obtain i p u where
    "pid = Oid i" and "req_user_id c = Some u" and "post_valid p" and
    "d' = d\<lparr>post_coll := AList.update i (upvote_apply u p) (post_coll d)\<rparr>"
    by auto
  then show ?thesis
    by (simp add: upvotePost_def map_of_update_same)
qed

lemma upvotePost_repeat_fails_witness:
  "upvotePost (snd (upvotePost demo_db (Oid 3) bob)) (Oid 3) bob =
     (Inl (Http 400 ''You have already upvoted this post''), snd (upvotePost demo_db (Oid 3) bob))"
proof -
  have h: "upvotePost demo_db (Oid 3) bob =
      (Inr (200, upvote_apply 2 demo_post), snd (upvotePost demo_db (Oid 3) bob))"
    by (simp add: upvotePost_def save_post_def post_valid_def category_names_def demo_defs req_user_id_def Let_def)
  show ?thesis using upvotePost_repeat_fails [OF h] .
qed

text \<open>
  C25. An upvote followed by a downvote of the same user: the downvote succeeds,
  takes one from the upvote counter and adds one to the downvote counter of the
  post the upvote left, and leaves the user in the downvote list only.
\<close>

theorem upvote_then_downvote:
  assumes up: "upvotePost d pid c = (Inr (200, p1), d1)" and user: "req_user_id c = Some u"
  shows "\<exists>p2 d2. downvotePost d1 pid c = (Inr (200, p2), d2) \<and>
           upVotes p2 = upVotes p1 - 1 \<and> downVotes p2 = downVotes p1 + 1 \<and>
           u \<in> set (downVotedBy p2) \<and> u \<notin> set (upVotedBy p2)"
proof -
  from upvotePost_effect [OF up] user obtain i p where
    pid: "pid = Oid i" and valid: "post_valid p" and p1: "p1 = upvote_apply u p" and
    d1: "d1 = d\<lparr>post_coll := AList.update i (upvote_apply u p) (post_coll d)\<rparr>"
    by auto
  have stored: "map_of (post_coll d1) i = Some p1"
    by (simp add: d1 p1 map_of_update_same)
  have fresh: "u \<notin> set (downVotedBy p1)"
    by (simp add: p1)
  show ?thesis
    using downvotePost_found [OF user stored] fresh valid
    by (simp add: pid p1)
qed

lemma upvote_then_downvote_witness:
  "\<exists>p2 d2. downvotePost (snd (upvotePost demo_db (Oid 3) bob)) (Oid 3) bob = (Inr (200, p2), d2) \<and>
     upVotes p2 = upVotes (upvote_apply 2 demo_post) - 1 \<and>
     downVotes p2 = downVotes (upvote_apply 2 demo_post) + 1 \<and>
     2 \<in> set (downVotedBy p2) \<and> 2 \<notin> set (upVotedBy p2)"
proof -
  have up: "upvotePost demo_db (Oid 3) bob =
      (Inr (200, upvote_apply 2 demo_post), snd (upvotePost demo_db (Oid 3) bob))"
    by (simp add: upvotePost_def save_post_def post_valid_def category_names_def demo_defs req_user_id_def Let_def)
  have user: "req_user_id bob = Some 2" by (simp add: bob_def)
  show ?thesis using upvote_then_downvote [OF up user] .
qed

text \<open>
  The scenario of the specification: B upvotes A's post (1 up, B listed),
  then downvotes it (0 up, 1 down, B moved), then downvotes again (400, the
  store unchanged).
\<close>

theorem spec_vote_scenario:
  "(let (r1, d1) = upvotePost demo_db (Oid 3) bob;
        (r2, d2) = downvotePost d1 (Oid 3) bob;
        (r3, d3) = downvotePost d2 (Oid 3) bob
    in r1 = Inr (200, demo_post\<lparr>upVotes := 1, upVotedBy := [2]\<rparr>) \<and>
       r2 = Inr (200, demo_post\<lparr>upVotes := 0, downVotes := 1, upVotedBy := [], downVotedBy := [2]\<rparr>) \<and>
       r3 = Inl (Http 400 ''You have already downvoted this post'') \<and> d3 = d2 \<and>
       map_of (post_coll d3) 3 = Some (demo_post\<lparr>upVotes := 0, downVotes := 1, upVotedBy := [], downVotedBy := [2]\<rparr>))"
  by (simp add: upvotePost_def downvotePost_def save_post_def post_valid_def category_names_def
      upvote_apply_def downvote_apply_def demo_defs req_user_id_def Let_def)

end
