(* ===== verification/Posts.thy ===== *)
theory Posts
  imports Votes "HOL-Library.Product_Lexorder" "HOL-Library.Multiset"
begin

text \<open>
  The post handlers of \<open>src/controllers/postController.ts\<close> other than the
  votes: \<open>createPost\<close>, \<open>getPostById\<close>, \<open>getAllPosts\<close>,
  \<open>getAllPostsByUser\<close>, \<open>editPost\<close>, \<open>deletePost\<close> and the helper
  \<open>uploadImage\<close>. The ownership guard the specification calls
  \<open>canMutate\<close> is \<open>is_author\<close>, shared by \<open>editPost\<close> and \<open>deletePost\<close>.
  Uploads go to an object store given as a function from the data URI to the
  URL it returns, or \<open>None\<close> when the upload throws; the clock reading is an
  input.
\<close>

section \<open>Request data\<close>

text \<open>
  The fields of \<open>req.body\<close> that \<open>new Post(req.body)\<close> copies into the
  document (every path of the Post schema, cast to its type) and that
  \<open>editPost\<close> reads; absent fields are \<open>None\<close>.
\<close>

record post_body =
  b_author :: "oid option"
  b_title :: "string option"
  b_content :: "string option"
  b_category :: "string option"
  b_upVotes :: "int option"
  b_downVotes :: "int option"
  b_upVotedBy :: "oid list option"
  b_downVotedBy :: "oid list option"
  b_imageUrl :: "string option"
  b_comments :: "oid list option"
  b_lastUpdated :: "nat option"

text \<open>
  A multer upload. Its buffer is kept as the base64 text that
  \<open>Buffer.toString("base64")\<close> produces from it.
\<close>

record upload_file =
  mimetype :: string
  buffer_b64 :: string

definition uploadImage :: "(string \<Rightarrow> string option) \<Rightarrow> upload_file \<Rightarrow> string option" where
  "uploadImage cloud f = cloud (''data:'' @ mimetype f @ '';base64,'' @ buffer_b64 f)"

section \<open>createPost\<close>

text \<open>
  \<open>new Post(req.body)\<close> (line 50): every schema path present in the body is
  copied, the others take their defaults (0 for the counters, empty arrays,
  no author, no date).
\<close>

definition post_of_body :: "post_body \<Rightarrow> post" where
  "post_of_body b =
     \<lparr>author = b_author b, title = nullish (b_title b) [], content = nullish (b_content b) [],
      category = nullish (b_category b) [], upVotes = nullish (b_upVotes b) 0,
      downVotes = nullish (b_downVotes b) 0,
      upVotedBy = nullish (b_upVotedBy b) [], downVotedBy = nullish (b_downVotedBy b) [],
      imageUrl = b_imageUrl b, comments = nullish (b_comments b) [], lastUpdated = b_lastUpdated b\<rparr>"

text \<open>
  The end of \<open>createPost\<close>: save the new post and read it back by id.
  \<open>findById\<close> after a successful save always finds it; the model keeps the
  \<open>null\<close> the code would send otherwise.
\<close>

definition save_created_post :: "post \<Rightarrow> db \<Rightarrow> post option response \<times> db" where
  "save_created_post p d =
     (case save_new_post p d of
        None \<Rightarrow> (Inl server_error, d)
      | Some (i, d') \<Rightarrow> (Inr (201, map_of (post_coll d') i), d'))"

text \<open>
  \<open>createPost\<close> reads \<open>req.user.user._id\<close> inside its \<open>try\<close>: a token
  without a user is a 500 here. Then the author must exist, the document is
  built, the assignments of lines 51--57 are made, the image is uploaded if a
  file came with the request, and the post is saved.
\<close>

definition createPost ::
  "(string \<Rightarrow> string option) \<Rightarrow> nat \<Rightarrow> db \<Rightarrow> claims \<Rightarrow> post_body \<Rightarrow> upload_file option
     \<Rightarrow> post option response \<times> db" where
  "createPost cloud now d c b file =
     (case req_user_id c of
        None \<Rightarrow> (Inl server_error, d)
      | Some uid \<Rightarrow>
          (case map_of (user_coll d) uid of
             None \<Rightarrow> (Inl (Http 401 ''Unauthorized''), d)
           | Some user \<Rightarrow>
               (let p = (post_of_body b)\<lparr>author := Some uid, title := nullish (b_title b) [],
                          content := nullish (b_content b) [], category := nullish (b_category b) [],
                          upVotes := 0, downVotes := 0, lastUpdated := Some now\<rparr>
                in case file of
                     None \<Rightarrow> save_created_post p d
                   | Some f \<Rightarrow>
                       (case uploadImage cloud f of
                          None \<Rightarrow> (Inl server_error, d)
                        | Some url \<Rightarrow> save_created_post (p\<lparr>imageUrl := Some url\<rparr>) d))))"

section \<open>Reading posts\<close>

definition getPostById :: "db \<Rightarrow> id_param \<Rightarrow> post response" where
  "getPostById d pid =
     (case pid of
        Malformed s \<Rightarrow> Inl server_error
      | Oid i \<Rightarrow> (case map_of (post_coll d) i of
                   None \<Rightarrow> Inl (Http 404 ''Post not found'')
                 | Some p \<Rightarrow> Inr (200, p)))"

text \<open>
  \<open>getAllPostsByUser\<close>: an empty parameter is refused before any query; the
  user must exist, and a user without posts is a 404.
\<close>

definition getAllPostsByUser :: "db \<Rightarrow> id_param \<Rightarrow> post coll response" where
  "getAllPostsByUser d param =
     (case param of
        Malformed s \<Rightarrow> (if s = [] then Inl (Http 400 ''User ID is required'') else Inl server_error)
      | Oid u \<Rightarrow>
          (case map_of (user_coll d) u of
             None \<Rightarrow> Inl (Http 404 ''User not found'')
           | Some user \<Rightarrow>
               (let ps = find_all (\<lambda>p. author p = Some u) (post_coll d)
                in if ps = [] then Inl (Http 404 ''No posts found for this user'') else Inr (200, ps))))"

text \<open>
  The two orders of \<open>getAllPosts\<close> as ascending sort keys:
  \<open>{upVotes: -1, downVotes: 1}\<close>, and \<open>{lastUpdated: -1}\<close> where a post
  without a date sorts after every dated one (MongoDB orders a missing field
  below any date).
\<close>

definition most_voted_key :: "oid \<times> post \<Rightarrow> int \<times> int" where
  "most_voted_key ip = (- upVotes (snd ip), downVotes (snd ip))"

definition last_updated_key :: "oid \<times> post \<Rightarrow> int" where
  "last_updated_key ip = (case lastUpdated (snd ip) of None \<Rightarrow> 1 | Some t \<Rightarrow> - int t)"

text \<open>
  MongoDB does not fix the order of posts with equal keys; the model takes the
  natural order among them (a stable sort), one of the orders the database may
  return. The properties proved of it hold for every such order.
\<close>

definition getAllPosts :: "db \<Rightarrow> string option \<Rightarrow> post coll response" where
  "getAllPosts d sort_q =
     (if sort_q = Some ''mostVoted'' then Inr (200, sort_key most_voted_key (post_coll d))
      else Inr (200, sort_key last_updated_key (post_coll d)))"

section \<open>The ownership guard\<close>

text \<open>
  \<open>post.author?._id.toString() !== userId\<close>: the acting user may change the
  post only if it is its author; a post without an author belongs to nobody.
\<close>

definition is_author :: "post \<Rightarrow> oid \<Rightarrow> bool" where
  "is_author p u \<longleftrightarrow> author p = Some u"

section \<open>editPost\<close>

text \<open>
  The end of \<open>editPost\<close>: stamp the post and save it.
\<close>

definition save_edited_post :: "nat \<Rightarrow> oid \<Rightarrow> post \<Rightarrow> db \<Rightarrow> post response \<times> db" where
  "save_edited_post now i p d =
     (let p' = p\<lparr>lastUpdated := Some now\<rparr>
      in case save_post i p' d of
           None \<Rightarrow> (Inl server_error, d)
         | Some d' \<Rightarrow> (Inr (200, p'), d'))"

text \<open>
  \<open>editPost\<close> reads the user id before its \<open>try\<close>. Absent fields keep their
  value (\<open>??\<close>); a present but empty one is written and fails validation on
  save. The route has no request validator, so an unknown category is caught
  only by the schema's \<open>enum\<close> on save: a 500.
\<close>

definition editPost ::
  "(string \<Rightarrow> string option) \<Rightarrow> nat \<Rightarrow> db \<Rightarrow> id_param \<Rightarrow> claims \<Rightarrow> post_body \<Rightarrow> upload_file option
     \<Rightarrow> post response \<times> db" where
  "editPost cloud now d postId c b file =
     (case req_user_id c of
        None \<Rightarrow> (Inl NoResponse, d)
      | Some uid \<Rightarrow>
          (case postId of
             Malformed s \<Rightarrow> (Inl server_error, d)
           | Oid i \<Rightarrow>
               (case map_of (post_coll d) i of
                  None \<Rightarrow> (Inl (Http 404 ''Post not found''), d)
                | Some post \<Rightarrow>
                    (if \<not> is_author post uid
                     then (Inl (Http 403 ''Forbidden: You can only edit your own posts''), d)
                     else
                       (let p = post\<lparr>title := nullish (b_title b) (title post),
                                     content := nullish (b_content b) (content post),
                                     category := nullish (b_category b) (category post)\<rparr>
                        in case file of
                             None \<Rightarrow> save_edited_post now i p d
                           | Some f \<Rightarrow>
                               (case uploadImage cloud f of
                                  None \<Rightarrow> (Inl server_error, d)
                                | Some url \<Rightarrow> save_edited_post now i (p\<lparr>imageUrl := Some url\<rparr>) d))))))"

section \<open>deletePost\<close>

text \<open>
  \<open>deletePost\<close> reads \<open>req.user.user._id\<close> only in the ownership test,
  after the look-up and inside the \<open>try\<close>: a token without a user gets the
  404 of a missing post, or a 500. The post's comments are not deleted.
\<close>

definition deletePost :: "db \<Rightarrow> id_param \<Rightarrow> claims \<Rightarrow> string response \<times> db" where
  "deletePost d pid c =
     (case pid of
        Malformed s \<Rightarrow> (Inl server_error, d)
      | Oid i \<Rightarrow>
          (case map_of (post_coll d) i of
             None \<Rightarrow> (Inl (Http 404 ''Post not found''), d)
           | Some post \<Rightarrow>
               (case req_user_id c of
                  None \<Rightarrow> (Inl server_error, d)
                | Some uid \<Rightarrow>
                    (if \<not> is_author post uid
                     then (Inl (Http 403 ''Forbidden: You are not the author of this post''), d)
                     else (Inr (200, ''Post deleted successfully''),
                           d\<lparr>post_coll := AList.delete i (post_coll d)\<rparr>)))))"

section \<open>Concrete data for the witnesses\<close>

definition alice :: claims where
  "alice = claims_of 1 (demo_user ''alice'')"

definition no_cloud :: "string \<Rightarrow> string option" where
  "no_cloud uri = None"

definition empty_body :: post_body where
  "empty_body =
     \<lparr>b_author = None, b_title = None, b_content = None, b_category = None, b_upVotes = None,
      b_downVotes = None, b_upVotedBy = None, b_downVotedBy = None, b_imageUrl = None,
      b_comments = None, b_lastUpdated = None\<rparr>"

section \<open>Lemmas\<close>

lemmas posts_demo_defs = demo_defs alice_def empty_body_def

lemma editPost_found:
  assumes "req_user_id c = Some u" and "map_of (post_coll d) i = Some p"
  shows "editPost cloud now d (Oid i) c b None =
    (if \<not> is_author p u then (Inl (Http 403 ''Forbidden: You can only edit your own posts''), d)
     else save_edited_post now i
            (p\<lparr>title := nullish (b_title b) (title p), content := nullish (b_content b) (content p),
               category := nullish (b_category b) (category p)\<rparr>) d)"
  using assms by (simp add: editPost_def Let_def)

lemma save_edited_post_eq:
  "save_edited_post now i p d =
     (if post_valid (p\<lparr>lastUpdated := Some now\<rparr>)
      then (Inr (200, p\<lparr>lastUpdated := Some now\<rparr>),
            d\<lparr>post_coll := AList.update i (p\<lparr>lastUpdated := Some now\<rparr>) (post_coll d)\<rparr>)
      else (Inl server_error, d))"
  by (simp add: save_edited_post_def save_post_def Let_def)

lemma save_edited_post_not_403:
  "fst (save_edited_post now i p d) \<noteq> Inl (Http 403 m)"
  by (simp add: save_edited_post_eq)

lemma editPost_author_not_403:
  assumes "req_user_id c = Some u" and "map_of (post_coll d) i = Some p" and "is_author p u"
  shows "fst (editPost cloud now d (Oid i) c b f) \<noteq> Inl (Http 403 m)"
  using assms save_edited_post_not_403
  by (auto simp: editPost_def Let_def split: option.splits)

lemma deletePost_found:
  assumes "req_user_id c = Some u" and "map_of (post_coll d) i = Some p"
  shows "deletePost d (Oid i) c =
    (if \<not> is_author p u then (Inl (Http 403 ''Forbidden: You are not the author of this post''), d)
     else (Inr (200, ''Post deleted successfully''), d\<lparr>post_coll := AList.delete i (post_coll d)\<rparr>))"
  using assms by (simp add: deletePost_def)

lemma createPost_no_file:
  assumes "req_user_id c = Some u" and "map_of (user_coll d) u = Some usr"
  shows "createPost cloud now d c b None =
    save_created_post ((post_of_body b)\<lparr>author := Some u, upVotes := 0, downVotes := 0,
                                         lastUpdated := Some now\<rparr>) d"
  using assms by (simp add: createPost_def post_of_body_def)

lemma save_created_post_eq:
  assumes "db_ok d"
  shows "save_created_post p d =
     (if post_valid p
      then (Inr (201, Some p), d\<lparr>post_coll := post_coll d @ [(next_oid d, p)], next_oid := Suc (next_oid d)\<rparr>)
      else (Inl server_error, d))"
proof -
  have "map_of (post_coll d) (next_oid d) = None"
    using assms by (simp add: db_ok_def coll_ok_map_of_fresh)
  then show ?thesis
    by (simp add: save_created_post_def save_new_post_def map_add_def)
qed

lemma sorted_most_voted_key:
  "sorted (map most_voted_key ps) \<Longrightarrow>
     sorted_wrt (\<lambda>a b. upVotes b < upVotes a \<or> upVotes b = upVotes a \<and> downVotes a \<le> downVotes b)
       (map snd ps)"
  by (auto simp: sorted_wrt_map most_voted_key_def less_eq_prod_def less_prod_def
           elim!: sorted_wrt_mono_rel [rotated])

lemma sorted_last_updated_key:
  "sorted (map last_updated_key ps) \<Longrightarrow>
     sorted_wrt (\<lambda>a b. case lastUpdated b of None \<Rightarrow> True
                           | Some y \<Rightarrow> (case lastUpdated a of None \<Rightarrow> False | Some x \<Rightarrow> y \<le> x))
       (map snd ps)"
  by (auto simp: sorted_wrt_map last_updated_key_def split: option.splits
           elim!: sorted_wrt_mono_rel [rotated])

lemma db_ok_map_of_in:
  "db_ok d \<Longrightarrow> (i, p) \<in> set (post_coll d) \<Longrightarrow> map_of (post_coll d) i = Some p"
  by (auto simp: db_ok_def coll_ok_def coll_ids_def intro: map_of_is_SomeI)

lemma demo_db_ok: "db_ok demo_db"
  by (simp add: db_ok_def coll_ok_def coll_ids_def demo_db_def)

section \<open>Properties of the post handlers\<close>

text \<open>
  C7. A user who is not the author of a stored post cannot edit it: 403, and
  the store is unchanged, whatever the body and the upload.
\<close>

theorem editPost_non_author_forbidden:
  assumes "req_user_id c = Some u" and "map_of (post_coll d) i = Some p" and "\<not> is_author p u"
  shows "editPost cloud now d (Oid i) c b f = (Inl (Http 403 ''Forbidden: You can only edit your own posts''), d)"
  using assms by (simp add: editPost_def)

lemma editPost_non_author_forbidden_witness:
  "editPost no_cloud 9 demo_db (Oid 3) bob empty_body None =
     (Inl (Http 403 ''Forbidden: You can only edit your own posts''), demo_db)"
proof -
  have u: "req_user_id bob = Some 2" by (simp add: bob_def)
  have s: "map_of (post_coll demo_db) 3 = Some demo_post" by (simp add: demo_db_def)
  have a: "\<not> is_author demo_post 2" by (simp add: is_author_def demo_post_def)
  show ?thesis using editPost_non_author_forbidden [OF u s a] .
qed

text \<open>
  C8. The author's edit without a new image: the fields present in the body
  replace the old ones, the others stay, \<open>lastUpdated\<close> becomes the current
  time, and the post is written back in place when it still validates.
\<close>

theorem editPost_author_updates:
  assumes "req_user_id c = Some u" and "map_of (post_coll d) i = Some p" and "is_author p u"
    and "p' = p\<lparr>title := nullish (b_title b) (title p), content := nullish (b_content b) (content p),
               category := nullish (b_category b) (category p), lastUpdated := Some now\<rparr>"
    and "post_valid p'"
  shows "editPost cloud now d (Oid i) c b None =
           (Inr (200, p'), d\<lparr>post_coll := AList.update i p' (post_coll d)\<rparr>)"
  using assms by (simp add: editPost_found save_edited_post_eq)

lemma editPost_author_updates_witness:
  "editPost no_cloud 9 demo_db (Oid 3) alice (empty_body\<lparr>b_title := Some ''New title''\<rparr>) None =
     (Inr (200, demo_post\<lparr>title := ''New title'', lastUpdated := Some 9\<rparr>),
      demo_db\<lparr>post_coll := AList.update 3 (demo_post\<lparr>title := ''New title'', lastUpdated := Some 9\<rparr>)
                               (post_coll demo_db)\<rparr>)"
proof -
  have u: "req_user_id alice = Some 1" by (simp add: alice_def)
  have s: "map_of (post_coll demo_db) 3 = Some demo_post" by (simp add: demo_db_def)
  have a: "is_author demo_post 1" by (simp add: is_author_def demo_post_def)
  have e: "demo_post\<lparr>title := ''New title'', lastUpdated := Some 9\<rparr> =
      demo_post\<lparr>title := nullish (b_title (empty_body\<lparr>b_title := Some ''New title''\<rparr>)) (title demo_post),
        content := nullish (b_content (empty_body\<lparr>b_title := Some ''New title''\<rparr>)) (content demo_post),
        category := nullish (b_category (empty_body\<lparr>b_title := Some ''New title''\<rparr>)) (category demo_post),
        lastUpdated := Some 9\<rparr>"
    by (simp add: empty_body_def demo_post_def)
  have v: "post_valid (demo_post\<lparr>title := ''New title'', lastUpdated := Some 9\<rparr>)"
    by (simp add: post_valid_def demo_post_def category_names_def)
  show ?thesis using editPost_author_updates [OF u s a e v] .
qed

text \<open>C9. A user who is not the author of a stored post cannot delete it: 403, store unchanged.\<close>

theorem deletePost_non_author_forbidden:
  assumes "req_user_id c = Some u" and "map_of (post_coll d) i = Some p" and "\<not> is_author p u"
  shows "deletePost d (Oid i) c = (Inl (Http 403 ''Forbidden: You are not the author of this post''), d)"
  using assms by (simp add: deletePost_def)

lemma deletePost_non_author_forbidden_witness:
  "deletePost demo_db (Oid 3) bob = (Inl (Http 403 ''Forbidden: You are not the author of this post''), demo_db)"
proof -
  have u: "req_user_id bob = Some 2" by (simp add: bob_def)
  have s: "map_of (post_coll demo_db) 3 = Some demo_post" by (simp add: demo_db_def)
  have a: "\<not> is_author demo_post 2" by (simp add: is_author_def demo_post_def)
  show ?thesis using deletePost_non_author_forbidden [OF u s a] .
qed

text \<open>
  C10. The author deletes a post: 200, the post is gone from the store, every
  other post and the other collections are untouched.
\<close>

theorem deletePost_author_removes:
  assumes "req_user_id c = Some u" and "map_of (post_coll d) i = Some p" and "is_author p u"
  shows "\<exists>d'. deletePost d (Oid i) c = (Inr (200, ''Post deleted successfully''), d') \<and>
           map_of (post_coll d') i = None \<and> (\<forall>j. j \<noteq> i \<longrightarrow> map_of (post_coll d') j = map_of (post_coll d) j) \<and>
           user_coll d' = user_coll d \<and> comment_coll d' = comment_coll d \<and> next_oid d' = next_oid d"
  using assms by (simp add: deletePost_found AList.delete_conv')

lemma deletePost_author_removes_witness:
  "\<exists>d'. deletePost demo_db (Oid 3) alice = (Inr (200, ''Post deleted successfully''), d') \<and>
     map_of (post_coll d') 3 = None \<and> (\<forall>j. j \<noteq> 3 \<longrightarrow> map_of (post_coll d') j = map_of (post_coll demo_db) j) \<and>
     user_coll d' = user_coll demo_db \<and> comment_coll d' = comment_coll demo_db \<and> next_oid d' = next_oid demo_db"
proof -
  have u: "req_user_id alice = Some 1" by (simp add: alice_def)
  have s: "map_of (post_coll demo_db) 3 = Some demo_post" by (simp add: demo_db_def)
  have a: "is_author demo_post 1" by (simp add: is_author_def demo_post_def)
  show ?thesis using deletePost_author_removes [OF u s a] .
qed

text \<open>
  The ownership checks of \<open>editPost\<close> and \<open>deletePost\<close> agree: on a
  stored post, for a token that carries a user, each refuses with its 403
  exactly when the user is not the post's author. (The two call sites compare
  differently in the source; the token's \<open>_id\<close> is a string after JSON
  decoding, so both compare the same strings.)
\<close>

theorem ownership_guard_agrees:
  assumes "req_user_id c = Some u" and "map_of (post_coll d) i = Some p"
  shows "((fst (editPost cloud now d (Oid i) c b f) = Inl (Http 403 ''Forbidden: You can only edit your own posts''))
           \<longleftrightarrow> \<not> is_author p u) \<and>
         ((fst (deletePost d (Oid i) c) = Inl (Http 403 ''Forbidden: You are not the author of this post''))
           \<longleftrightarrow> \<not> is_author p u)"
proof
  show "(fst (editPost cloud now d (Oid i) c b f) = Inl (Http 403 ''Forbidden: You can only edit your own posts''))
           \<longleftrightarrow> \<not> is_author p u"
    using assms editPost_author_not_403 [OF assms] by (auto simp: editPost_def)
  show "(fst (deletePost d (Oid i) c) = Inl (Http 403 ''Forbidden: You are not the author of this post''))
           \<longleftrightarrow> \<not> is_author p u"
    using assms by (simp add: deletePost_found)
qed

lemma ownership_guard_agrees_witness:
  "(fst (editPost no_cloud 9 demo_db (Oid 3) bob empty_body None) =
      Inl (Http 403 ''Forbidden: You can only edit your own posts'')) \<and>
   (fst (deletePost demo_db (Oid 3) bob) = Inl (Http 403 ''Forbidden: You are not the author of this post''))"
proof -
  have u: "req_user_id bob = Some 2" by (simp add: bob_def)
  have s: "map_of (post_coll demo_db) 3 = Some demo_post" by (simp add: demo_db_def)
  have a: "\<not> is_author demo_post 2" by (simp add: is_author_def demo_post_def)
  show ?thesis using ownership_guard_agrees [OF u s, of no_cloud 9 empty_body None] a by simp
qed

text \<open>
  C12. \<open>createPost\<close> copies the client's \<open>upVotedBy\<close> into the new post and
  resets only the counters: whatever non-empty voter list a valid form sends,
  the post is stored with that list and \<open>upVotes\<close> 0, breaking the vote
  invariant that both vote handlers keep.
\<close>

theorem createPost_mass_assignment:
  assumes "req_user_id c = Some u" and "map_of (user_coll d) u = Some usr" and "db_ok d"
    and "post_valid (post_of_body b)" and "b_upVotedBy b = Some vs" and "vs \<noteq> []"
  shows "\<exists>p. createPost cloud now d c b None =
           (Inr (201, Some p), d\<lparr>post_coll := post_coll d @ [(next_oid d, p)], next_oid := Suc (next_oid d)\<rparr>) \<and>
           upVotedBy p = vs \<and> upVotes p = 0 \<and> \<not> votes_ok p"
  using assms
  by (simp add: createPost_no_file save_created_post_eq post_of_body_def post_valid_def votes_ok_def)

theorem createPost_mass_assignment_witness:
  "\<exists>p. createPost no_cloud 5 demo_db alice
         (empty_body\<lparr>b_title := Some ''T'', b_content := Some ''C'', b_category := Some ''Heart'',
                     b_imageUrl := Some ''https://img.example/q.png'', b_upVotes := Some 7,
                     b_upVotedBy := Some [2]\<rparr>) None =
       (Inr (201, Some p), demo_db\<lparr>post_coll := post_coll demo_db @ [(next_oid demo_db, p)],
                                  next_oid := Suc (next_oid demo_db)\<rparr>) \<and>
       upVotedBy p = [2] \<and> upVotes p = 0 \<and> \<not> votes_ok p"
proof -
  have u: "req_user_id alice = Some 1" by (simp add: alice_def)
  have usr: "map_of (user_coll demo_db) 1 = Some (demo_user ''alice'')" by (simp add: demo_db_def)
  have v: "post_valid (post_of_body (empty_body\<lparr>b_title := Some ''T'', b_content := Some ''C'',
      b_category := Some ''Heart'', b_imageUrl := Some ''https://img.example/q.png'', b_upVotes := Some 7,
      b_upVotedBy := Some [2]\<rparr>))"
    by (simp add: post_valid_def post_of_body_def empty_body_def category_names_def)
  show ?thesis
    using createPost_mass_assignment [OF u usr demo_db_ok v] by (simp add: empty_body_def)
qed

text \<open>
  C13. A post created from a body without vote lists is stored under a fresh
  id, written by the acting user, stamped with the current time, with its
  counters reset to 0 whatever the body sent: it satisfies the vote invariant.
\<close>

theorem createPost_stores_new_post:
  assumes "db_ok d" and "req_user_id c = Some u" and "map_of (user_coll d) u = Some usr"
    and "b_upVotedBy b = None" and "b_downVotedBy b = None"
    and "p = (post_of_body b)\<lparr>author := Some u, upVotes := 0, downVotes := 0, lastUpdated := Some now\<rparr>"
    and "post_valid p"
  shows "createPost cloud now d c b None =
           (Inr (201, Some p), d\<lparr>post_coll := post_coll d @ [(next_oid d, p)], next_oid := Suc (next_oid d)\<rparr>)
         \<and> votes_ok p \<and> author p = Some u \<and> lastUpdated p = Some now"
  using assms
  by (simp add: createPost_no_file save_created_post_eq post_of_body_def votes_ok_def)

lemma createPost_stores_new_post_witness:
  "createPost no_cloud 5 demo_db alice
     (empty_body\<lparr>b_title := Some ''T'', b_content := Some ''C'', b_category := Some ''Heart'',
                 b_imageUrl := Some ''https://img.example/q.png''\<rparr>) None =
   (Inr (201, Some ((post_of_body (empty_body\<lparr>b_title := Some ''T'', b_content := Some ''C'',
        b_category := Some ''Heart'', b_imageUrl := Some ''https://img.example/q.png''\<rparr>))
        \<lparr>author := Some 1, upVotes := 0, downVotes := 0, lastUpdated := Some 5\<rparr>)),
    demo_db\<lparr>post_coll := post_coll demo_db @ [(next_oid demo_db,
        (post_of_body (empty_body\<lparr>b_title := Some ''T'', b_content := Some ''C'',
        b_category := Some ''Heart'', b_imageUrl := Some ''https://img.example/q.png''\<rparr>))
        \<lparr>author := Some 1, upVotes := 0, downVotes := 0, lastUpdated := Some 5\<rparr>)], next_oid := Suc (next_oid demo_db)\<rparr>)"
proof -
  have u: "req_user_id alice = Some 1" by (simp add: alice_def)
  have usr: "map_of (user_coll demo_db) 1 = Some (demo_user ''alice'')" by (simp add: demo_db_def)
  have v: "post_valid ((post_of_body (empty_body\<lparr>b_title := Some ''T'', b_content := Some ''C'',
        b_category := Some ''Heart'', b_imageUrl := Some ''https://img.example/q.png''\<rparr>))
        \<lparr>author := Some 1, upVotes := 0, downVotes := 0, lastUpdated := Some 5\<rparr>)"
    by (simp add: post_valid_def post_of_body_def empty_body_def category_names_def)
  show ?thesis
    using createPost_stores_new_post [OF demo_db_ok u usr _ _ refl v] by (simp add: empty_body_def)
qed

text \<open>
  C14. \<open>getAllPosts\<close> returns every post once, ordered: with
  \<open>sort=mostVoted\<close> by upvotes descending and, among equal upvotes, by
  downvotes ascending; otherwise by \<open>lastUpdated\<close> descending, undated posts
  last.
\<close>

theorem getAllPosts_order:
  "\<exists>ps. getAllPosts d s = Inr (200, ps) \<and> mset ps = mset (post_coll d) \<and>
     (if s = Some ''mostVoted''
      then sorted_wrt (\<lambda>a b. upVotes b < upVotes a \<or> upVotes b = upVotes a \<and> downVotes a \<le> downVotes b)
             (map snd ps)
      else sorted_wrt (\<lambda>a b. case lastUpdated b of None \<Rightarrow> True
                                | Some y \<Rightarrow> (case lastUpdated a of None \<Rightarrow> False | Some x \<Rightarrow> y \<le> x))
             (map snd ps))"
  by (simp add: getAllPosts_def sorted_most_voted_key sorted_last_updated_key)

text \<open>
  C15. On a well-formed store, the listing of a user's posts holds exactly the
  stored posts that this user may delete (those it is the author of).
\<close>

theorem getAllPostsByUser_deletable:
  assumes "db_ok d" and "getAllPostsByUser d (Oid u) = Inr (200, ps)" and "req_user_id c = Some u"
  shows "set ps = {(i, p) \<in> set (post_coll d).
                     fst (deletePost d (Oid i) c) = Inr (200, ''Post deleted successfully'')}"
proof -
  have ps: "ps = filter (\<lambda>(i, p). author p = Some u) (post_coll d)"
    using assms(2) by (auto simp: getAllPostsByUser_def find_all_def Let_def split: option.splits if_splits)
  have "\<And>i p. (i, p) \<in> set (post_coll d) \<Longrightarrow>
          fst (deletePost d (Oid i) c) = Inr (200, ''Post deleted successfully'') \<longleftrightarrow> author p = Some u"
    using assms(1,3) by (simp add: deletePost_found db_ok_map_of_in is_author_def)
  then show ?thesis by (auto simp: ps)
qed

lemma getAllPostsByUser_deletable_witness:
  "set [(3, demo_post)] = {(i, p) \<in> set (post_coll demo_db).
      fst (deletePost demo_db (Oid i) alice) = Inr (200, ''Post deleted successfully'')}"
proof -
  have l: "getAllPostsByUser demo_db (Oid 1) = Inr (200, [(3, demo_post)])"
    by (simp add: getAllPostsByUser_def find_all_def posts_demo_defs)
  have u: "req_user_id alice = Some 1" by (simp add: alice_def)
  show ?thesis using getAllPostsByUser_deletable [OF demo_db_ok l u] .
qed

end
