(* ===== verification/Comments.thy ===== *)
theory Comments
  imports Posts
begin

text \<open>
  The comment handlers of \<open>src/controllers/commentController.ts\<close>:
  \<open>createComment\<close>, \<open>getCommentsForPost\<close>, \<open>createReply\<close>,
  \<open>getRepliesForComment\<close>. The comment schema is not among the sources; its
  \<open>save()\<close> is modelled as writing the document without validation. A reply
  is embedded in its comment and gets its id from the same generator as every
  document (\<open>new mongoose.Types.ObjectId()\<close>).
\<close>

section \<open>Request data\<close>

text \<open>
  \<open>postId\<close> and \<open>commentId\<close> come from the body. When absent,
  \<open>findById(undefined)\<close> looks for \<open>_id: null\<close> and finds nothing.
\<close>

record comment_body =
  cb_postId :: "id_param option"
  cb_content :: "string option"

record reply_body =
  rb_commentId :: "id_param option"
  rb_content :: "string option"

section \<open>Saving a comment\<close>

definition save_new_comment :: "comment \<Rightarrow> db \<Rightarrow> oid \<times> db" where
  "save_new_comment cm d =
     (next_oid d, d\<lparr>comment_coll := comment_coll d @ [(next_oid d, cm)], next_oid := Suc (next_oid d)\<rparr>)"

section \<open>createComment\<close>

text \<open>
  The post is looked up first; \<open>req.user.user._id\<close> is read when the comment
  is built, inside the \<open>try\<close>. The comment is saved, then its id is pushed to
  the post and the post is saved: two writes, the first kept if the second
  fails.
\<close>

definition createComment :: "db \<Rightarrow> claims \<Rightarrow> comment_body \<Rightarrow> comment option response \<times> db" where
  "createComment d c b =
     (case cb_postId b of
        None \<Rightarrow> (Inl (Http 404 ''Post not found''), d)
      | Some (Malformed s) \<Rightarrow> (Inl server_error, d)
      | Some (Oid pid) \<Rightarrow>
          (case map_of (post_coll d) pid of
             None \<Rightarrow> (Inl (Http 404 ''Post not found''), d)
           | Some post \<Rightarrow>
               (case req_user_id c of
                  None \<Rightarrow> (Inl server_error, d)
                | Some uid \<Rightarrow>
                    (let (cid, d1) = save_new_comment
                           \<lparr>c_postId = pid, c_author = uid, c_content = nullish (cb_content b) [],
                            replies = []\<rparr> d
                     in case save_post pid (post\<lparr>comments := comments post @ [cid]\<rparr>) d1 of
                          None \<Rightarrow> (Inl server_error, d1)
                        | Some d2 \<Rightarrow> (Inr (201, map_of (comment_coll d2) cid), d2)))))"

section \<open>getCommentsForPost\<close>

text \<open>
  \<open>Comment.find({postId})\<close> returns an array, never \<open>null\<close>: the 404 branch
  of the source is never taken, and a post without comments, or no post at
  all, gets an empty list.
\<close>

definition getCommentsForPost :: "db \<Rightarrow> id_param \<Rightarrow> comment coll response" where
  "getCommentsForPost d pid =
     (case pid of
        Malformed s \<Rightarrow> Inl server_error
      | Oid p \<Rightarrow> Inr (200, find_all (\<lambda>cm. c_postId cm = p) (comment_coll d)))"

section \<open>createReply\<close>

definition createReply :: "nat \<Rightarrow> db \<Rightarrow> claims \<Rightarrow> reply_body \<Rightarrow> reply response \<times> db" where
  "createReply now d c b =
     (case rb_commentId b of
        None \<Rightarrow> (Inl (Http 404 ''Comment not found''), d)
      | Some (Malformed s) \<Rightarrow> (Inl server_error, d)
      | Some (Oid cid) \<Rightarrow>
          (case map_of (comment_coll d) cid of
             None \<Rightarrow> (Inl (Http 404 ''Comment not found''), d)
           | Some cm \<Rightarrow>
               (case req_user_id c of
                  None \<Rightarrow> (Inl server_error, d)
                | Some uid \<Rightarrow>
                    (let r = \<lparr>r_id = next_oid d, r_author = uid, r_content = nullish (rb_content b) [],
                              r_lastUpdated = now\<rparr>;
                         d1 = d\<lparr>next_oid := Suc (next_oid d)\<rparr>
                     in (Inr (201, r),
                         d1\<lparr>comment_coll := AList.update cid (cm\<lparr>replies := replies cm @ [r]\<rparr>)
                                               (comment_coll d1)\<rparr>)))))"

section \<open>getRepliesForComment\<close>

definition getRepliesForComment :: "db \<Rightarrow> id_param \<Rightarrow> reply list response" where
  "getRepliesForComment d cid =
     (case cid of
        Malformed s \<Rightarrow> Inl server_error
      | Oid i \<Rightarrow> (case map_of (comment_coll d) i of
                   None \<Rightarrow> Inl (Http 404 ''Comment not found'')
                 | Some cm \<Rightarrow> Inr (200, replies cm)))"

section \<open>Invariant\<close>

text \<open>
  Reply ids: every embedded reply carries an id the generator has handed out,
  and no two replies share one.
\<close>

definition reply_ids :: "db \<Rightarrow> oid list" where
  "reply_ids d = concat (map (\<lambda>(i, cm). map r_id (replies cm)) (comment_coll d))"

definition replies_ok :: "db \<Rightarrow> bool" where
  "replies_ok d \<longleftrightarrow> distinct (reply_ids d) \<and> (\<forall>r\<in>set (reply_ids d). r < next_oid d)"

section \<open>Concrete data for the witnesses\<close>

text \<open>Bob's comment (id 4) on post 3, linked from the post.\<close>

definition demo_comment :: comment where
  "demo_comment = \<lparr>c_postId = 3, c_author = 2, c_content = ''Thanks'', replies = []\<rparr>"

definition demo_db2 :: db where
  "demo_db2 =
     \<lparr>user_coll = demo_users, post_coll = [(3, demo_post\<lparr>comments := [4]\<rparr>)],
      comment_coll = [(4, demo_comment)], next_oid = 5\<rparr>"

section \<open>Lemmas\<close>

lemma update_split:
  assumes "map_of c i = Some v" and "distinct (map fst c)"
  shows "\<exists>xs ys. c = xs @ (i, v) # ys \<and> AList.update i v' c = xs @ (i, v') # ys"
  using assms
proof (induction c)
  case Nil
  then show ?case by simp
next
  case (Cons kw c)
  show ?case
  proof (cases "fst kw = i")
    case True
    with Cons.prems show ?thesis by (cases kw) auto
  next
    case False
    with Cons.prems obtain xs ys where "c = xs @ (i, v) # ys" and "AList.update i v' c = xs @ (i, v') # ys"
      using Cons.IH by (cases kw) auto
    with False have "kw # c = (kw # xs) @ (i, v) # ys"
      and "AList.update i v' (kw # c) = (kw # xs) @ (i, v') # ys"
      by (cases kw, simp)+
    then show ?thesis by blast
  qed
qed

lemma reply_ids_add_reply:
  assumes "map_of (comment_coll d) cid = Some cm" and "distinct (coll_ids (comment_coll d))"
  shows "mset (reply_ids (d\<lparr>next_oid := n, comment_coll :=
             AList.update cid (cm\<lparr>replies := replies cm @ [r]\<rparr>) (comment_coll d)\<rparr>)) =
         mset (reply_ids d) + {#r_id r#}"
proof -
  obtain xs ys where c: "comment_coll d = xs @ (cid, cm) # ys"
    and u: "AList.update cid (cm\<lparr>replies := replies cm @ [r]\<rparr>) (comment_coll d) =
              xs @ (cid, cm\<lparr>replies := replies cm @ [r]\<rparr>) # ys"
    using update_split assms by (metis coll_ids_def)
  from c u have u': "AList.update cid (cm\<lparr>replies := replies cm @ [r]\<rparr>) (xs @ (cid, cm) # ys) =
      xs @ (cid, cm\<lparr>replies := replies cm @ [r]\<rparr>) # ys" by simp
  show ?thesis by (simp add: reply_ids_def c u')
qed

lemma demo_db2_ok: "db_ok demo_db2"
  by (simp add: db_ok_def coll_ok_def coll_ids_def demo_db2_def demo_users_def)

section \<open>Properties of the comment handlers\<close>

text \<open>
  C22. On a well-formed store, commenting on a stored, valid post stores the
  comment under the fresh id, with the acting user as author and no replies,
  links it at the end of the post's comment list, and replies 201 with it.
\<close>

theorem createComment_links_comment:
  assumes "db_ok d" and "map_of (post_coll d) p = Some post" and "post_valid post"
    and "req_user_id c = Some u" and "cb_postId b = Some (Oid p)"
    and "cm = \<lparr>c_postId = p, c_author = u, c_content = nullish (cb_content b) [], replies = []\<rparr>"
  shows "createComment d c b =
    (Inr (201, Some cm),
     d\<lparr>comment_coll := comment_coll d @ [(next_oid d, cm)], next_oid := Suc (next_oid d),
       post_coll := AList.update p (post\<lparr>comments := comments post @ [next_oid d]\<rparr>) (post_coll d)\<rparr>)"
proof -
  have "map_of (comment_coll d) (next_oid d) = None"
    using assms(1) by (simp add: db_ok_def coll_ok_map_of_fresh)
  moreover have "post_valid (post\<lparr>comments := comments post @ [next_oid d]\<rparr>)"
    using assms(3) by (simp add: post_valid_def)
  ultimately show ?thesis
    using assms by (simp add: createComment_def save_new_comment_def save_post_def map_add_def)
qed

lemma createComment_links_comment_witness:
  "createComment demo_db bob \<lparr>cb_postId = Some (Oid 3), cb_content = Some ''Thanks''\<rparr> =
    (Inr (201, Some demo_comment),
     demo_db\<lparr>comment_coll := comment_coll demo_db @ [(next_oid demo_db, demo_comment)],
       next_oid := Suc (next_oid demo_db),
       post_coll := AList.update 3 (demo_post\<lparr>comments := comments demo_post @ [next_oid demo_db]\<rparr>)
                      (post_coll demo_db)\<rparr>)"
proof -
  have s: "map_of (post_coll demo_db) 3 = Some demo_post" by (simp add: demo_db_def)
  have v: "post_valid demo_post" by (simp add: post_valid_def demo_post_def category_names_def)
  have u: "req_user_id bob = Some 2" by (simp add: bob_def)
  have p: "cb_postId \<lparr>cb_postId = Some (Oid 3), cb_content = Some ''Thanks''\<rparr> = Some (Oid 3)" by simp
  have cm: "demo_comment = \<lparr>c_postId = 3, c_author = 2,
      c_content = nullish (cb_content \<lparr>cb_postId = Some (Oid 3), cb_content = Some ''Thanks''\<rparr>) [],
      replies = []\<rparr>" by (simp add: demo_comment_def)
  show ?thesis using createComment_links_comment [OF demo_db_ok s v u p cm] .
qed

text \<open>
  \<open>getCommentsForPost\<close> never sends its 404: a well-formed id always gets
  200, with the empty list for a post that has no comments or does not exist.
\<close>

theorem getCommentsForPost_no_404:
  "getCommentsForPost d pid \<noteq> Inl (Http 404 ''Comments not found'') \<and>
   ((\<forall>(i, cm)\<in>set (comment_coll d). c_postId cm \<noteq> p) \<longrightarrow> getCommentsForPost d (Oid p) = Inr (200, []))"
  by (auto simp: getCommentsForPost_def find_all_def filter_empty_conv split: id_param.splits)

lemma getCommentsForPost_no_404_witness:
  "getCommentsForPost demo_db2 (Oid 7) \<noteq> Inl (Http 404 ''Comments not found'') \<and>
   getCommentsForPost demo_db2 (Oid 7) = Inr (200, [])"
proof -
  have h: "\<forall>(i, cm)\<in>set (comment_coll demo_db2). c_postId cm \<noteq> 7"
    by (simp add: demo_db2_def demo_comment_def)
  show ?thesis using getCommentsForPost_no_404 [of demo_db2 "Oid 7" 7] h by simp
qed

text \<open>
  C24. Replies get fresh ids: on a well-formed store whose reply ids are
  distinct and issued, a new reply's id differs from every existing reply and
  comment id, and the store stays well formed.
\<close>

theorem createReply_fresh_id:
  assumes "db_ok d" and "replies_ok d" and "createReply now d c b = (Inr (201, r), d')"
  shows "r_id r \<notin> set (reply_ids d) \<and> r_id r \<notin> set (coll_ids (comment_coll d)) \<and>
         replies_ok d' \<and> db_ok d'"
proof -
  from assms(3) obtain cid cm u where cid: "rb_commentId b = Some (Oid cid)"
    and cm: "map_of (comment_coll d) cid = Some cm" and u: "req_user_id c = Some u"
    and r: "r = \<lparr>r_id = next_oid d, r_author = u, r_content = nullish (rb_content b) [], r_lastUpdated = now\<rparr>"
    and d': "d' = d\<lparr>next_oid := Suc (next_oid d), comment_coll :=
               AList.update cid (cm\<lparr>replies := replies cm @ [r]\<rparr>) (comment_coll d)\<rparr>"
    by (auto simp: createReply_def Let_def split: option.splits id_param.splits)
  have dist: "distinct (coll_ids (comment_coll d))"
    using assms(1) by (simp add: db_ok_def coll_ok_def)
  have fresh_r: "r_id r \<notin> set (reply_ids d)"
    using assms(2) r by (auto simp: replies_ok_def)
  have fresh_c: "r_id r \<notin> set (coll_ids (comment_coll d))"
    using assms(1) r by (auto simp: db_ok_def coll_ok_def)
  have m: "mset (reply_ids d') = mset (reply_ids d) + {#r_id r#}"
    using reply_ids_add_reply [OF cm dist] d' by simp
  then have "set (reply_ids d') = insert (r_id r) (set (reply_ids d))"
    by (metis set_mset_mset set_mset_add_mset_insert add_mset_add_single)
  moreover have "distinct (reply_ids d')"
  proof -
    have "mset (reply_ids d') = mset (reply_ids d @ [r_id r])" using m by simp
    then have "distinct (reply_ids d') \<longleftrightarrow> distinct (reply_ids d @ [r_id r])"
      by (rule mset_eq_imp_distinct_iff)
    then show ?thesis
      using assms(2) fresh_r by (simp add: replies_ok_def)
  qed
  moreover have "next_oid d' = Suc (next_oid d)"
    using d' by simp
  ultimately have "replies_ok d'"
    using assms(2) r unfolding replies_ok_def by auto
  moreover have "db_ok d'"
    using assms(1) cm d' by (auto simp: db_ok_def intro: coll_ok_update coll_ok_mono)
  ultimately show ?thesis using fresh_r fresh_c by simp
qed

lemma createReply_fresh_id_witness:
  "r_id \<lparr>r_id = 5, r_author = 1, r_content = ''Welcome'', r_lastUpdated = 8\<rparr> \<notin> set (reply_ids demo_db2) \<and>
   r_id \<lparr>r_id = 5, r_author = 1, r_content = ''Welcome'', r_lastUpdated = 8\<rparr> \<notin>
     set (coll_ids (comment_coll demo_db2)) \<and>
   replies_ok (snd (createReply 8 demo_db2 alice \<lparr>rb_commentId = Some (Oid 4), rb_content = Some ''Welcome''\<rparr>)) \<and>
   db_ok (snd (createReply 8 demo_db2 alice \<lparr>rb_commentId = Some (Oid 4), rb_content = Some ''Welcome''\<rparr>))"
proof -
  have ok: "replies_ok demo_db2"
    by (simp add: replies_ok_def reply_ids_def demo_db2_def demo_comment_def)
  have run: "createReply 8 demo_db2 alice \<lparr>rb_commentId = Some (Oid 4), rb_content = Some ''Welcome''\<rparr> =
      (Inr (201, \<lparr>r_id = 5, r_author = 1, r_content = ''Welcome'', r_lastUpdated = 8\<rparr>),
       snd (createReply 8 demo_db2 alice \<lparr>rb_commentId = Some (Oid 4), rb_content = Some ''Welcome''\<rparr>))"
    by (simp add: createReply_def demo_db2_def alice_def claims_of_def identity_of_def req_user_id_def Let_def)
  show ?thesis using createReply_fresh_id [OF demo_db2_ok ok run] .
qed

end
