(* ===== verification/Users.thy ===== *)
theory Users
  imports Comments
begin

text \<open>
  The user handlers of \<open>src/controllers/userController.ts\<close>. Both read users
  with \<open>.select("-password")\<close>: the reply carries identities, which have no
  password field.
\<close>

section \<open>getSingleUser\<close>

text \<open>The acting user's own profile; \<open>req.user.user._id\<close> is read inside the \<open>try\<close>.\<close>

definition getSingleUser :: "db \<Rightarrow> claims \<Rightarrow> identity response" where
  "getSingleUser d c =
     (case req_user_id c of
        None \<Rightarrow> Inl server_error
      | Some uid \<Rightarrow> (case map_of (user_coll d) uid of
                      None \<Rightarrow> Inl (Http 404 ''User not found'')
                    | Some u \<Rightarrow> Inr (200, identity_of uid u)))"

section \<open>getAllUsers\<close>

definition getAllUsers :: "db \<Rightarrow> identity list response" where
  "getAllUsers d =
     (let us = map (\<lambda>(i, u). identity_of i u) (user_coll d)
      in if us = [] then Inl (Http 404 ''No users found'') else Inr (200, us))"

end
