(* ===== verification/Api.thy ===== *)
theory Api
  imports Users
begin

text \<open>
  The server as a transition system over the store. A step is one call of a
  handler that writes (registration, post creation, votes, edits, deletions,
  comments, replies; the other handlers only read), with any request data and,
  for the handlers behind \<open>verifyToken\<close>, claims the server could have
  issued: the empty claims of a registration token, or a stored user's
  identity from a login token. The reachable stores are those a run from the
  empty database produces. The lemmas show which invariants every step keeps
  (well-formed collections, valid posts, fresh reply ids) and that the vote
  invariant is kept by every step except \<open>createPost\<close> with client-supplied
  vote lists.
\<close>

section \<open>Steps and reachable stores\<close>

definition issued_claims :: "db \<Rightarrow> claims \<Rightarrow> bool" where
  "issued_claims d c \<longleftrightarrow>
     c = Claims None \<or> list_ex (\<lambda>(i, u). c = Claims (Some (identity_of i u))) (user_coll d)"

text \<open>
  \<open>accept\<close> says which bodies clients send to \<open>createPost\<close>: any body
  (\<open>any_body\<close>) for the server as it is, or only bodies without vote lists
  (\<open>no_vote_lists\<close>) for the clients the specification has in mind.
\<close>

inductive handler_step :: "(post_body \<Rightarrow> bool) \<Rightarrow> db \<Rightarrow> db \<Rightarrow> bool" for accept :: "post_body \<Rightarrow> bool" where
  register: "handler_step accept d (snd (registerUser secret uname mail pw salt d))"
| create_post: "issued_claims d c \<Longrightarrow> accept b \<Longrightarrow> handler_step accept d (snd (createPost cloud now d c b f))"
| upvote: "issued_claims d c \<Longrightarrow> handler_step accept d (snd (upvotePost d pid c))"
| downvote: "issued_claims d c \<Longrightarrow> handler_step accept d (snd (downvotePost d pid c))"
| edit_post: "issued_claims d c \<Longrightarrow> handler_step accept d (snd (editPost cloud now d pid c b f))"
| delete_post: "issued_claims d c \<Longrightarrow> handler_step accept d (snd (deletePost d pid c))"
| create_comment: "issued_claims d c \<Longrightarrow> handler_step accept d (snd (createComment d c cb))"
| create_reply: "issued_claims d c \<Longrightarrow> handler_step accept d (snd (createReply now d c rb))"

inductive reachable :: "(post_body \<Rightarrow> bool) \<Rightarrow> db \<Rightarrow> bool" for accept :: "post_body \<Rightarrow> bool" where
  start: "reachable accept empty_db"
| step: "reachable accept d \<Longrightarrow> handler_step accept d d' \<Longrightarrow> reachable accept d'"

definition any_body :: "post_body \<Rightarrow> bool" where
  "any_body b = True"

definition no_vote_lists :: "post_body \<Rightarrow> bool" where
  "no_vote_lists b \<longleftrightarrow> b_upVotedBy b = None \<and> b_downVotedBy b = None"

definition store_inv :: "db \<Rightarrow> bool" where
  "store_inv d \<longleftrightarrow> db_ok d \<and> replies_ok d \<and> posts_valid d"

section \<open>Concrete runs for the witnesses\<close>

text \<open>
  Alice registers on the empty store (id 0), logs in, and creates a post with
  a regular form, or with a form that also carries \<open>upVotedBy\<close>.
\<close>

definition seed_db :: db where
  "seed_db = snd (registerUser ''k'' ''alice'' ''alice@mail.example'' ''pass'' 0 empty_db)"

definition alice0 :: claims where
  "alice0 = Claims (Some (identity_of 0 \<lparr>username = ''alice'', email = ''alice@mail.example'',
                     password = bcrypt_hash ''pass'' 0, user_imageUrl = default_user_image\<rparr>))"

definition post_form :: post_body where
  "post_form = empty_body\<lparr>b_title := Some ''T'', b_content := Some ''C'', b_category := Some ''Heart'',
                          b_imageUrl := Some ''https://img.example/q.png''\<rparr>"

definition clean_db :: db where
  "clean_db = snd (createPost no_cloud 1 seed_db alice0 post_form None)"

definition forged_db :: db where
  "forged_db = snd (createPost no_cloud 1 seed_db alice0 (post_form\<lparr>b_upVotedBy := Some [7]\<rparr>) None)"

section \<open>Lemmas on the invariants\<close>

lemma replies_ok_frame:
  "replies_ok d \<Longrightarrow> comment_coll d' = comment_coll d \<Longrightarrow> next_oid d \<le> next_oid d' \<Longrightarrow> replies_ok d'"
  by (fastforce simp: replies_ok_def reply_ids_def)

lemma store_inv_save_new_post:
  assumes "store_inv d" and "save_new_post p d = Some (i, d')"
  shows "store_inv d'"
proof -
  have "db_ok d'" using assms by (auto simp: store_inv_def intro: db_ok_save_new_post)
  moreover from save_new_post_Some [OF assms(2)] have "post_valid p"
    and d': "d' = d\<lparr>post_coll := post_coll d @ [(next_oid d, p)], next_oid := Suc (next_oid d)\<rparr>"
    by auto
  ultimately show ?thesis
    using assms(1) by (auto simp: store_inv_def posts_valid_def elim: replies_ok_frame)
qed

lemma store_inv_save_post:
  "store_inv d \<Longrightarrow> map_of (post_coll d) i = Some p \<Longrightarrow> save_post i p' d = Some d' \<Longrightarrow> store_inv d'"
  by (auto simp: store_inv_def save_post_Some db_ok_update_post posts_valid_update elim: replies_ok_frame)

lemma store_inv_save_created_post:
  "store_inv d \<Longrightarrow> store_inv (snd (save_created_post p d))"
  by (auto simp: save_created_post_def intro: store_inv_save_new_post split: option.splits)

lemma store_inv_save_edited_post:
  "store_inv d \<Longrightarrow> map_of (post_coll d) i = Some p \<Longrightarrow> store_inv (snd (save_edited_post now i p' d))"
  by (auto simp: save_edited_post_def Let_def intro: store_inv_save_post split: option.splits)

lemma store_inv_delete_post:
  "store_inv d \<Longrightarrow> store_inv (d\<lparr>post_coll := AList.delete i (post_coll d)\<rparr>)"
  by (auto simp: store_inv_def db_ok_def posts_valid_def intro: coll_ok_delete list_all_delete
           elim: replies_ok_frame)

lemma store_inv_new_comment:
  assumes "store_inv d" and "replies cm = []"
  shows "store_inv (d\<lparr>comment_coll := comment_coll d @ [(next_oid d, cm)], next_oid := Suc (next_oid d)\<rparr>)"
proof -
  have "reply_ids (d\<lparr>comment_coll := comment_coll d @ [(next_oid d, cm)], next_oid := Suc (next_oid d)\<rparr>) =
        reply_ids d"
    using assms(2) by (simp add: reply_ids_def)
  with assms(1) show ?thesis
    by (auto simp: store_inv_def replies_ok_def db_ok_def posts_valid_def intro: coll_ok_append coll_ok_mono)
qed

lemma store_inv_add_reply:
  assumes "store_inv d" and "map_of (comment_coll d) cid = Some cm" and "r_id rr = next_oid d"
  shows "store_inv (d\<lparr>next_oid := Suc (next_oid d),
            comment_coll := AList.update cid (cm\<lparr>replies := replies cm @ [rr]\<rparr>) (comment_coll d)\<rparr>)"
    (is "store_inv ?d'")
proof -
  have dist: "distinct (coll_ids (comment_coll d))"
    using assms(1) by (simp add: store_inv_def db_ok_def coll_ok_def)
  have m: "mset (reply_ids ?d') = mset (reply_ids d @ [r_id rr])"
    using reply_ids_add_reply [OF assms(2) dist] by simp
  then have "distinct (reply_ids ?d') \<longleftrightarrow> distinct (reply_ids d @ [r_id rr])"
    by (rule mset_eq_imp_distinct_iff)
  moreover have "set (reply_ids ?d') = set (reply_ids d @ [r_id rr])"
    using m by (metis set_mset_mset)
  ultimately have "replies_ok ?d'"
    using assms(1,3) by (auto simp: store_inv_def replies_ok_def)
  moreover have "db_ok ?d'"
    using assms(1,2) by (auto simp: store_inv_def db_ok_def intro: coll_ok_update coll_ok_mono)
  moreover have "posts_valid ?d'"
    using assms(1) by (simp add: store_inv_def posts_valid_def)
  ultimately show ?thesis by (simp add: store_inv_def)
qed

section \<open>Each writing handler keeps the store invariant\<close>

lemma store_inv_registerUser:
  assumes "store_inv d"
  shows "store_inv (snd (registerUser secret uname mail pw salt d))"
proof -
  obtain r d' where eq: "registerUser secret uname mail pw salt d = (r, d')" by fastforce
  have "db_ok d'"
    using assms eq by (auto simp: store_inv_def intro: registerUser_db_ok)
  moreover have "post_coll d' = post_coll d \<and> comment_coll d' = comment_coll d \<and> next_oid d \<le> next_oid d'"
    using eq by (auto simp: registerUser_def save_new_user_def Let_def split: if_splits option.splits prod.splits)
  ultimately show ?thesis
    using assms eq by (auto simp: store_inv_def posts_valid_def elim: replies_ok_frame)
qed

lemma store_inv_createPost:
  "store_inv d \<Longrightarrow> store_inv (snd (createPost cloud now d c b f))"
  by (auto simp: createPost_def Let_def intro: store_inv_save_created_post split: option.splits)

lemma store_inv_upvotePost:
  assumes "store_inv d"
  shows "store_inv (snd (upvotePost d pid c))"
proof -
  obtain r d' where eq: "upvotePost d pid c = (r, d')" by fastforce
  from upvotePost_effect [OF eq] assms show ?thesis
    by (auto simp: eq intro: store_inv_save_post [where p' = "upvote_apply _ _"] simp: save_post_def)
qed

lemma store_inv_downvotePost:
  assumes "store_inv d"
  shows "store_inv (snd (downvotePost d pid c))"
proof -
  obtain r d' where eq: "downvotePost d pid c = (r, d')" by fastforce
  from downvotePost_effect [OF eq] assms show ?thesis
    by (auto simp: eq intro: store_inv_save_post [where p' = "downvote_apply _ _"] simp: save_post_def)
qed

lemma store_inv_editPost:
  "store_inv d \<Longrightarrow> store_inv (snd (editPost cloud now d pid c b f))"
  by (auto simp: editPost_def Let_def intro: store_inv_save_edited_post split: option.splits id_param.splits)

lemma store_inv_deletePost:
  "store_inv d \<Longrightarrow> store_inv (snd (deletePost d pid c))"
  by (auto simp: deletePost_def intro: store_inv_delete_post split: option.splits id_param.splits)

lemma store_inv_createComment:
  assumes inv: "store_inv d"
  shows "store_inv (snd (createComment d c b))"
proof (cases "\<exists>pid post u. cb_postId b = Some (Oid pid) \<and> map_of (post_coll d) pid = Some post \<and>
                           req_user_id c = Some u")
  case True
  then obtain pid post u where b: "cb_postId b = Some (Oid pid)" and p: "map_of (post_coll d) pid = Some post"
    and u: "req_user_id c = Some u" by blast
  let ?cm = "\<lparr>c_postId = pid, c_author = u, c_content = nullish (cb_content b) [], replies = []\<rparr>"
  let ?d1 = "d\<lparr>comment_coll := comment_coll d @ [(next_oid d, ?cm)], next_oid := Suc (next_oid d)\<rparr>"
  have inv1: "store_inv ?d1" using store_inv_new_comment [OF inv] by simp
  have p1: "map_of (post_coll ?d1) pid = Some post" using p by simp
  show ?thesis
    using inv1 store_inv_save_post [OF inv1 p1] b p u
    by (auto simp: createComment_def save_new_comment_def split: option.splits)
next
  case False
  then have "snd (createComment d c b) = d"
    by (auto simp: createComment_def split: option.splits id_param.splits)
  with inv show ?thesis by simp
qed

lemma store_inv_createReply:
  assumes inv: "store_inv d"
  shows "store_inv (snd (createReply now d c b))"
proof (cases "\<exists>cid cm u. rb_commentId b = Some (Oid cid) \<and> map_of (comment_coll d) cid = Some cm \<and>
                          req_user_id c = Some u")
  case True
  then obtain cid cm u where b: "rb_commentId b = Some (Oid cid)" and cm: "map_of (comment_coll d) cid = Some cm"
    and u: "req_user_id c = Some u" by blast
  show ?thesis
    using store_inv_add_reply [OF inv cm, of "\<lparr>r_id = next_oid d, r_author = u,
             r_content = nullish (rb_content b) [], r_lastUpdated = now\<rparr>"] b cm u
    by (simp add: createReply_def Let_def)
next
  case False
  then have "snd (createReply now d c b) = d"
    by (auto simp: createReply_def split: option.splits id_param.splits)
  with inv show ?thesis by simp
qed

lemma store_inv_step:
  "handler_step accept d d' \<Longrightarrow> store_inv d \<Longrightarrow> store_inv d'"
  by (induction rule: handler_step.induct)
     (simp_all add: store_inv_registerUser store_inv_createPost store_inv_upvotePost store_inv_downvotePost
        store_inv_editPost store_inv_deletePost store_inv_createComment store_inv_createReply)

lemma store_inv_empty: "store_inv empty_db"
  unfolding store_inv_def using db_ok_empty
  by (simp add: replies_ok_def reply_ids_def posts_valid_def empty_db_def)


section \<open>The vote invariant along steps\<close>

lemma all_votes_ok_frame:
  "all_votes_ok d \<Longrightarrow> post_coll d' = post_coll d \<Longrightarrow> all_votes_ok d'"
  by (simp add: all_votes_ok_def)

lemma all_votes_ok_same_votes:
  assumes "all_votes_ok d" and "map_of (post_coll d) i = Some p"
    and "upVotes p' = upVotes p" and "downVotes p' = downVotes p"
    and "upVotedBy p' = upVotedBy p" and "downVotedBy p' = downVotedBy p"
  shows "all_votes_ok (d\<lparr>post_coll := AList.update i p' (post_coll d)\<rparr>)"
proof -
  have "votes_ok p" using all_votes_ok_stored [OF assms(1,2)] .
  with assms(3-6) have "votes_ok p'" by (simp add: votes_ok_def)
  with assms(1) show ?thesis by (rule all_votes_ok_update)
qed

lemma all_votes_ok_registerUser:
  "all_votes_ok d \<Longrightarrow> all_votes_ok (snd (registerUser secret uname mail pw salt d))"
  by (auto simp: all_votes_ok_def registerUser_def save_new_user_def Let_def
           split: if_splits option.splits prod.splits)

lemma all_votes_ok_createPost:
  "no_vote_lists b \<Longrightarrow> all_votes_ok d \<Longrightarrow> all_votes_ok (snd (createPost cloud now d c b f))"
  by (auto simp: createPost_def save_created_post_def save_new_post_def post_of_body_def Let_def
           all_votes_ok_def votes_ok_def no_vote_lists_def split: option.splits)

lemma all_votes_ok_upvotePost:
  assumes inv: "all_votes_ok d"
  shows "all_votes_ok (snd (upvotePost d pid c))"
proof -
  obtain r d' where eq: "upvotePost d pid c = (r, d')" by fastforce
  from upvotePost_effect [OF eq] show ?thesis
  proof
    assume "(\<exists>e. r = Inl e) \<and> d' = d"
    with inv eq show ?thesis by simp
  next
    assume "\<exists>i p u. pid = Oid i \<and> map_of (post_coll d) i = Some p \<and> req_user_id c = Some u \<and>
       u \<notin> set (upVotedBy p) \<and> post_valid p \<and> r = Inr (200, upvote_apply u p) \<and>
       d' = d\<lparr>post_coll := AList.update i (upvote_apply u p) (post_coll d)\<rparr>"
    then obtain i p u where p: "map_of (post_coll d) i = Some p" and u: "u \<notin> set (upVotedBy p)"
      and d': "d' = d\<lparr>post_coll := AList.update i (upvote_apply u p) (post_coll d)\<rparr>" by blast
    have "votes_ok (upvote_apply u p)"
      using votes_ok_upvote_apply [OF all_votes_ok_stored [OF inv p] u] .
    with inv eq d' show ?thesis by (simp add: all_votes_ok_update)
  qed
qed

lemma all_votes_ok_downvotePost:
  assumes inv: "all_votes_ok d"
  shows "all_votes_ok (snd (downvotePost d pid c))"
proof -
  obtain r d' where eq: "downvotePost d pid c = (r, d')" by fastforce
  from downvotePost_effect [OF eq] show ?thesis
  proof
    assume "(\<exists>e. r = Inl e) \<and> d' = d"
    with inv eq show ?thesis by simp
  next
    assume "\<exists>i p u. pid = Oid i \<and> map_of (post_coll d) i = Some p \<and> req_user_id c = Some u \<and>
       u \<notin> set (downVotedBy p) \<and> post_valid p \<and> r = Inr (200, downvote_apply u p) \<and>
       d' = d\<lparr>post_coll := AList.update i (downvote_apply u p) (post_coll d)\<rparr>"
    then obtain i p u where p: "map_of (post_coll d) i = Some p" and u: "u \<notin> set (downVotedBy p)"
      and d': "d' = d\<lparr>post_coll := AList.update i (downvote_apply u p) (post_coll d)\<rparr>" by blast
    have "votes_ok (downvote_apply u p)"
      using votes_ok_downvote_apply [OF all_votes_ok_stored [OF inv p] u] .
    with inv eq d' show ?thesis by (simp add: all_votes_ok_update)
  qed
qed

lemma all_votes_ok_editPost:
  "all_votes_ok d \<Longrightarrow> all_votes_ok (snd (editPost cloud now d pid c b f))"
  by (auto simp: editPost_def save_edited_post_def save_post_def Let_def
           intro: all_votes_ok_same_votes split: option.splits id_param.splits)

lemma all_votes_ok_deletePost:
  "all_votes_ok d \<Longrightarrow> all_votes_ok (snd (deletePost d pid c))"
  by (auto simp: deletePost_def all_votes_ok_def intro: list_all_delete split: option.splits id_param.splits)

lemma all_votes_ok_createComment:
  assumes inv: "all_votes_ok d"
  shows "all_votes_ok (snd (createComment d c b))"
proof (cases "\<exists>pid post u. cb_postId b = Some (Oid pid) \<and> map_of (post_coll d) pid = Some post \<and>
                           req_user_id c = Some u")
  case True
  then obtain pid post u where b: "cb_postId b = Some (Oid pid)" and p: "map_of (post_coll d) pid = Some post"
    and u: "req_user_id c = Some u" by blast
  let ?d1 = "d\<lparr>comment_coll := comment_coll d @ [(next_oid d, \<lparr>c_postId = pid, c_author = u,
               c_content = nullish (cb_content b) [], replies = []\<rparr>)], next_oid := Suc (next_oid d)\<rparr>"
  have inv1: "all_votes_ok ?d1" using inv by (simp add: all_votes_ok_def)
  have p1: "map_of (post_coll ?d1) pid = Some post" using p by simp
  show ?thesis
    using inv1 all_votes_ok_same_votes [OF inv1 p1, of "post\<lparr>comments := comments post @ [next_oid d]\<rparr>"] b p u
    by (auto simp: createComment_def save_new_comment_def save_post_def split: option.splits)
next
  case False
  then have "snd (createComment d c b) = d"
    by (auto simp: createComment_def split: option.splits id_param.splits)
  with inv show ?thesis by simp
qed

lemma all_votes_ok_createReply:
  "all_votes_ok d \<Longrightarrow> all_votes_ok (snd (createReply now d c b))"
  by (auto simp: createReply_def all_votes_ok_def Let_def split: option.splits id_param.splits)

lemma all_votes_ok_clean_step:
  "handler_step no_vote_lists d d' \<Longrightarrow> all_votes_ok d \<Longrightarrow> all_votes_ok d'"
  by (induction rule: handler_step.induct)
     (simp_all add: all_votes_ok_registerUser all_votes_ok_createPost all_votes_ok_upvotePost
        all_votes_ok_downvotePost all_votes_ok_editPost all_votes_ok_deletePost
        all_votes_ok_createComment all_votes_ok_createReply)

lemma all_votes_ok_empty: "all_votes_ok empty_db"
  by (simp add: all_votes_ok_def empty_db_def)

lemma reachable_seed: "reachable accept seed_db"
  unfolding seed_db_def by (rule reachable.step [OF reachable.start handler_step.register])

lemma issued_alice0: "issued_claims seed_db alice0"
  by (simp add: issued_claims_def seed_db_def alice0_def registerUser_def save_new_user_def
      user_valid_def find_one_def empty_db_def Let_def)

lemma reachable_clean_steps:
  "reachable no_vote_lists clean_db \<and> reachable any_body clean_db"
  unfolding clean_db_def
  using reachable.step [OF reachable_seed handler_step.create_post [OF issued_alice0]]
  by (simp add: no_vote_lists_def any_body_def post_form_def posts_demo_defs)

section \<open>Properties of the running server\<close>

text \<open>
  C27. Every store the server can reach, whatever bodies clients send, is
  well formed: collections keyed by distinct ids below the id generator,
  every stored post valid under the schema, and every reply id fresh.
\<close>

theorem reachable_store_inv:
  assumes "reachable accept d"
  shows "db_ok d \<and> replies_ok d \<and> posts_valid d"
proof -
  from assms have "store_inv d"
    by (induction rule: reachable.induct) (auto intro: store_inv_step store_inv_empty)
  then show ?thesis by (simp add: store_inv_def)
qed

theorem reachable_store_inv_witness:
  "reachable any_body clean_db \<and> db_ok clean_db \<and> replies_ok clean_db \<and> posts_valid clean_db"
  using reachable_store_inv [of any_body clean_db] reachable_clean_steps by simp

text \<open>
  The vote invariant is not an invariant of the server: one
  \<open>createPost\<close> by a logged-in user whose form carries \<open>upVotedBy\<close> reaches a
  store holding a post with one up-voter and zero up-votes.
\<close>

theorem forged_votes_reachable:
  "reachable any_body forged_db \<and> \<not> all_votes_ok forged_db"
proof
  show "reachable any_body forged_db"
    unfolding forged_db_def
    using reachable.step [OF reachable_seed handler_step.create_post [OF issued_alice0]]
    by (simp add: any_body_def)
  show "\<not> all_votes_ok forged_db"
    by (simp add: forged_db_def seed_db_def createPost_def registerUser_def save_new_user_def
        user_valid_def find_one_def empty_db_def Let_def alice0_def identity_of_def
        post_form_def posts_demo_defs post_of_body_def save_created_post_def save_new_post_def
        post_valid_def all_votes_ok_def votes_ok_def category_names_def req_user_id_def)
qed

text \<open>
  C29. When clients send post forms without vote lists, every reachable
  store satisfies the vote invariant: each post's counts equal the lengths of
  its voter lists, and no user is in a list twice or in both lists.
\<close>

theorem clean_reachable_votes_ok:
  assumes "reachable no_vote_lists d"
  shows "all_votes_ok d"
  using assms
  by (induction rule: reachable.induct) (auto intro: all_votes_ok_clean_step all_votes_ok_empty)

theorem clean_reachable_votes_ok_witness:
  "reachable no_vote_lists clean_db \<and> all_votes_ok clean_db"
  using clean_reachable_votes_ok [of clean_db] reachable_clean_steps by simp

end
