(* ===== verification/Validators.thy ===== *)
theory Validators
  imports Model
begin

text \<open>
  The request validators of \<open>src/middleware/validation.ts\<close>: three arrays
  of express-validator chains, each closed by \<open>handleValidationErrors\<close>.
  A request body is the JSON value \<open>express.json()\<close> parsed (or the text
  fields of a multipart form); a chain selects one field of it and runs its
  checks in order, every failed check adding one error, and its sanitizers
  rewrite the field. The library semantics modelled are those of
  express-validator 7: \<open>.withMessage(m)\<close> gives its message to the check
  just before it (the others say \<open>Invalid value\<close>); \<open>.optional()\<close> skips the
  whole chain when the field is \<open>undefined\<close> (not when it is \<open>null\<close>);
  \<open>isString\<close> is a custom check on the whole value, the other checks are
  validator.js functions applied to each element of an array value, or to
  the value itself, converted to a string first; no chain bails at its first
  failure. \<open>isEmail\<close> and \<open>normalizeEmail\<close> are validator.js functions
  the code only calls; they are parameters of the model.
\<close>

section \<open>JSON values and request bodies\<close>

text \<open>
  JSON values as \<open>JSON.parse\<close> returns them. Numbers are integers: the
  fields the validators read as numbers are checked with \<open>isInt\<close>, and
  fractional or very large numbers are not modelled.
\<close>

datatype jval =
    JString string
  | JNumber int
  | JBool bool
  | JNull
  | JArray "jval list"
  | JObject "(string \<times> jval) list"

text \<open>
  \<open>req.body\<close> as the list of its members in the order of the text;
  \<open>JSON.parse\<close> keeps the last of two members with the same key, and a
  sanitizer writing a field adds it at the end. An absent field is
  \<open>undefined\<close>, \<open>None\<close> here.
\<close>

type_synonym json_body = "(string \<times> jval) list"

definition body_get :: "json_body \<Rightarrow> string \<Rightarrow> jval option" where
  "body_get b k = map_of (rev b) k"

definition body_set :: "json_body \<Rightarrow> string \<Rightarrow> jval \<Rightarrow> json_body" where
  "body_set b k v = b @ [(k, v)]"

section \<open>JavaScript strings of values\<close>

text \<open>Decimal digits, as \<open>String(n)\<close> writes an integer.\<close>

fun digits_of_nat :: "nat \<Rightarrow> string" where
  "digits_of_nat n =
     (if n < 10 then [char_of (48 + n)] else digits_of_nat (n div 10) @ [char_of (48 + n mod 10)])"

declare digits_of_nat.simps [simp del]

definition js_int_string :: "int \<Rightarrow> string" where
  "js_int_string i = (if i < 0 then CHR ''-'' # digits_of_nat (nat (- i)) else digits_of_nat (nat i))"

text \<open>
  express-validator's \<open>toString\<close>: \<open>undefined\<close> and \<open>null\<close> give the empty
  string, an array its elements joined by commas (\<open>Array.prototype.toString\<close>,
  where \<open>null\<close> elements are empty), a plain object
  \<open>[object Object]\<close>, the rest \<open>String(value)\<close>.
\<close>

fun comma_join :: "string list \<Rightarrow> string" where
  "comma_join [] = []"
| "comma_join [s] = s"
| "comma_join (s # ss) = s @ '','' @ comma_join ss"

fun js_string :: "jval \<Rightarrow> string" where
  "js_string (JString s) = s"
| "js_string (JNumber n) = js_int_string n"
| "js_string (JBool b) = (if b then ''true'' else ''false'')"
| "js_string JNull = []"
| "js_string (JArray xs) = comma_join (map js_string xs)"
| "js_string (JObject ms) = ''[object Object]''"

definition to_string :: "jval option \<Rightarrow> string" where
  "to_string v = (case v of None \<Rightarrow> [] | Some x \<Rightarrow> js_string x)"

section \<open>validator.js checks\<close>

definition is_digit :: "char \<Rightarrow> bool" where
  "is_digit c \<longleftrightarrow> 48 \<le> (of_char c :: nat) \<and> (of_char c :: nat) \<le> 57"

definition digit_val :: "char \<Rightarrow> nat" where
  "digit_val c = of_char c - 48"

definition nat_of_digits :: "string \<Rightarrow> nat" where
  "nat_of_digits ds = foldl (\<lambda>n c. 10 * n + digit_val c) 0 ds"

text \<open>
  \<open>isInt(str, {min})\<close> with leading zeroes allowed (the default): \<open>str\<close>
  matches \<open>^[-+]?[0-9]+$\<close> and \<open>str >= min\<close>, which JavaScript compares as
  numbers.
\<close>

definition int_syntax :: "string \<Rightarrow> bool" where
  "int_syntax s =
     (case s of
        [] \<Rightarrow> False
      | c # ds \<Rightarrow> (if c = CHR ''-'' \<or> c = CHR ''+'' then ds \<noteq> [] \<and> list_all is_digit ds
                  else list_all is_digit s))"

definition int_value :: "string \<Rightarrow> int" where
  "int_value s =
     (case s of
        [] \<Rightarrow> 0
      | c # ds \<Rightarrow> (if c = CHR ''-'' then - int (nat_of_digits ds)
                  else if c = CHR ''+'' then int (nat_of_digits ds)
                  else int (nat_of_digits s)))"

definition is_int_min :: "int \<Rightarrow> string \<Rightarrow> bool" where
  "is_int_min m s \<longleftrightarrow> int_syntax s \<and> m \<le> int_value s"

text \<open>The validator.js functions the chains call on the string of a value.\<close>

record vlib =
  v_isEmail :: "string \<Rightarrow> bool"
  v_normalizeEmail :: "string \<Rightarrow> string"

datatype check =
    IsString
  | NotEmpty
  | IsEmail
  | IsLength nat
  | IsIn "string list"
  | IsIntMin int

fun std_check :: "vlib \<Rightarrow> check \<Rightarrow> string \<Rightarrow> bool" where
  "std_check L IsString s = True"
| "std_check L NotEmpty s = (s \<noteq> [])"
| "std_check L IsEmail s = v_isEmail L s"
| "std_check L (IsLength n) s = (n \<le> length s)"
| "std_check L (IsIn xs) s = (s \<in> set xs)"
| "std_check L (IsIntMin m) s = is_int_min m s"

text \<open>
  The values a check sees: the elements of an array, or the value itself
  (\<open>undefined\<close> included).
\<close>

definition std_values :: "jval option \<Rightarrow> jval option list" where
  "std_values v = (case v of Some (JArray xs) \<Rightarrow> map Some xs | _ \<Rightarrow> [v])"

text \<open>The number of errors one check adds for the value of its field.\<close>

definition check_failures :: "vlib \<Rightarrow> check \<Rightarrow> jval option \<Rightarrow> nat" where
  "check_failures L c v =
     (case c of
        IsString \<Rightarrow> (case v of Some (JString s) \<Rightarrow> 0 | _ \<Rightarrow> 1)
      | _ \<Rightarrow> length (filter (\<lambda>x. \<not> std_check L c (to_string x)) (std_values v)))"

section \<open>Chains\<close>

text \<open>
  A chain: its field, whether it is optional, and its items in order; a
  check carries the message of the \<open>.withMessage\<close> after it.
\<close>

datatype item = Check check string | NormalizeEmail

record chain =
  ch_field :: string
  ch_optional :: bool
  ch_items :: "item list"

type_synonym field_error = "string \<times> string"

definition default_msg :: string where
  "default_msg = ''Invalid value''"

text \<open>
  \<open>normalizeEmail\<close> rewrites each element of an array, or the value, to the
  normalised string of it. On an absent field it writes nothing: there the
  chain's \<open>isEmail\<close> has failed and the body is never used.
\<close>

definition normalize_field :: "vlib \<Rightarrow> jval \<Rightarrow> jval" where
  "normalize_field L v =
     (case v of
        JArray xs \<Rightarrow> JArray (map (\<lambda>x. JString (v_normalizeEmail L (js_string x))) xs)
      | _ \<Rightarrow> JString (v_normalizeEmail L (js_string v)))"

text \<open>
  The items of one chain on the current body: the sanitised body and the
  errors of the chain, in order. A check reads the body as the sanitizers
  before it left it.
\<close>

fun run_items :: "vlib \<Rightarrow> string \<Rightarrow> item list \<Rightarrow> json_body \<Rightarrow> json_body \<times> field_error list" where
  "run_items L f [] b = (b, [])"
| "run_items L f (Check c m # is) b =
     (let (b', es) = run_items L f is b
      in (b', replicate (check_failures L c (body_get b f)) (f, m) @ es))"
| "run_items L f (NormalizeEmail # is) b =
     run_items L f is (case body_get b f of None \<Rightarrow> b | Some v \<Rightarrow> body_set b f (normalize_field L v))"

definition run_chain :: "vlib \<Rightarrow> chain \<Rightarrow> json_body \<Rightarrow> json_body \<times> field_error list" where
  "run_chain L ch b =
     (if ch_optional ch \<and> body_get b (ch_field ch) = None then (b, [])
      else run_items L (ch_field ch) (ch_items ch) b)"

text \<open>The chains of an array run one after the other, as Express middleware.\<close>

fun run_chains :: "vlib \<Rightarrow> chain list \<Rightarrow> json_body \<Rightarrow> json_body \<times> field_error list" where
  "run_chains L [] b = (b, [])"
| "run_chains L (ch # cs) b =
     (let (b1, es1) = run_chain L ch b; (b2, es2) = run_chains L cs b1 in (b2, es1 @ es2))"

text \<open>Chains made of checks only, which leave the body as it is.\<close>

definition check_only :: "item list \<Rightarrow> bool" where
  "check_only is = list_all (\<lambda>it. case it of Check c m \<Rightarrow> True | NormalizeEmail \<Rightarrow> False) is"

definition item_errors :: "vlib \<Rightarrow> string \<Rightarrow> json_body \<Rightarrow> item \<Rightarrow> field_error list" where
  "item_errors L f b it =
     (case it of Check c m \<Rightarrow> replicate (check_failures L c (body_get b f)) (f, m) | NormalizeEmail \<Rightarrow> [])"

text \<open>
  \<open>handleValidationErrors\<close>: the errors of all chains, in order, as a 400;
  otherwise \<open>next()\<close> with the sanitised body.
\<close>

definition handleValidationErrors :: "json_body \<times> field_error list \<Rightarrow> api_error + json_body" where
  "handleValidationErrors st = (case st of (b, []) \<Rightarrow> Inr b | (b, es) \<Rightarrow> Inl (ValidationErrors es))"

definition validate :: "vlib \<Rightarrow> chain list \<Rightarrow> json_body \<Rightarrow> api_error + json_body" where
  "validate L cs b = handleValidationErrors (run_chains L cs b)"

section \<open>The three validators\<close>

definition validateRegisterRequest :: "chain list" where
  "validateRegisterRequest =
     [\<lparr>ch_field = ''username'', ch_optional = False,
       ch_items = [Check IsString default_msg,
                   Check NotEmpty ''Username must be a string and cannot be empty'']\<rparr>,
      \<lparr>ch_field = ''email'', ch_optional = False,
       ch_items = [Check IsEmail ''Must be a valid email'', NormalizeEmail]\<rparr>,
      \<lparr>ch_field = ''password'', ch_optional = False,
       ch_items = [Check IsString default_msg,
                   Check NotEmpty ''Password must be a string and cannot be empty'',
                   Check (IsLength 4) ''Password must be at least 4 characters long'']\<rparr>,
      \<lparr>ch_field = ''imageUrl'', ch_optional = True, ch_items = []\<rparr>]"

definition validateLoginRequest :: "chain list" where
  "validateLoginRequest =
     [\<lparr>ch_field = ''username'', ch_optional = False,
       ch_items = [Check IsString default_msg,
                   Check NotEmpty ''Username must be a string and cannot be empty'']\<rparr>,
      \<lparr>ch_field = ''password'', ch_optional = False,
       ch_items = [Check IsString default_msg,
                   Check NotEmpty ''Password must be a string and cannot be empty'',
                   Check (IsLength 4) ''Password must be at least 4 characters long'']\<rparr>]"

definition validator_categories :: "string list" where
  "validator_categories =
     [''Kidney'', ''Liver'', ''Heart'', ''Lungs'', ''Diabetes'', ''Cancer'', ''Nutrition'', ''Fitness'']"

definition validatePostRequest :: "chain list" where
  "validatePostRequest =
     [\<lparr>ch_field = ''title'', ch_optional = False,
       ch_items = [Check IsString default_msg,
                   Check NotEmpty ''Title must be a string and cannot be empty'']\<rparr>,
      \<lparr>ch_field = ''content'', ch_optional = False,
       ch_items = [Check IsString default_msg,
                   Check NotEmpty ''Content must be a string and cannot be empty'']\<rparr>,
      \<lparr>ch_field = ''category'', ch_optional = False,
       ch_items = [Check IsString default_msg,
                   Check NotEmpty ''Category must be a string and cannot be empty'',
                   Check (IsIn validator_categories) ''Category must be one of the predefined categories'']\<rparr>,
      \<lparr>ch_field = ''upVotes'', ch_optional = True,
       ch_items = [Check (IsIntMin 0) ''UpVotes must be a non-negative integer'']\<rparr>,
      \<lparr>ch_field = ''downVotes'', ch_optional = True,
       ch_items = [Check (IsIntMin 0) ''DownVotes must be a non-negative integer'']\<rparr>]"

text \<open>
  A field the \<open>upVotes\<close>/\<open>downVotes\<close> chains accept: absent, or every
  value of it a non-negative integer.
\<close>

definition nonneg_int_field :: "jval option \<Rightarrow> bool" where
  "nonneg_int_field v \<longleftrightarrow> v = None \<or> (\<forall>x\<in>set (std_values v). is_int_min 0 (to_string x))"

text \<open>The body after the \<open>normalizeEmail\<close> of the register chain.\<close>

definition email_normalized :: "vlib \<Rightarrow> json_body \<Rightarrow> json_body" where
  "email_normalized L b =
     (case body_get b ''email'' of None \<Rightarrow> b | Some v \<Rightarrow> body_set b ''email'' (normalize_field L v))"

section \<open>Concrete data for the witnesses\<close>

text \<open>
  A stand-in for validator.js: an e-mail is a string with an \<open>@\<close>, and
  normalisation is the identity.
\<close>

definition demo_vlib :: vlib where
  "demo_vlib = \<lparr>v_isEmail = (\<lambda>s. CHR ''@'' \<in> set s), v_normalizeEmail = (\<lambda>s. s)\<rparr>"

definition demo_post_form :: json_body where
  "demo_post_form = [(''title'', JString ''T''), (''content'', JString ''C''), (''category'', JString ''Heart''),
                     (''upVotes'', JNumber 0), (''upVotedBy'', JArray [JString ''7''])]"


section \<open>Numbers as strings\<close>

lemma digits_of_nat_ne [simp]: "digits_of_nat n \<noteq> []"
  by (subst digits_of_nat.simps) simp

lemma of_char_digit: "k < 10 \<Longrightarrow> of_char (char_of (48 + k)) = (48 + k :: nat)"
  by simp

lemma digits_of_nat_digits: "list_all is_digit (digits_of_nat n)"
proof (induction n rule: digits_of_nat.induct)
  case (1 n)
  have m: "n mod 10 < 10" by simp
  show ?case
    using 1 of_char_digit [OF m] of_char_digit [of n]
    by (subst digits_of_nat.simps) (auto simp: is_digit_def list_all_iff)
qed

lemma nat_of_digits_snoc: "nat_of_digits (ds @ [c]) = 10 * nat_of_digits ds + digit_val c"
  by (simp add: nat_of_digits_def)

lemma nat_of_digits_digits_of_nat: "nat_of_digits (digits_of_nat n) = n"
proof (induction n rule: digits_of_nat.induct)
  case (1 n)
  have m: "n mod 10 < 10" by simp
  show ?case
  proof (cases "n < 10")
    case True
    then show ?thesis using of_char_digit [of n]
      by (subst digits_of_nat.simps) (simp add: nat_of_digits_def digit_val_def)
  next
    case False
    then show ?thesis using 1 of_char_digit [OF m]
      by (subst digits_of_nat.simps) (simp add: nat_of_digits_snoc digit_val_def)
  qed
qed

lemma digits_of_nat_hd: "\<exists>c cs. digits_of_nat n = c # cs \<and> is_digit c"
  using digits_of_nat_digits [of n] digits_of_nat_ne [of n]
  by (cases "digits_of_nat n") auto

lemma is_digit_not_sign: "is_digit c \<Longrightarrow> c \<noteq> CHR ''-'' \<and> c \<noteq> CHR ''+''"
  by (auto simp: is_digit_def)

lemma int_syntax_js_int_string: "int_syntax (js_int_string n)"
  using digits_of_nat_hd [of "nat n"] digits_of_nat_digits [of "nat n"] digits_of_nat_digits [of "nat (- n)"]
  by (auto simp: js_int_string_def int_syntax_def dest: is_digit_not_sign)

lemma int_value_js_int_string: "int_value (js_int_string n) = n"
proof (cases "n < 0")
  case True
  then show ?thesis
    by (simp add: js_int_string_def int_value_def nat_of_digits_digits_of_nat)
next
  case False
  obtain c cs where h: "digits_of_nat (nat n) = c # cs" and d: "is_digit c"
    using digits_of_nat_hd by blast
  have "int (nat_of_digits (c # cs)) = n"
    using nat_of_digits_digits_of_nat [of "nat n"] h False by simp
  then show ?thesis
    using False h is_digit_not_sign [OF d] by (simp add: js_int_string_def int_value_def)
qed

section \<open>Running chains\<close>

lemma run_items_check_only:
  "check_only its \<Longrightarrow> run_items L f its b = (b, concat (map (item_errors L f b) its))"
  by (induction its) (auto simp: check_only_def item_errors_def split: item.splits)

lemma run_items_fields: "e \<in> set (snd (run_items L f its b)) \<Longrightarrow> fst e = f"
  by (induction L f its b rule: run_items.induct) (auto split: prod.splits)

lemma run_chain_fields: "e \<in> set (snd (run_chain L ch b)) \<Longrightarrow> fst e = ch_field ch"
  by (auto simp: run_chain_def dest: run_items_fields split: if_splits)

lemma run_chains_Cons:
  "run_chains L (ch # cs) b =
     (fst (run_chains L cs (fst (run_chain L ch b))),
      snd (run_chain L ch b) @ snd (run_chains L cs (fst (run_chain L ch b))))"
  by (simp split: prod.splits)

lemma run_chains_fields: "e \<in> set (snd (run_chains L cs b)) \<Longrightarrow> fst e \<in> ch_field ` set cs"
  by (induction cs arbitrary: b) (auto simp del: run_chains.simps(2) simp: run_chains_Cons dest: run_chain_fields)

lemma run_chain_check_only:
  "check_only (ch_items ch) \<Longrightarrow> run_chain L ch b = (b, snd (run_chain L ch b))"
  by (simp add: run_chain_def run_items_check_only)

lemma run_chains_check_only:
  "list_all (\<lambda>ch. check_only (ch_items ch)) cs \<Longrightarrow>
   run_chains L cs b = (b, concat (map (\<lambda>ch. snd (run_chain L ch b)) cs))"
proof (induction cs)
  case (Cons ch cs)
  then show ?case using run_chain_check_only [of ch L b]
    by (cases "run_chain L ch b") simp
qed simp

lemma check_only_post: "list_all (\<lambda>ch. check_only (ch_items ch)) validatePostRequest"
  by (simp add: validatePostRequest_def check_only_def)

lemma validator_categories_eq: "validator_categories = category_names"
  by (simp add: validator_categories_def category_names_def)


lemma string_chain_ok:
  "snd (run_chain L \<lparr>ch_field = f, ch_optional = False, ch_items = [Check IsString m1, Check NotEmpty m2]\<rparr> b) = []
   \<longleftrightarrow> (\<exists>t. body_get b f = Some (JString t) \<and> t \<noteq> [])"
  by (auto simp: run_chain_def check_failures_def std_values_def to_string_def split: option.splits jval.splits)

lemma string_in_chain_ok:
  "snd (run_chain L \<lparr>ch_field = f, ch_optional = False,
                     ch_items = [Check IsString m1, Check NotEmpty m2, Check (IsIn xs) m3]\<rparr> b) = []
   \<longleftrightarrow> (\<exists>t. body_get b f = Some (JString t) \<and> t \<noteq> [] \<and> t \<in> set xs)"
  by (auto simp: run_chain_def check_failures_def std_values_def to_string_def split: option.splits jval.splits)

lemma int_chain_ok:
  "snd (run_chain L \<lparr>ch_field = f, ch_optional = True, ch_items = [Check (IsIntMin m) m1]\<rparr> b) = []
   \<longleftrightarrow> (body_get b f = None \<or> (\<forall>x\<in>set (std_values (body_get b f)). is_int_min m (to_string x)))"
  by (auto simp: run_chain_def check_failures_def filter_empty_conv)

lemma post_chains_no_errors: "concat (map (\<lambda>ch. snd (run_chain L ch b)) validatePostRequest) = [] \<longleftrightarrow>
     (\<exists>t. body_get b ''title'' = Some (JString t) \<and> t \<noteq> []) \<and>
     (\<exists>t. body_get b ''content'' = Some (JString t) \<and> t \<noteq> []) \<and>
     (\<exists>k. body_get b ''category'' = Some (JString k) \<and> k \<noteq> [] \<and> k \<in> set validator_categories) \<and>
     nonneg_int_field (body_get b ''upVotes'') \<and> nonneg_int_field (body_get b ''downVotes'')"
  unfolding validatePostRequest_def list.map concat.simps append_is_Nil_conv append_Nil2
  unfolding string_chain_ok string_in_chain_ok int_chain_ok nonneg_int_field_def
  by (rule refl)

lemma category_in_validator:
  "(k \<noteq> [] \<and> k \<in> set validator_categories) \<longleftrightarrow> k \<in> set category_names"
  by (auto simp: validator_categories_eq category_names_def)



lemma body_get_set [simp]: "body_get (body_set b k v) k' = (if k' = k then Some v else body_get b k')"
  by (simp add: body_get_def body_set_def)


lemma run_chains_register:
  "run_chains L validateRegisterRequest b =
     (email_normalized L b,
      snd (run_chain L (validateRegisterRequest ! 0) b) @
      replicate (check_failures L IsEmail (body_get b ''email'')) (''email'', ''Must be a valid email'') @
      snd (run_chain L (validateRegisterRequest ! 2) b))"
  by (simp add: validateRegisterRequest_def run_chain_def email_normalized_def split: option.splits)

lemma run_chains_login:
  "run_chains L validateLoginRequest b =
     (b, snd (run_chain L (validateLoginRequest ! 0) b) @ snd (run_chain L (validateLoginRequest ! 1) b))"
  by (simp add: validateLoginRequest_def run_chain_def)

lemma password_chain_short:
  "body_get b ''password'' = Some (JString p) \<Longrightarrow>
   snd (run_chain L \<lparr>ch_field = ''password'', ch_optional = False,
       ch_items = [Check IsString m1, Check NotEmpty m2, Check (IsLength 4) m3]\<rparr> b) =
     (if p = [] then [(''password'', m2)] else []) @ (if length p < 4 then [(''password'', m3)] else [])"
  by (simp add: run_chain_def check_failures_def std_values_def to_string_def)




section \<open>Properties of the validators\<close>

text \<open>
  C30. \<open>validatePostRequest\<close> accepts a body exactly when its title and
  content are non-empty strings, its category is a string of the schema's
  category enum, and \<open>upVotes\<close>/\<open>downVotes\<close> are absent or non-negative
  integers; it passes the body on unchanged. Other fields, such as
  \<open>upVotedBy\<close>, are not looked at.
\<close>

theorem validatePostRequest_accepts:
  "validate L validatePostRequest b = Inr b' \<longleftrightarrow>
     b' = b \<and>
     (\<exists>t. body_get b ''title'' = Some (JString t) \<and> t \<noteq> []) \<and>
     (\<exists>t. body_get b ''content'' = Some (JString t) \<and> t \<noteq> []) \<and>
     (\<exists>k. body_get b ''category'' = Some (JString k) \<and> k \<in> set category_names) \<and>
     nonneg_int_field (body_get b ''upVotes'') \<and> nonneg_int_field (body_get b ''downVotes'')"
proof -
  let ?es = "concat (map (\<lambda>ch. snd (run_chain L ch b)) validatePostRequest)"
  have e: "?es = [] \<longleftrightarrow>
     (\<exists>t. body_get b ''title'' = Some (JString t) \<and> t \<noteq> []) \<and>
     (\<exists>t. body_get b ''content'' = Some (JString t) \<and> t \<noteq> []) \<and>
     (\<exists>k. body_get b ''category'' = Some (JString k) \<and> k \<in> set category_names) \<and>
     nonneg_int_field (body_get b ''upVotes'') \<and> nonneg_int_field (body_get b ''downVotes'')"
    by (simp only: post_chains_no_errors category_in_validator)
  have v: "validate L validatePostRequest b = (case ?es of [] \<Rightarrow> Inr b | x # xs \<Rightarrow> Inl (ValidationErrors (x # xs)))"
    unfolding validate_def handleValidationErrors_def run_chains_check_only [OF check_only_post] by simp
  show ?thesis
  proof (cases ?es)
    case Nil
    then show ?thesis using e by (simp only: v list.case local.Nil) auto
  next
    case (Cons x xs)
    then show ?thesis using e by (simp only: v list.case local.Cons) auto
  qed
qed

theorem validatePostRequest_accepts_witness:
  "validate demo_vlib validatePostRequest demo_post_form = Inr demo_post_form"
proof -
  have "nonneg_int_field (body_get demo_post_form ''upVotes'') \<and> nonneg_int_field (body_get demo_post_form ''downVotes'')"
    by (simp add: nonneg_int_field_def demo_post_form_def body_get_def std_values_def to_string_def
        is_int_min_def int_syntax_js_int_string int_value_js_int_string)
  then show ?thesis
    using validatePostRequest_accepts [of demo_vlib demo_post_form demo_post_form]
    by (simp add: demo_post_form_def body_get_def category_names_def)
qed

text \<open>
  C28. A password shorter than four characters is reported with the length
  message by the register and the login validators, and a password of four or
  more is not.
\<close>

theorem password_length_checked:
  assumes "body_get b ''password'' = Some (JString p)"
  shows "((''password'', ''Password must be at least 4 characters long'') \<in> set (snd (run_chains L validateRegisterRequest b))
            \<longleftrightarrow> length p < 4) \<and>
         ((''password'', ''Password must be at least 4 characters long'') \<in> set (snd (run_chains L validateLoginRequest b))
            \<longleftrightarrow> length p < 4)"
  using assms run_chain_fields [of _ L "validateRegisterRequest ! 0" b] run_chain_fields [of _ L "validateLoginRequest ! 0" b]
  by (auto simp: run_chains_register run_chains_login password_chain_short)
     (auto simp: validateRegisterRequest_def validateLoginRequest_def password_chain_short)

theorem password_length_checked_witness:
  "(''password'', ''Password must be at least 4 characters long'')
     \<in> set (snd (run_chains demo_vlib validateLoginRequest [(''username'', JString ''al''), (''password'', JString ''abc'')]))"
  using password_length_checked [of "[(''username'', JString ''al''), (''password'', JString ''abc'')]" "''abc''" demo_vlib]
  by (simp add: body_get_def)

text \<open>
  C32. \<open>withMessage\<close> names only the check before it: a user name that is a
  number, a boolean or an object fails \<open>isString\<close> and is reported only as
  \<open>Invalid value\<close>, never with the message \<open>Username must be a string and
  cannot be empty\<close>, which only an empty value gets.
\<close>

theorem username_type_error_message:
  assumes v: "body_get b ''username'' = Some v" and ns: "\<forall>s. v \<noteq> JString s"
    and na: "\<forall>xs. v \<noteq> JArray xs" and ne: "js_string v \<noteq> []"
  shows "filter (\<lambda>e. fst e = ''username'') (snd (run_chains L validateRegisterRequest b)) =
           [(''username'', ''Invalid value'')]"
proof -
  have f2: "ch_field (validateRegisterRequest ! 2) = ''password''"
    by (simp add: validateRegisterRequest_def)
  have pw: "filter (\<lambda>e. fst e = ''username'') (snd (run_chain L (validateRegisterRequest ! 2) b)) = []"
    using run_chain_fields [of _ L "validateRegisterRequest ! 2" b] f2 by (force simp: filter_empty_conv)
  have u: "snd (run_chain L (validateRegisterRequest ! 0) b) = [(''username'', ''Invalid value'')]"
    using v ns na ne
    by (cases v) (simp_all add: validateRegisterRequest_def run_chain_def check_failures_def std_values_def
        to_string_def default_msg_def)
  show ?thesis
    by (simp add: run_chains_register pw u)
qed

theorem username_type_error_message_witness:
  "filter (\<lambda>e. fst e = ''username'')
     (snd (run_chains demo_vlib validateRegisterRequest [(''username'', JNumber 5), (''password'', JString ''abcd'')])) =
   [(''username'', ''Invalid value'')]"
  using username_type_error_message [of "[(''username'', JNumber 5), (''password'', JString ''abcd'')]" "JNumber 5" demo_vlib]
  by (simp add: body_get_def js_int_string_def digits_of_nat.simps)

text \<open>
  C33. The bound of \<open>isInt({min: 0})\<close>: a number given as \<open>upVotes\<close> is
  reported exactly when it is negative.
\<close>

theorem upVotes_number_bound:
  assumes "body_get b ''upVotes'' = Some (JNumber n)"
  shows "(''upVotes'', ''UpVotes must be a non-negative integer'') \<in> set (snd (run_chains L validatePostRequest b))
           \<longleftrightarrow> n < 0"
  using assms
  by (simp add: run_chains_check_only [OF check_only_post] validatePostRequest_def run_chain_def
      check_failures_def std_values_def to_string_def is_int_min_def int_syntax_js_int_string
      int_value_js_int_string not_le)

theorem upVotes_number_bound_witness:
  "(''upVotes'', ''UpVotes must be a non-negative integer'')
     \<in> set (snd (run_chains demo_vlib validatePostRequest (demo_post_form @ [(''upVotes'', JNumber (-1))])))"
  using upVotes_number_bound [of "demo_post_form @ [(''upVotes'', JNumber (-1))]" "-1" demo_vlib]
  by (simp add: body_get_def)

end
