(* ===== verification/Routes.thy ===== *)
theory Routes
  imports Api Validators
begin

text \<open>
  The application of \<open>src/index.ts\<close> and the routers of \<open>src/routes/*.ts\<close>:
  how a request reaches a handler. \<open>express.json()\<close> and \<open>cookieParser()\<close>
  give the body and the \<open>access_token\<close> cookie; \<open>cors\<close> refuses a request
  from an origin other than \<open>FRONTEND_URI\<close>; the routers are tried in the
  order they are mounted and the first route whose method and path match
  runs its middleware (\<open>multer\<close>'s \<open>upload.single\<close>, a validator,
  \<open>verifyToken\<close>) and then its handler. An error a middleware passes to
  \<open>next(err)\<close>, and a request no route matches, get Express's default page.
  The reply is reduced to its status (or the error value); the store is the
  one of the handler models.
\<close>

section \<open>Requests\<close>

datatype http_method = GET | POST | PUT | DELETE | OtherMethod string

text \<open>A file part of a multipart form: its field name, the file, its size in bytes.\<close>

record upload_part =
  part_field :: string
  part_file :: upload_file
  part_size :: nat

text \<open>
  A request: the values of \<open>sort\<close> in its query string, its \<open>Origin\<close>
  header, the \<open>access_token\<close> cookie, whether it is a multipart form, the
  parsed body (the JSON body, or the text fields of the form) and the file
  parts of the form.
\<close>

record request =
  rq_method :: http_method
  rq_path :: string
  rq_query_sort :: "string list"
  rq_origin :: "string option"
  rq_cookie :: "token option"
  rq_multipart :: bool
  rq_body :: json_body
  rq_files :: "upload_part list"

text \<open>
  The server's environment: \<open>JWT_SECRET\<close>, \<open>FRONTEND_URI\<close>, the image
  store, the clock, the salt \<open>bcrypt.genSalt\<close> returns, and validator.js.
\<close>

record env =
  e_secret :: string
  e_frontend :: "string option"
  e_cloud :: "string \<Rightarrow> string option"
  e_now :: nat
  e_salt :: nat
  e_vlib :: vlib

section \<open>Paths\<close>

text \<open>A path split at its slashes.\<close>

fun split_segs :: "string \<Rightarrow> string \<Rightarrow> string list" where
  "split_segs acc [] = [rev acc]"
| "split_segs acc (c # cs) = (if c = CHR ''/'' then rev acc # split_segs [] cs else split_segs (c # acc) cs)"

text \<open>
  The segments of a request path. Express matches routes with
  \<open>strict: false\<close>: one trailing slash is ignored.
\<close>

definition path_segs :: "string \<Rightarrow> string list option" where
  "path_segs p =
     (case split_segs [] p of
        [] # segs \<Rightarrow> Some (if segs \<noteq> [] \<and> last segs = [] then butlast segs else segs)
      | _ \<Rightarrow> None)"

text \<open>Route paths are matched without regard to the case of ASCII letters.\<close>

definition lower :: "char \<Rightarrow> char" where
  "lower c = (if 65 \<le> (of_char c :: nat) \<and> (of_char c :: nat) \<le> 90 then char_of (of_char c + (32 :: nat)) else c)"

datatype seg = Lit string | Par string

text \<open>
  \<open>path-to-regexp\<close>: a literal segment matches itself, a parameter
  \<open>:name\<close> any non-empty segment, bound to its name.
\<close>

fun match_segs :: "seg list \<Rightarrow> string list \<Rightarrow> (string \<times> string) list option" where
  "match_segs [] [] = Some []"
| "match_segs (Lit a # ps) (s # ss) = (if map lower a = map lower s then match_segs ps ss else None)"
| "match_segs (Par n # ps) (s # ss) = (if s \<noteq> [] then map_option (\<lambda>bs. (n, s) # bs) (match_segs ps ss) else None)"
| "match_segs _ _ = None"

section \<open>The route table\<close>

datatype middleware = Upload | ValidateRegister | ValidateLogin | ValidatePost | VerifyToken

datatype handler =
    HHello | HRegister | HLogin | HLogout
  | HGetAllPosts | HGetPostById | HGetAllPostsByUser | HCreatePost | HUpvote | HDownvote
  | HEditPost | HDeletePost
  | HCreateComment | HGetComments | HCreateReply | HGetReplies
  | HGetAllUsers | HGetSingleUser

record route =
  r_method :: http_method
  r_path :: "seg list"
  r_chain :: "middleware list"
  r_handler :: handler

definition mk_route :: "http_method \<Rightarrow> seg list \<Rightarrow> seg list \<Rightarrow> middleware list \<Rightarrow> handler \<Rightarrow> route" where
  "mk_route m mount p mws h = \<lparr>r_method = m, r_path = mount @ p, r_chain = mws, r_handler = h\<rparr>"

text \<open>\<open>app.get("/")\<close> and the routers in the order \<open>index.ts\<close> mounts them.\<close>

definition hello_routes :: "route list" where
  "hello_routes = [mk_route GET [] [] [] HHello]"

definition auth_routes :: "route list" where
  "auth_routes =
     (let m = [Lit ''api'', Lit ''my'', Lit ''user''] in
      [mk_route POST m [Lit ''register''] [ValidateRegister] HRegister,
       mk_route POST m [Lit ''login''] [ValidateLogin] HLogin,
       mk_route POST m [Lit ''logout''] [] HLogout])"

definition post_routes :: "route list" where
  "post_routes =
     (let m = [Lit ''api'', Lit ''posts''] in
      [mk_route POST m [Lit ''new-post''] [Upload, ValidatePost, VerifyToken] HCreatePost,
       mk_route GET m [] [] HGetAllPosts,
       mk_route GET m [Par ''id''] [] HGetPostById,
       mk_route GET m [Lit ''user'', Par ''userId''] [VerifyToken] HGetAllPostsByUser,
       mk_route POST m [Par ''postId'', Lit ''upvote''] [VerifyToken] HUpvote,
       mk_route POST m [Par ''postId'', Lit ''downvote''] [VerifyToken] HDownvote,
       mk_route PUT m [Par ''postId''] [VerifyToken] HEditPost,
       mk_route DELETE m [Par ''id''] [VerifyToken] HDeletePost])"

definition comment_routes :: "route list" where
  "comment_routes =
     (let m = [Lit ''api'', Lit ''post'', Lit ''comment''] in
      [mk_route POST m [] [VerifyToken] HCreateComment,
       mk_route GET m [Par ''postId''] [] HGetComments,
       mk_route POST m [Lit ''reply''] [VerifyToken] HCreateReply,
       mk_route GET m [Lit ''replies'', Par ''commentId''] [] HGetReplies])"

definition user_routes :: "route list" where
  "user_routes =
     (let m = [Lit ''api'', Lit ''users''] in
      [mk_route GET m [] [VerifyToken] HGetAllUsers,
       mk_route GET m [Lit ''single''] [VerifyToken] HGetSingleUser])"

definition route_table :: "route list" where
  "route_table = hello_routes @ auth_routes @ post_routes @ comment_routes @ user_routes"

text \<open>The first route of a table whose method and path match, with its parameters.\<close>

fun find_route :: "route list \<Rightarrow> http_method \<Rightarrow> string list \<Rightarrow> (route \<times> (string \<times> string) list) option" where
  "find_route [] m segs = None"
| "find_route (r # rs) m segs =
     (if r_method r = m then (case match_segs (r_path r) segs of Some ps \<Rightarrow> Some (r, ps) | None \<Rightarrow> find_route rs m segs)
      else find_route rs m segs)"

section \<open>Casting request data\<close>

text \<open>
  Object ids in URLs and bodies. The model's ids are numbers and their text
  is the decimal numeral without leading zeroes; any other text is not an
  id, and Mongoose's cast of it throws.
\<close>

definition param_of :: "string \<Rightarrow> id_param" where
  "param_of s =
     (if s \<noteq> [] \<and> list_all is_digit s \<and> (hd s = CHR ''0'' \<longrightarrow> s = ''0'') then Oid (nat_of_digits s) else Malformed s)"

text \<open>
  An id read from the body, as \<open>findById\<close> takes it: \<open>undefined\<close> and
  \<open>null\<close> find nothing, any other value is cast from its string.
\<close>

definition id_field :: "jval option \<Rightarrow> id_param option" where
  "id_field v = (case v of None \<Rightarrow> None | Some JNull \<Rightarrow> None | Some x \<Rightarrow> Some (param_of (js_string x)))"

text \<open>
  A body field assigned to a \<open>String\<close> path of a schema: \<open>undefined\<close> and
  \<open>null\<close> are absent; numbers and booleans are cast to their string; an array
  or an object cannot be cast, and the document then fails \<open>save()\<close>, as
  with an empty string, which the schemas' \<open>required\<close> and \<open>enum\<close> refuse:
  the model passes the empty string.
\<close>

definition str_field :: "jval option \<Rightarrow> string option" where
  "str_field v =
     (case v of
        None \<Rightarrow> None
      | Some JNull \<Rightarrow> None
      | Some (JArray xs) \<Rightarrow> Some []
      | Some (JObject ms) \<Rightarrow> Some []
      | Some x \<Rightarrow> Some (js_string x))"

text \<open>
  A body field assigned to an array of \<open>ObjectId\<close>: Mongoose casts each
  element of an array, or wraps a single value; \<open>None\<close> inside is a value
  it cannot cast.
\<close>

definition oid_of_jval :: "jval \<Rightarrow> oid option" where
  "oid_of_jval x = (case param_of (js_string x) of Oid i \<Rightarrow> Some i | Malformed s \<Rightarrow> None)"

definition ids_field :: "jval option \<Rightarrow> oid list option option" where
  "ids_field v =
     (case v of
        None \<Rightarrow> Some None
      | Some JNull \<Rightarrow> Some None
      | Some (JArray xs) \<Rightarrow> map_option Some (those (map oid_of_jval xs))
      | Some x \<Rightarrow> map_option (\<lambda>i. Some [i]) (oid_of_jval x))"

text \<open>
  A body field assigned to a \<open>Number\<close> path, an \<open>ObjectId\<close> path or a
  \<open>Date\<close> path. \<open>createPost\<close> assigns the author, the counters and the
  date again before it saves (lines 51--57), so only a value that casts is
  kept; any other is dropped.
\<close>

definition int_field :: "jval option \<Rightarrow> int option" where
  "int_field v = (case v of Some (JNumber n) \<Rightarrow> Some n | _ \<Rightarrow> None)"

definition date_field :: "jval option \<Rightarrow> nat option" where
  "date_field v = (case v of Some (JNumber n) \<Rightarrow> (if 0 \<le> n then Some (nat n) else None) | _ \<Rightarrow> None)"

definition author_field :: "jval option \<Rightarrow> oid option" where
  "author_field v = (case id_field v of Some (Oid i) \<Rightarrow> Some i | _ \<Rightarrow> None)"

text \<open>
  \<open>req.body\<close> as \<open>new Post(req.body)\<close> in \<open>createPost\<close> reads it. When
  an id list cannot be cast, \<open>save()\<close> refuses the new post; the model
  reaches that refusal with an empty title.
\<close>

definition post_body_of_json :: "json_body \<Rightarrow> post_body" where
  "post_body_of_json b =
     (let ids = map (\<lambda>k. ids_field (body_get b k)) [''upVotedBy'', ''downVotedBy'', ''comments''];
          pb = \<lparr>b_author = author_field (body_get b ''author''),
                b_title = str_field (body_get b ''title''), b_content = str_field (body_get b ''content''),
                b_category = str_field (body_get b ''category''),
                b_upVotes = int_field (body_get b ''upVotes''), b_downVotes = int_field (body_get b ''downVotes''),
                b_upVotedBy = nullish (ids ! 0) None, b_downVotedBy = nullish (ids ! 1) None,
                b_imageUrl = str_field (body_get b ''imageUrl''),
                b_comments = nullish (ids ! 2) None, b_lastUpdated = date_field (body_get b ''lastUpdated'')\<rparr>
      in if list_all (\<lambda>x. x \<noteq> None) ids then pb else pb\<lparr>b_title := Some []\<rparr>)"

text \<open>
  \<open>const {title, content, category} = req.body\<close> in \<open>editPost\<close>: only
  these three fields are read.
\<close>

definition edit_body_of_json :: "json_body \<Rightarrow> post_body" where
  "edit_body_of_json b =
     \<lparr>b_author = None, b_title = str_field (body_get b ''title''), b_content = str_field (body_get b ''content''),
      b_category = str_field (body_get b ''category''), b_upVotes = None, b_downVotes = None,
      b_upVotedBy = None, b_downVotedBy = None, b_imageUrl = None, b_comments = None, b_lastUpdated = None\<rparr>"

section \<open>Middleware\<close>

text \<open>What the middleware have put on the request so far.\<close>

record ctx =
  cx_body :: json_body
  cx_claims :: "claims option"
  cx_file :: "upload_file option"

text \<open>
  \<open>multer({limits: {fileSize: 5 * 1024 * 1024}}).single("imageFile")\<close>: on a
  multipart request it puts the form's text fields in \<open>req.body\<close> and at most
  one file, sent as \<open>imageFile\<close> and no larger than the limit, in
  \<open>req.file\<close>; a file in another field, a second file or a larger one is a
  \<open>MulterError\<close> passed to \<open>next(err)\<close>. Other requests pass untouched.
\<close>

definition upload_limit :: nat where
  "upload_limit = 5 * 1024 * 1024"

definition multer_single :: "request \<Rightarrow> ctx \<Rightarrow> api_error + ctx" where
  "multer_single rq cx =
     (if \<not> rq_multipart rq then Inr cx
      else case rq_files rq of
             [] \<Rightarrow> Inr (cx\<lparr>cx_body := rq_body rq\<rparr>)
           | [p] \<Rightarrow> (if part_field p = ''imageFile'' \<and> part_size p \<le> upload_limit
                     then Inr (cx\<lparr>cx_body := rq_body rq, cx_file := Some (part_file p)\<rparr>)
                     else Inl (DefaultError 500))
           | _ \<Rightarrow> Inl (DefaultError 500))"

fun run_mw :: "env \<Rightarrow> request \<Rightarrow> middleware \<Rightarrow> ctx \<Rightarrow> api_error + ctx" where
  "run_mw E rq Upload cx = multer_single rq cx"
| "run_mw E rq ValidateRegister cx =
     map_sum id (\<lambda>b. cx\<lparr>cx_body := b\<rparr>) (validate (e_vlib E) validateRegisterRequest (cx_body cx))"
| "run_mw E rq ValidateLogin cx =
     map_sum id (\<lambda>b. cx\<lparr>cx_body := b\<rparr>) (validate (e_vlib E) validateLoginRequest (cx_body cx))"
| "run_mw E rq ValidatePost cx =
     map_sum id (\<lambda>b. cx\<lparr>cx_body := b\<rparr>) (validate (e_vlib E) validatePostRequest (cx_body cx))"
| "run_mw E rq VerifyToken cx =
     map_sum id (\<lambda>c. cx\<lparr>cx_claims := Some c\<rparr>) (verifyToken (e_secret E) (rq_cookie rq))"

fun run_mws :: "env \<Rightarrow> request \<Rightarrow> middleware list \<Rightarrow> ctx \<Rightarrow> api_error + ctx" where
  "run_mws E rq [] cx = Inr cx"
| "run_mws E rq (mw # mws) cx = (case run_mw E rq mw cx of Inl e \<Rightarrow> Inl e | Inr cx' \<Rightarrow> run_mws E rq mws cx')"

section \<open>Handlers\<close>

text \<open>The outcome of a handler: its error, or its success status.\<close>

definition status_only :: "'a response \<Rightarrow> api_error + nat" where
  "status_only r = (case r of Inl e \<Rightarrow> Inl e | Inr (n, x) \<Rightarrow> Inr n)"

definition param :: "(string \<times> string) list \<Rightarrow> string \<Rightarrow> string" where
  "param ps n = (case map_of ps n of Some s \<Rightarrow> s | None \<Rightarrow> [])"

definition str_of :: "json_body \<Rightarrow> string \<Rightarrow> string option" where
  "str_of b k = (case body_get b k of Some (JString s) \<Rightarrow> Some s | _ \<Rightarrow> None)"

text \<open>
  \<open>registerUser\<close> on a validated body: the user name and password are
  strings. The e-mail is a string, or an array of strings when one was sent
  (each element passed \<open>isEmail\<close>); then no stored e-mail equals it, and
  \<open>save()\<close> cannot cast it to the \<open>String\<close> path. The last case is not
  reached: the validator admits only string user names and passwords.
\<close>

definition register_route :: "env \<Rightarrow> json_body \<Rightarrow> db \<Rightarrow> (api_error + nat) \<times> db" where
  "register_route E b d =
     (case (str_of b ''username'', str_of b ''password'') of
        (Some u, Some p) \<Rightarrow>
          (case str_of b ''email'' of
             Some m \<Rightarrow> (let (r, d') = registerUser (e_secret E) u m p (e_salt E) d in (status_only r, d'))
           | None \<Rightarrow> (if find_one (\<lambda>x. username x = u) (user_coll d) \<noteq> None
                      then (Inl (Http 409 ''Username already exists''), d) else (Inl server_error, d)))
      | _ \<Rightarrow> (Inl server_error, d))"

definition login_route :: "env \<Rightarrow> json_body \<Rightarrow> db \<Rightarrow> api_error + nat" where
  "login_route E b d =
     (case (str_of b ''username'', str_of b ''password'') of
        (Some u, Some p) \<Rightarrow> status_only (loginUser (e_secret E) u p d)
      | _ \<Rightarrow> Inl server_error)"

text \<open>
  The handler of a route, given the route's parameters, the request and what
  the middleware put on it. A handler reads \<open>req.user\<close> from
  \<open>verifyToken\<close>; without it, reading \<open>req.user.user\<close> fails as it does on
  claims without a user.
\<close>

fun run_handler :: "env \<Rightarrow> handler \<Rightarrow> (string \<times> string) list \<Rightarrow> request \<Rightarrow> ctx \<Rightarrow> db \<Rightarrow> (api_error + nat) \<times> db" where
  "run_handler E HHello ps rq cx d = (Inr 200, d)"
| "run_handler E HRegister ps rq cx d = register_route E (cx_body cx) d"
| "run_handler E HLogin ps rq cx d = (login_route E (cx_body cx) d, d)"
| "run_handler E HLogout ps rq cx d = (status_only logoutUser, d)"
| "run_handler E HGetAllPosts ps rq cx d =
     (status_only (getAllPosts d (case rq_query_sort rq of [s] \<Rightarrow> Some s | _ \<Rightarrow> None)), d)"
| "run_handler E HGetPostById ps rq cx d = (status_only (getPostById d (param_of (param ps ''id''))), d)"
| "run_handler E HGetAllPostsByUser ps rq cx d =
     (status_only (getAllPostsByUser d (param_of (param ps ''userId''))), d)"
| "run_handler E HCreatePost ps rq cx d =
     (let (r, d') = createPost (e_cloud E) (e_now E) d (nullish (cx_claims cx) (Claims None))
                      (post_body_of_json (cx_body cx)) (cx_file cx)
      in (status_only r, d'))"
| "run_handler E HUpvote ps rq cx d =
     (let (r, d') = upvotePost d (param_of (param ps ''postId'')) (nullish (cx_claims cx) (Claims None))
      in (status_only r, d'))"
| "run_handler E HDownvote ps rq cx d =
     (let (r, d') = downvotePost d (param_of (param ps ''postId'')) (nullish (cx_claims cx) (Claims None))
      in (status_only r, d'))"
| "run_handler E HEditPost ps rq cx d =
     (let (r, d') = editPost (e_cloud E) (e_now E) d (param_of (param ps ''postId''))
                      (nullish (cx_claims cx) (Claims None)) (edit_body_of_json (cx_body cx)) (cx_file cx)
      in (status_only r, d'))"
| "run_handler E HDeletePost ps rq cx d =
     (let (r, d') = deletePost d (param_of (param ps ''id'')) (nullish (cx_claims cx) (Claims None))
      in (status_only r, d'))"
| "run_handler E HCreateComment ps rq cx d =
     (let (r, d') = createComment d (nullish (cx_claims cx) (Claims None))
                      \<lparr>cb_postId = id_field (body_get (cx_body cx) ''postId''),
                       cb_content = str_field (body_get (cx_body cx) ''content'')\<rparr>
      in (status_only r, d'))"
| "run_handler E HGetComments ps rq cx d = (status_only (getCommentsForPost d (param_of (param ps ''postId''))), d)"
| "run_handler E HCreateReply ps rq cx d =
     (let (r, d') = createReply (e_now E) d (nullish (cx_claims cx) (Claims None))
                      \<lparr>rb_commentId = id_field (body_get (cx_body cx) ''commentId''),
                       rb_content = str_field (body_get (cx_body cx) ''content'')\<rparr>
      in (status_only r, d'))"
| "run_handler E HGetReplies ps rq cx d =
     (status_only (getRepliesForComment d (param_of (param ps ''commentId''))), d)"
| "run_handler E HGetAllUsers ps rq cx d = (status_only (getAllUsers d), d)"
| "run_handler E HGetSingleUser ps rq cx d =
     (status_only (getSingleUser d (nullish (cx_claims cx) (Claims None))), d)"

section \<open>The application\<close>

text \<open>
  \<open>cors\<close> with the origin callback of \<open>index.ts\<close>: a request without an
  \<open>Origin\<close> passes; otherwise the origin must be \<open>FRONTEND_URI\<close> (an unset
  variable matches no origin), or the error goes to the default handler.
\<close>

definition cors_allows :: "env \<Rightarrow> request \<Rightarrow> bool" where
  "cors_allows E rq = (case rq_origin rq of None \<Rightarrow> True | Some org \<Rightarrow> e_frontend E = Some org)"

text \<open>
  One request: \<open>express.json()\<close> has parsed a JSON body (a multipart body is
  left to \<open>multer\<close>, and \<open>req.body\<close> is empty until then), \<open>cors\<close> runs,
  and the first matching route handles it.
\<close>

definition serve :: "env \<Rightarrow> request \<Rightarrow> db \<Rightarrow> (api_error + nat) \<times> db" where
  "serve E rq d =
     (if \<not> cors_allows E rq then (Inl (DefaultError 500), d)
      else case path_segs (rq_path rq) of
             None \<Rightarrow> (Inl (DefaultError 404), d)
           | Some segs \<Rightarrow>
               (case find_route route_table (rq_method rq) segs of
                  None \<Rightarrow> (Inl (DefaultError 404), d)
                | Some (r, ps) \<Rightarrow>
                    (case run_mws E rq (r_chain r)
                            \<lparr>cx_body = (if rq_multipart rq then [] else rq_body rq), cx_claims = None, cx_file = None\<rparr> of
                       Inl e \<Rightarrow> (Inl e, d)
                     | Inr cx \<Rightarrow> run_handler E (r_handler r) ps rq cx d)))"

section \<open>Specification-side notions\<close>

text \<open>
  Two routes overlap when some request matches both: the same method and
  paths whose segments pairwise can match the same text. A table without
  overlapping routes dispatches no request to two routes.
\<close>

fun segs_overlap :: "seg list \<Rightarrow> seg list \<Rightarrow> bool" where
  "segs_overlap [] [] = True"
| "segs_overlap (Lit a # ps) (Lit b # qs) = (map lower a = map lower b \<and> segs_overlap ps qs)"
| "segs_overlap (Lit a # ps) (Par n # qs) = (a \<noteq> [] \<and> segs_overlap ps qs)"
| "segs_overlap (Par n # ps) (Lit b # qs) = (b \<noteq> [] \<and> segs_overlap ps qs)"
| "segs_overlap (Par n # ps) (Par m # qs) = segs_overlap ps qs"
| "segs_overlap _ _ = False"

definition overlap :: "route \<Rightarrow> route \<Rightarrow> bool" where
  "overlap r1 r2 \<longleftrightarrow> r_method r1 = r_method r2 \<and> segs_overlap (r_path r1) (r_path r2)"

fun no_overlap :: "route list \<Rightarrow> bool" where
  "no_overlap [] = True"
| "no_overlap (r # rs) = (list_all (\<lambda>r'. \<not> overlap r r') rs \<and> no_overlap rs)"

text \<open>The status of a reply; \<open>None\<close> when no reply is sent.\<close>

definition reply_status :: "api_error + nat \<Rightarrow> nat option" where
  "reply_status r = (case r of Inl e \<Rightarrow> status_of e | Inr n \<Rightarrow> Some n)"

section \<open>Concrete requests for the witnesses\<close>

definition demo_env :: env where
  "demo_env = \<lparr>e_secret = ''k'', e_frontend = Some ''https://app.example'', e_cloud = no_cloud, e_now = 5,
                e_salt = 1, e_vlib = demo_vlib\<rparr>"

definition demo_request :: request where
  "demo_request = \<lparr>rq_method = GET, rq_path = ''/'', rq_query_sort = [], rq_origin = None, rq_cookie = None,
                    rq_multipart = False, rq_body = [], rq_files = []\<rparr>"

definition upvote_request :: "token option \<Rightarrow> request" where
  "upvote_request tok = demo_request\<lparr>rq_method := POST, rq_path := ''/api/posts/3/upvote'', rq_cookie := tok\<rparr>"

definition image_request :: "nat \<Rightarrow> request" where
  "image_request n = demo_request\<lparr>rq_method := POST, rq_path := ''/api/posts/new-post'', rq_multipart := True,
     rq_files := [\<lparr>part_field = ''imageFile'',
                   part_file = \<lparr>mimetype = ''image/png'', buffer_b64 = ''AAAA''\<rparr>, part_size = n\<rparr>]\<rparr>"


section \<open>Dispatch\<close>

lemma match_segs_overlap:
  "match_segs p s = Some x \<Longrightarrow> match_segs q s = Some y \<Longrightarrow> segs_overlap p q"
proof (induction p s arbitrary: q x y rule: match_segs.induct)
  case 1
  then show ?case by (cases q) auto
next
  case (2 a ps s ss)
  then show ?case
    by (cases q; cases "hd q") (auto split: if_splits simp: map_eq_imp_length_eq)
next
  case (3 n ps s ss)
  then show ?case
    by (cases q; cases "hd q") (auto split: if_splits)
qed auto

lemma segs_overlap_sym: "segs_overlap p q = segs_overlap q p"
  by (induction p q rule: segs_overlap.induct) auto

lemma find_route_Some:
  "find_route t m s = Some (r, ps) \<Longrightarrow> r \<in> set t \<and> r_method r = m \<and> match_segs (r_path r) s = Some ps"
  by (induction t) (auto split: if_splits option.splits)

lemma find_route_None:
  "find_route t m s = None \<longleftrightarrow> (\<forall>r\<in>set t. r_method r = m \<longrightarrow> match_segs (r_path r) s = None)"
  by (induction t) (auto split: option.splits)

lemma no_overlap_set:
  "no_overlap t \<Longrightarrow> r1 \<in> set t \<Longrightarrow> r2 \<in> set t \<Longrightarrow> overlap r1 r2 \<Longrightarrow> r1 = r2"
  by (induction t) (auto simp: list_all_iff overlap_def segs_overlap_sym)

lemma find_route_unique:
  assumes "no_overlap t" "set t' = set t"
  shows "find_route t' m s = find_route t m s"
proof (cases "find_route t m s")
  case None
  then have "find_route t' m s = None" using assms(2) by (simp add: find_route_None)
  with None show ?thesis by simp
next
  case (Some a)
  obtain r ps where a: "a = (r, ps)" by fastforce
  with Some have r: "r \<in> set t" "r_method r = m" "match_segs (r_path r) s = Some ps"
    using find_route_Some by blast+
  then obtain r' ps' where r': "find_route t' m s = Some (r', ps')"
    using assms(2) find_route_None [of t' m s] by (cases "find_route t' m s") auto
  then have "r' \<in> set t" "r_method r' = m" "match_segs (r_path r') s = Some ps'"
    using find_route_Some assms(2) by blast+
  then have "r' = r"
    using no_overlap_set [OF assms(1)] r match_segs_overlap by (metis overlap_def)
  with r' r \<open>match_segs (r_path r') s = Some ps'\<close> Some a show ?thesis by simp
qed

lemma route_table_no_overlap: "no_overlap route_table"
  by (simp add: route_table_def hello_routes_def auth_routes_def post_routes_def comment_routes_def
      user_routes_def mk_route_def overlap_def lower_def)


section \<open>Middleware and handlers\<close>

lemma route_table_chain:
  "r \<in> set route_table \<Longrightarrow> r_chain r =
     (case r_handler r of
        HCreatePost \<Rightarrow> [Upload, ValidatePost, VerifyToken] | HRegister \<Rightarrow> [ValidateRegister]
      | HLogin \<Rightarrow> [ValidateLogin] | HHello \<Rightarrow> [] | HLogout \<Rightarrow> [] | HGetAllPosts \<Rightarrow> []
      | HGetPostById \<Rightarrow> [] | HGetComments \<Rightarrow> [] | HGetReplies \<Rightarrow> [] | _ \<Rightarrow> [VerifyToken])"
  by (auto simp: route_table_def hello_routes_def auth_routes_def post_routes_def comment_routes_def
      user_routes_def mk_route_def)

lemma verifyToken_Inl: "verifyToken s c = Inl e \<Longrightarrow> e = SendStatus 401"
  by (auto simp: verifyToken_def split: option.splits)

lemma map_sum_Inr_iff [simp]: "map_sum f g s = Inr y \<longleftrightarrow> (\<exists>x. s = Inr x \<and> y = g x)"
  by (cases s) auto

lemma map_sum_Inl_iff [simp]: "map_sum f g s = Inl e \<longleftrightarrow> (\<exists>x. s = Inl x \<and> e = f x)"
  by (cases s) auto

lemma run_mw_claims:
  "run_mw E rq mw cx = Inr cx' \<Longrightarrow>
   cx_claims cx' = cx_claims cx \<or> (\<exists>c. cx_claims cx' = Some c \<and> verifyToken (e_secret E) (rq_cookie rq) = Inr c)"
  by (cases mw) (auto simp: multer_single_def split: if_splits list.splits sum.splits)

lemma run_mws_claims:
  "run_mws E rq mws cx = Inr cx' \<Longrightarrow>
   cx_claims cx' = cx_claims cx \<or> (\<exists>c. cx_claims cx' = Some c \<and> verifyToken (e_secret E) (rq_cookie rq) = Inr c)"
proof (induction mws arbitrary: cx)
  case (Cons mw mws)
  then obtain cx1 where "run_mw E rq mw cx = Inr cx1" "run_mws E rq mws cx1 = Inr cx'"
    by (auto split: sum.splits)
  then show ?case using Cons.IH run_mw_claims by metis
qed simp

lemma run_mws_verified:
  "run_mws E rq mws cx = Inr cx' \<Longrightarrow> VerifyToken \<in> set mws \<Longrightarrow>
   \<exists>c. cx_claims cx' = Some c \<and> verifyToken (e_secret E) (rq_cookie rq) = Inr c"
proof (induction mws arbitrary: cx)
  case (Cons mw mws)
  then obtain cx1 where r1: "run_mw E rq mw cx = Inr cx1" and r2: "run_mws E rq mws cx1 = Inr cx'"
    by (auto split: sum.splits)
  show ?case
  proof (cases "VerifyToken \<in> set mws")
    case True
    then show ?thesis using Cons.IH r2 by blast
  next
    case False
    with Cons.prems have "mw = VerifyToken" by simp
    with r1 have "\<exists>c. cx_claims cx1 = Some c \<and> verifyToken (e_secret E) (rq_cookie rq) = Inr c"
      by (auto split: sum.splits)
    then show ?thesis using run_mws_claims [OF r2] by auto
  qed
qed simp

lemma run_handler_NoResponse:
  "fst (run_handler E h ps rq cx d) = Inl NoResponse \<Longrightarrow>
   h \<in> {HUpvote, HDownvote, HEditPost} \<and> req_user_id (nullish (cx_claims cx) (Claims None)) = None"
  by (cases h)
     (auto simp: split_def status_only_def register_route_def login_route_def registerUser_def loginUser_def
      logoutUser_def getAllPosts_def getPostById_def getAllPostsByUser_def createPost_def save_created_post_def
      upvotePost_def downvotePost_def editPost_def save_edited_post_def deletePost_def createComment_def
      getCommentsForPost_def createReply_def getRepliesForComment_def getAllUsers_def getSingleUser_def Let_def
      split: option.splits sum.splits prod.splits if_splits id_param.splits)

lemma param_of_empty: "param_of s = Malformed [] \<longleftrightarrow> s = []"
  by (simp add: param_of_def)

lemma run_handler_user_id_400:
  "fst (run_handler E h ps rq cx d) = Inl (Http 400 ''User ID is required'') \<Longrightarrow>
   h = HGetAllPostsByUser \<and> param ps ''userId'' = []"
  by (cases h)
     (auto simp: split_def status_only_def register_route_def login_route_def registerUser_def loginUser_def
      logoutUser_def getAllPosts_def getPostById_def getAllPostsByUser_def createPost_def save_created_post_def
      upvotePost_def downvotePost_def editPost_def save_edited_post_def deletePost_def createComment_def
      getCommentsForPost_def createReply_def getRepliesForComment_def getAllUsers_def getSingleUser_def Let_def
      param_of_empty
      split: option.splits sum.splits prod.splits if_splits id_param.splits)

lemma match_segs_Par:
  "match_segs p s = Some ps \<Longrightarrow> Par n \<in> set p \<Longrightarrow> \<exists>v. map_of ps n = Some v \<and> v \<noteq> []"
proof (induction p s arbitrary: ps rule: match_segs.induct)
  case (3 m p s ss)
  then show ?case by (auto split: if_splits)
qed (auto split: if_splits)

lemma route_user_id:
  "r \<in> set route_table \<Longrightarrow> r_handler r = HGetAllPostsByUser \<Longrightarrow> Par ''userId'' \<in> set (r_path r)"
  by (auto simp: route_table_def hello_routes_def auth_routes_def post_routes_def comment_routes_def
      user_routes_def mk_route_def)

lemma run_mw_Inl:
  "run_mw E rq mw cx = Inl e \<Longrightarrow> e = DefaultError 500 \<or> e = SendStatus 401 \<or> (\<exists>es. e = ValidationErrors es)"
  by (cases mw)
     (auto simp: multer_single_def validate_def handleValidationErrors_def dest: verifyToken_Inl
      split: if_splits list.splits prod.splits)

lemma run_mws_Inl:
  "run_mws E rq mws cx = Inl e \<Longrightarrow> e = DefaultError 500 \<or> e = SendStatus 401 \<or> (\<exists>es. e = ValidationErrors es)"
  by (induction mws arbitrary: cx) (auto split: sum.splits dest: run_mw_Inl)

lemma serve_handler_error:
  assumes "fst (serve E rq d) = Inl e" "e \<noteq> DefaultError 500" "e \<noteq> DefaultError 404" "e \<noteq> SendStatus 401"
    "\<forall>es. e \<noteq> ValidationErrors es"
  shows "\<exists>segs r ps cx. path_segs (rq_path rq) = Some segs \<and> find_route route_table (rq_method rq) segs = Some (r, ps) \<and>
     run_mws E rq (r_chain r) \<lparr>cx_body = (if rq_multipart rq then [] else rq_body rq), cx_claims = None, cx_file = None\<rparr> = Inr cx \<and>
     fst (run_handler E (r_handler r) ps rq cx d) = Inl e"
  using assms
  by (auto simp: serve_def split: if_splits option.splits sum.splits prod.splits dest: run_mws_Inl)


section \<open>Properties of the application\<close>

text \<open>
  C34. The order of the routes does not matter: no two routes of the table
  overlap, so dispatching with the routes in any order picks the same route
  with the same parameters.
\<close>

theorem route_order_irrelevant:
  assumes "mset t = mset route_table"
  shows "find_route t m s = find_route route_table m s"
  using find_route_unique [OF route_table_no_overlap] assms mset_eq_setD by blast

theorem route_order_irrelevant_witness:
  "find_route (rev route_table) POST [''api'', ''posts'', ''3'', ''UpVote''] =
   find_route route_table POST [''api'', ''posts'', ''3'', ''UpVote'']"
  using route_order_irrelevant [of "rev route_table"] by simp

text \<open>
  C35. The routes of the handlers that need a user (a user's posts, the
  votes, edit and delete of a post, new comments and replies, the user
  listings) answer a request without a cookie that verifies with a bare 401
  and leave the store unchanged: the router runs \<open>verifyToken\<close> before
  each of them.
\<close>

theorem guarded_route_needs_token:
  assumes "cors_allows E rq" "path_segs (rq_path rq) = Some segs"
    "find_route route_table (rq_method rq) segs = Some (r, ps)"
    "r_handler r \<in> {HGetAllPostsByUser, HUpvote, HDownvote, HEditPost, HDeletePost,
                     HCreateComment, HCreateReply, HGetAllUsers, HGetSingleUser}"
    "\<forall>c. verifyToken (e_secret E) (rq_cookie rq) \<noteq> Inr c"
  shows "serve E rq d = (Inl (SendStatus 401), d)"
proof -
  have chain: "r_chain r = [VerifyToken]"
    using route_table_chain [of r] find_route_Some [OF assms(3)] assms(4) by auto
  obtain e where e: "verifyToken (e_secret E) (rq_cookie rq) = Inl e"
    using assms(5) by (cases "verifyToken (e_secret E) (rq_cookie rq)") auto
  then have "e = SendStatus 401" by (rule verifyToken_Inl)
  with e chain assms(1-3) show ?thesis by (simp add: serve_def)
qed

theorem guarded_route_needs_token_witness:
  "serve demo_env (upvote_request None) demo_db = (Inl (SendStatus 401), demo_db)"
proof -
  let ?r = "mk_route POST [Lit ''api'', Lit ''posts''] [Par ''postId'', Lit ''upvote''] [VerifyToken] HUpvote"
  have p: "path_segs (rq_path (upvote_request None)) = Some [''api'', ''posts'', ''3'', ''upvote'']"
    by (simp add: upvote_request_def demo_request_def path_segs_def)
  have f: "find_route route_table (rq_method (upvote_request None)) [''api'', ''posts'', ''3'', ''upvote''] =
      Some (?r, [(''postId'', ''3'')])"
    by (simp add: upvote_request_def demo_request_def route_table_def hello_routes_def auth_routes_def
        post_routes_def mk_route_def lower_def)
  show ?thesis
    using guarded_route_needs_token [OF _ p f, of demo_env demo_db]
    by (simp add: cors_allows_def upvote_request_def demo_request_def verifyToken_def mk_route_def)
qed

text \<open>
  C36. \<open>/new-post\<close> validates before it authenticates: a JSON form that
  fails \<open>validatePostRequest\<close> gets the 400 with the validation errors,
  whatever cookie comes with it, and the store is unchanged.
\<close>

theorem new_post_validates_before_auth:
  assumes "cors_allows E rq" "path_segs (rq_path rq) = Some segs"
    "find_route route_table (rq_method rq) segs = Some (r, ps)" "r_handler r = HCreatePost"
    "\<not> rq_multipart rq" "validate (e_vlib E) validatePostRequest (rq_body rq) = Inl e"
  shows "serve E rq d = (Inl e, d)"
proof -
  have "r_chain r = [Upload, ValidatePost, VerifyToken]"
    using route_table_chain [of r] find_route_Some [OF assms(3)] assms(4) by simp
  with assms show ?thesis by (simp add: serve_def multer_single_def)
qed

theorem new_post_validates_before_auth_witness:
  "serve demo_env (demo_request\<lparr>rq_method := POST, rq_path := ''/api/posts/new-post''\<rparr>) demo_db =
     (Inl (ValidationErrors
        [(''title'', ''Invalid value''), (''title'', ''Title must be a string and cannot be empty''),
         (''content'', ''Invalid value''), (''content'', ''Content must be a string and cannot be empty''),
         (''category'', ''Invalid value''), (''category'', ''Category must be a string and cannot be empty''),
         (''category'', ''Category must be one of the predefined categories'')]), demo_db)"
proof -
  let ?rq = "demo_request\<lparr>rq_method := POST, rq_path := ''/api/posts/new-post''\<rparr>"
  let ?r = "mk_route POST [Lit ''api'', Lit ''posts''] [Lit ''new-post''] [Upload, ValidatePost, VerifyToken] HCreatePost"
  have p: "path_segs (rq_path ?rq) = Some [''api'', ''posts'', ''new-post'']"
    by (simp add: demo_request_def path_segs_def)
  have f: "find_route route_table (rq_method ?rq) [''api'', ''posts'', ''new-post''] = Some (?r, [])"
    by (simp add: demo_request_def route_table_def hello_routes_def auth_routes_def post_routes_def
        mk_route_def lower_def)
  have v: "validate (e_vlib demo_env) validatePostRequest (rq_body ?rq) =
     Inl (ValidationErrors
        [(''title'', ''Invalid value''), (''title'', ''Title must be a string and cannot be empty''),
         (''content'', ''Invalid value''), (''content'', ''Content must be a string and cannot be empty''),
         (''category'', ''Invalid value''), (''category'', ''Category must be a string and cannot be empty''),
         (''category'', ''Category must be one of the predefined categories'')])"
    by (simp add: demo_request_def demo_env_def validate_def handleValidationErrors_def validatePostRequest_def
        run_chain_def check_failures_def std_values_def to_string_def default_msg_def body_get_def
        validator_categories_def)
  show ?thesis
    using new_post_validates_before_auth [OF _ p f _ _ v, of demo_db]
    by (simp add: cors_allows_def demo_request_def mk_route_def)
qed

text \<open>
  C38. Every request gets a reply, with one exception: an upvote, a downvote
  or an edit whose cookie verifies to claims without a user (the token that
  registration sets) makes the handler throw outside its \<open>try\<close>, and the
  client waits for ever.
\<close>

theorem serve_replies:
  assumes "reply_status (fst (serve E rq d)) = None"
  shows "\<exists>segs r ps c. path_segs (rq_path rq) = Some segs \<and> find_route route_table (rq_method rq) segs = Some (r, ps) \<and>
           r_handler r \<in> {HUpvote, HDownvote, HEditPost} \<and>
           verifyToken (e_secret E) (rq_cookie rq) = Inr c \<and> req_user_id c = None"
proof -
  obtain segs r ps cx where f: "find_route route_table (rq_method rq) segs = Some (r, ps)"
    and m: "run_mws E rq (r_chain r) \<lparr>cx_body = (if rq_multipart rq then [] else rq_body rq), cx_claims = None, cx_file = None\<rparr> = Inr cx"
    and h: "fst (run_handler E (r_handler r) ps rq cx d) = Inl NoResponse"
    and p: "path_segs (rq_path rq) = Some segs"
  proof -
    obtain e where e: "fst (serve E rq d) = Inl e" "status_of e = None"
      using assms by (auto simp: reply_status_def split: sum.splits)
    then have "e = NoResponse" by (cases e) auto
    with e serve_handler_error [OF e(1)] show ?thesis using that by auto
  qed
  have r: "r \<in> set route_table" using find_route_Some [OF f] by auto
  from run_handler_NoResponse [OF h]
  have hh: "r_handler r \<in> {HUpvote, HDownvote, HEditPost}" "req_user_id (nullish (cx_claims cx) (Claims None)) = None"
    by auto
  then have "VerifyToken \<in> set (r_chain r)" using route_table_chain [OF r] by auto
  then obtain c where "cx_claims cx = Some c" "verifyToken (e_secret E) (rq_cookie rq) = Inr c"
    using run_mws_verified [OF m] by blast
  then show ?thesis using f p hh by auto
qed

theorem serve_replies_witness:
  "reply_status (fst (serve demo_env (upvote_request (Some (jwt_sign (Claims None) ''k''))) demo_db)) = None \<and>
   (\<exists>segs r ps c. path_segs (rq_path (upvote_request (Some (jwt_sign (Claims None) ''k'')))) = Some segs \<and>
      find_route route_table (rq_method (upvote_request (Some (jwt_sign (Claims None) ''k'')))) segs = Some (r, ps) \<and>
      r_handler r \<in> {HUpvote, HDownvote, HEditPost} \<and>
      verifyToken (e_secret demo_env) (rq_cookie (upvote_request (Some (jwt_sign (Claims None) ''k'')))) = Inr c \<and>
      req_user_id c = None)"
proof -
  have h: "reply_status (fst (serve demo_env (upvote_request (Some (jwt_sign (Claims None) ''k''))) demo_db)) = None"
    by (simp add: serve_def reply_status_def cors_allows_def upvote_request_def demo_request_def demo_env_def
        path_segs_def route_table_def hello_routes_def auth_routes_def post_routes_def mk_route_def lower_def
        verifyToken_def upvotePost_def req_user_id_def status_only_def)
  show ?thesis using serve_replies [OF h] h by blast
qed

text \<open>
  C37. The 400 \<open>User ID is required\<close> of \<open>getAllPostsByUser\<close> is never
  sent: Express binds \<open>:userId\<close> only to a non-empty segment, and no other
  handler or middleware sends that reply.
\<close>

theorem user_id_required_unreachable:
  "fst (serve E rq d) \<noteq> Inl (Http 400 ''User ID is required'')"
proof
  assume a: "fst (serve E rq d) = Inl (Http 400 ''User ID is required'')"
  then obtain segs r ps cx where f: "find_route route_table (rq_method rq) segs = Some (r, ps)"
    and h: "fst (run_handler E (r_handler r) ps rq cx d) = Inl (Http 400 ''User ID is required'')"
    and p: "path_segs (rq_path rq) = Some segs"
    using serve_handler_error [OF a] by auto
  have r: "r \<in> set route_table" "match_segs (r_path r) segs = Some ps"
    using find_route_Some [OF f] by auto
  from run_handler_user_id_400 [OF h] have "r_handler r = HGetAllPostsByUser" "param ps ''userId'' = []"
    by auto
  moreover obtain v where "map_of ps ''userId'' = Some v" "v \<noteq> []"
    using match_segs_Par [OF r(2) route_user_id [OF r(1) calculation(1)]] by blast
  ultimately show False by (simp add: param_def)
qed

text \<open>
  C40. The upload limit of \<open>/new-post\<close>: a multipart request whose one
  file part \<open>imageFile\<close> is larger than 5 MiB is answered with Express's 500
  page before validation, whatever its form and cookie; a file of at most
  5 MiB is accepted and the request goes on to \<open>validatePostRequest\<close>,
  whose errors it then gets.
\<close>

theorem upload_size_limit:
  assumes "cors_allows E rq" "path_segs (rq_path rq) = Some segs"
    "find_route route_table (rq_method rq) segs = Some (r, ps)" "r_handler r = HCreatePost"
    "rq_multipart rq" "rq_files rq = [p]" "part_field p = ''imageFile''"
  shows "(5 * 1024 * 1024 < part_size p \<longrightarrow> serve E rq d = (Inl (DefaultError 500), d)) \<and>
         (part_size p \<le> 5 * 1024 * 1024 \<longrightarrow>
            (\<forall>e. validate (e_vlib E) validatePostRequest (rq_body rq) = Inl e \<longrightarrow> serve E rq d = (Inl e, d)))"
proof -
  have "r_chain r = [Upload, ValidatePost, VerifyToken]"
    using route_table_chain [of r] find_route_Some [OF assms(3)] assms(4) by simp
  with assms show ?thesis by (simp add: serve_def multer_single_def upload_limit_def not_le)
qed

theorem upload_size_limit_witness:
  "serve demo_env (image_request 5242881) demo_db = (Inl (DefaultError 500), demo_db) \<and>
   serve demo_env (image_request 5242880) demo_db =
     (Inl (ValidationErrors
        [(''title'', ''Invalid value''), (''title'', ''Title must be a string and cannot be empty''),
         (''content'', ''Invalid value''), (''content'', ''Content must be a string and cannot be empty''),
         (''category'', ''Invalid value''), (''category'', ''Category must be a string and cannot be empty''),
         (''category'', ''Category must be one of the predefined categories'')]), demo_db)"
proof -
  let ?r = "mk_route POST [Lit ''api'', Lit ''posts''] [Lit ''new-post''] [Upload, ValidatePost, VerifyToken] HCreatePost"
  have p: "path_segs (rq_path (image_request n)) = Some [''api'', ''posts'', ''new-post'']" for n
    by (simp add: image_request_def demo_request_def path_segs_def)
  have f: "find_route route_table (rq_method (image_request n)) [''api'', ''posts'', ''new-post''] = Some (?r, [])"
    for n
    by (simp add: image_request_def demo_request_def route_table_def hello_routes_def auth_routes_def
        post_routes_def mk_route_def lower_def)
  have v: "validate (e_vlib demo_env) validatePostRequest (rq_body (image_request n)) =
     Inl (ValidationErrors
        [(''title'', ''Invalid value''), (''title'', ''Title must be a string and cannot be empty''),
         (''content'', ''Invalid value''), (''content'', ''Content must be a string and cannot be empty''),
         (''category'', ''Invalid value''), (''category'', ''Category must be a string and cannot be empty''),
         (''category'', ''Category must be one of the predefined categories'')])" for n
    by (simp add: image_request_def demo_request_def demo_env_def validate_def handleValidationErrors_def
        validatePostRequest_def run_chain_def check_failures_def std_values_def to_string_def default_msg_def
        body_get_def validator_categories_def)
  have c: "cors_allows demo_env (image_request n)" for n
    by (simp add: cors_allows_def image_request_def demo_request_def)
  show ?thesis
    using upload_size_limit [OF c [of 5242881] p [of 5242881] f [of 5242881], of _ demo_db]
      upload_size_limit [OF c [of 5242880] p [of 5242880] f [of 5242880], of _ demo_db] v [of 5242880]
    by (simp_all add: image_request_def mk_route_def)
qed

end
