(* ===== verification/Concurrency.thy ===== *)
theory Concurrency
  imports Routes
begin

text \<open>
  Concurrent vote requests. \<open>upvotePost\<close> and \<open>downvotePost\<close> await twice:
  \<open>Post.findById\<close> reads the post, then the guard and the mutation run
  without interruption on the loaded document, and \<open>post.save()\<close> writes it.
  Node.js runs other requests' steps between the two awaits, so a request is
  a reader step and a writer step, and a schedule says in which order the
  steps of several requests run.

  \<open>save()\<close> does not write the loaded document back: Mongoose sends an update
  of the paths that changed, \<open>$set\<close> with the new value of a counter
  (\<open>post.upVotes += 1\<close> sets the loaded value plus one), \<open>$push\<close> for
  \<open>upVotedBy.push(userId)\<close>, \<open>$set\<close> of the whole array for
  \<open>downVotedBy = downVotedBy.filter(...)\<close>. Every array change increments
  the document's version key \<open>__v\<close>; a \<open>$set\<close> of a whole array also makes
  the update apply only if \<open>__v\<close> is still the loaded one, and a save that
  matches no document throws (a 500). Validation runs on the local document
  before the update.
\<close>

section \<open>Versioned store and updates\<close>

record vstore =
  vs_db :: db
  vs_ver :: "oid \<Rightarrow> nat"

text \<open>The update a save of a post sends.\<close>

record delta =
  set_up :: "int option"
  set_down :: "int option"
  set_upBy :: "oid list option"
  set_downBy :: "oid list option"
  push_upBy :: "oid list"
  push_downBy :: "oid list"

text \<open>
  The updates of the two handlers, from the loaded post: lines 158--167 and
  195--204 of \<open>postController.ts\<close>.
\<close>

definition upvote_delta :: "oid \<Rightarrow> post \<Rightarrow> delta" where
  "upvote_delta u p =
     (let sw = u \<in> set (downVotedBy p) in
      \<lparr>set_up = Some (upVotes p + 1),
       set_down = (if sw then Some (downVotes p - 1) else None),
       set_upBy = None,
       set_downBy = (if sw then Some (filter (\<lambda>x. x \<noteq> u) (downVotedBy p)) else None),
       push_upBy = [u], push_downBy = []\<rparr>)"

definition downvote_delta :: "oid \<Rightarrow> post \<Rightarrow> delta" where
  "downvote_delta u p =
     (let sw = u \<in> set (upVotedBy p) in
      \<lparr>set_up = (if sw then Some (upVotes p - 1) else None),
       set_down = Some (downVotes p + 1),
       set_upBy = (if sw then Some (filter (\<lambda>x. x \<noteq> u) (upVotedBy p)) else None),
       set_downBy = None,
       push_upBy = [], push_downBy = [u]\<rparr>)"

fun vote_delta :: "direction \<Rightarrow> oid \<Rightarrow> post \<Rightarrow> delta" where
  "vote_delta Up = upvote_delta"
| "vote_delta Down = downvote_delta"

text \<open>
  Mongoose's versioning of an update: \<open>$set\<close> of an array checks and
  increments \<open>__v\<close>, \<open>$push\<close> increments it.
\<close>

definition delta_where :: "delta \<Rightarrow> bool" where
  "delta_where dl \<longleftrightarrow> set_upBy dl \<noteq> None \<or> set_downBy dl \<noteq> None"

definition delta_inc :: "delta \<Rightarrow> bool" where
  "delta_inc dl \<longleftrightarrow> delta_where dl \<or> push_upBy dl \<noteq> [] \<or> push_downBy dl \<noteq> []"

text \<open>The update applied by MongoDB to the stored post.\<close>

definition apply_delta :: "delta \<Rightarrow> post \<Rightarrow> post" where
  "apply_delta dl p =
     p\<lparr>upVotes := nullish (set_up dl) (upVotes p), downVotes := nullish (set_down dl) (downVotes p),
       upVotedBy := nullish (set_upBy dl) (upVotedBy p) @ push_upBy dl,
       downVotedBy := nullish (set_downBy dl) (downVotedBy p) @ push_downBy dl\<rparr>"

text \<open>
  \<open>post.save()\<close> of the local document \<open>p'\<close>, loaded at version \<open>v\<close>, with
  update \<open>dl\<close>: validation, then the update if the document is there and,
  for a versioned update, still at version \<open>v\<close>.
\<close>

definition save_delta :: "oid \<Rightarrow> nat \<Rightarrow> post \<Rightarrow> delta \<Rightarrow> vstore \<Rightarrow> vstore option" where
  "save_delta i v p' dl s =
     (if \<not> post_valid p' then None
      else case map_of (post_coll (vs_db s)) i of
             None \<Rightarrow> None
           | Some cur \<Rightarrow>
               (if delta_where dl \<and> vs_ver s i \<noteq> v then None
                else Some (s\<lparr>vs_db := (vs_db s)\<lparr>post_coll := AList.update i (apply_delta dl cur) (post_coll (vs_db s))\<rparr>,
                             vs_ver := (vs_ver s)(i := (if delta_inc dl then Suc (vs_ver s i) else vs_ver s i))\<rparr>)))"

section \<open>Requests in flight\<close>

text \<open>
  A vote request of an authenticated user on a well-formed post id: not yet
  started, waiting for its save with the loaded post and version, or
  answered.
\<close>

datatype phase = Ready | Loaded post nat | Finished "api_error + nat"

record vreq =
  vr_user :: oid
  vr_post :: oid
  vr_dir :: direction
  vr_phase :: phase

fun own_voters :: "direction \<Rightarrow> post \<Rightarrow> oid list" where
  "own_voters Up p = upVotedBy p"
| "own_voters Down p = downVotedBy p"

text \<open>The reader step: \<open>findById\<close>, the 404, the repeated-vote guard.\<close>

definition read_step :: "vstore \<Rightarrow> vreq \<Rightarrow> phase" where
  "read_step s r =
     (case map_of (post_coll (vs_db s)) (vr_post r) of
        None \<Rightarrow> Finished (Inl (Http 404 ''Post not found''))
      | Some p \<Rightarrow>
          (if vr_user r \<in> set (own_voters (vr_dir r) p)
           then Finished (Inl (Http 400 (already_voted_msg (vr_dir r))))
           else Loaded p (vs_ver s (vr_post r))))"

text \<open>The writer step: the mutation of the loaded post and \<open>save()\<close>.\<close>

definition write_step :: "vstore \<Rightarrow> vreq \<Rightarrow> post \<Rightarrow> nat \<Rightarrow> vstore \<times> phase" where
  "write_step s r p v =
     (case save_delta (vr_post r) v (vote_apply (vr_dir r) (vr_user r) p) (vote_delta (vr_dir r) (vr_user r) p) s of
        None \<Rightarrow> (s, Finished (Inl server_error))
      | Some s' \<Rightarrow> (s', Finished (Inr 200)))"

text \<open>One step of the \<open>k\<close>-th request; a finished request does nothing.\<close>

definition step_req :: "nat \<Rightarrow> vstore \<times> vreq list \<Rightarrow> vstore \<times> vreq list" where
  "step_req k st =
     (let (s, rs) = st in
      if k < length rs then
        (case vr_phase (rs ! k) of
           Ready \<Rightarrow> (s, rs[k := (rs ! k)\<lparr>vr_phase := read_step s (rs ! k)\<rparr>])
         | Loaded p v \<Rightarrow> (let (s', ph) = write_step s (rs ! k) p v in (s', rs[k := (rs ! k)\<lparr>vr_phase := ph\<rparr>]))
         | Finished x \<Rightarrow> (s, rs))
      else (s, rs))"

text \<open>A schedule: the indices of the requests whose steps run, in order.\<close>

definition run_sched :: "nat list \<Rightarrow> vstore \<times> vreq list \<Rightarrow> vstore \<times> vreq list" where
  "run_sched ks st = fold step_req ks st"

text \<open>A fresh vote request.\<close>

definition vote_request :: "oid \<Rightarrow> oid \<Rightarrow> direction \<Rightarrow> vreq" where
  "vote_request u i dir = \<lparr>vr_user = u, vr_post = i, vr_dir = dir, vr_phase = Ready\<rparr>"

text \<open>
  The demonstration store, every post at version 0, and the same store with
  the demonstration post downvoted by bob (user 2).
\<close>

definition demo_vstore :: vstore where
  "demo_vstore = \<lparr>vs_db = demo_db, vs_ver = (\<lambda>i. 0)\<rparr>"

definition demo_downvoted_vstore :: vstore where
  "demo_downvoted_vstore =
     \<lparr>vs_db = demo_db\<lparr>post_coll := [(3, demo_post\<lparr>downVotes := 1, downVotedBy := [2]\<rparr>)]\<rparr>,
      vs_ver = (\<lambda>i. 0)\<rparr>"

section \<open>One request at a time\<close>

lemma apply_vote_delta: "apply_delta (vote_delta dir u p) p = vote_apply dir u p"
  by (cases dir) (simp_all add: apply_delta_def upvote_delta_def downvote_delta_def upvote_apply_def
      downvote_apply_def Let_def)

lemma post_valid_vote_apply [simp]: "post_valid (vote_apply dir u p) \<longleftrightarrow> post_valid p"
  by (cases dir) simp_all

lemma vote_handler_found:
  "req_user_id c = Some u \<Longrightarrow> map_of (post_coll d) i = Some p \<Longrightarrow>
   vote_handler dir d (Oid i) c =
     (if u \<in> set (own_voters dir p) then (Inl (Http 400 (already_voted_msg dir)), d)
      else if post_valid p
      then (Inr (200, vote_apply dir u p), d\<lparr>post_coll := AList.update i (vote_apply dir u p) (post_coll d)\<rparr>)
      else (Inl server_error, d))"
  by (cases dir) (simp_all add: upvotePost_found downvotePost_found)

lemma vote_handler_missing:
  "req_user_id c = Some u \<Longrightarrow> map_of (post_coll d) i = None \<Longrightarrow>
   vote_handler dir d (Oid i) c = (Inl (Http 404 ''Post not found''), d)"
  by (cases dir) (simp_all add: upvotePost_def downvotePost_def)

lemma run_sched_Cons: "run_sched (k # ks) st = run_sched ks (step_req k st)"
  by (simp add: run_sched_def)

lemma run_sched_Nil [simp]: "run_sched [] st = st"
  by (simp add: run_sched_def)

text \<open>
  A vote request whose two steps run back to back changes the store as the
  handler of \<open>Votes.thy\<close> does and gets its status: the two-step model and
  the handler agree when nothing interleaves.
\<close>

lemma run_pair:
  assumes k: "k < length rs" and r: "rs ! k = r" and ready: "vr_phase r = Ready"
    and c: "req_user_id c = Some (vr_user r)"
  shows "vs_db (fst (run_sched [k, k] (s, rs))) = snd (vote_handler (vr_dir r) (vs_db s) (Oid (vr_post r)) c) \<and>
         snd (run_sched [k, k] (s, rs)) =
           rs[k := r\<lparr>vr_phase := Finished (status_only (fst (vote_handler (vr_dir r) (vs_db s) (Oid (vr_post r)) c)))\<rparr>]"
proof (cases "map_of (post_coll (vs_db s)) (vr_post r)")
  case None
  then show ?thesis
    using k r ready vote_handler_missing [OF c None]
    by (simp add: run_sched_Cons step_req_def read_step_def status_only_def)
next
  case (Some p)
  show ?thesis
    using k r ready vote_handler_found [OF c Some, of "vr_dir r"] Some
    by (simp add: run_sched_Cons step_req_def read_step_def write_step_def save_delta_def apply_vote_delta
        status_only_def Let_def)
qed


lemma list_all_update_nth: "list_all P xs \<Longrightarrow> P x \<Longrightarrow> list_all P (xs[k := x])"
  using set_update_subset_insert [of xs k x] by (auto simp: list_all_iff)

section \<open>Properties of concurrent votes\<close>

text \<open>
  C11. Votes are not atomic: when two upvotes on the same post by users who
  have not voted both read the post before either saves, both are answered
  200, the post ends with one upvote more but two more voters, and the vote
  invariant is broken.
\<close>

theorem interleaved_upvotes_lose_update:
  assumes p: "map_of (post_coll (vs_db s)) i = Some p" and valid: "post_valid p" and inv: "votes_ok p"
    and u1: "u1 \<notin> set (upVotedBy p)" "u1 \<notin> set (downVotedBy p)"
    and u2: "u2 \<notin> set (upVotedBy p)" "u2 \<notin> set (downVotedBy p)"
  shows "map vr_phase (snd (run_sched [0, 1, 0, 1] (s, [vote_request u1 i Up, vote_request u2 i Up]))) =
           [Finished (Inr 200), Finished (Inr 200)] \<and>
         (\<exists>p'. map_of (post_coll (vs_db (fst (run_sched [0, 1, 0, 1] (s, [vote_request u1 i Up, vote_request u2 i Up]))))) i
                  = Some p' \<and>
               upVotes p' = upVotes p + 1 \<and> upVotedBy p' = upVotedBy p @ [u1, u2] \<and> \<not> votes_ok p')"
  using p valid inv u1 u2
  by (simp add: run_sched_Cons step_req_def read_step_def write_step_def save_delta_def vote_request_def
      upvote_delta_def apply_delta_def delta_where_def delta_inc_def upvote_apply_def Let_def votes_ok_def
      post_valid_def update_conv')

theorem interleaved_upvotes_lose_update_witness:
  "map vr_phase (snd (run_sched [0, 1, 0, 1] (demo_vstore, [vote_request 1 3 Up, vote_request 2 3 Up]))) =
     [Finished (Inr 200), Finished (Inr 200)] \<and>
   (\<exists>p'. map_of (post_coll (vs_db (fst (run_sched [0, 1, 0, 1] (demo_vstore, [vote_request 1 3 Up, vote_request 2 3 Up]))))) 3
            = Some p' \<and> upVotes p' = 1 \<and> upVotedBy p' = [1, 2] \<and> \<not> votes_ok p')"
  using interleaved_upvotes_lose_update [of demo_vstore 3 demo_post 1 2]
  by (simp add: demo_vstore_def demo_db_def demo_post_def post_valid_def category_names_def votes_ok_def)


text \<open>
  C23. A double submission: the same user's upvote sent twice, both reads
  before either save. If the user had not voted, both requests are answered
  200, the post counts one upvote more and lists the user twice, against the
  specification's one vote per user. If the user had downvoted, the upvote
  replaces \<open>downVotedBy\<close>, a versioned update: the second save matches no
  document and is answered 500, and the post is the first upvote's result.
\<close>

theorem double_upvote_submission:
  assumes p: "map_of (post_coll (vs_db s)) i = Some p" and valid: "post_valid p"
    and up: "u \<notin> set (upVotedBy p)"
  shows "(u \<notin> set (downVotedBy p) \<longrightarrow>
           map vr_phase (snd (run_sched [0, 1, 0, 1] (s, [vote_request u i Up, vote_request u i Up]))) =
             [Finished (Inr 200), Finished (Inr 200)] \<and>
           (\<exists>p'. map_of (post_coll (vs_db (fst (run_sched [0, 1, 0, 1]
                     (s, [vote_request u i Up, vote_request u i Up]))))) i = Some p' \<and>
                 upVotes p' = upVotes p + 1 \<and> upVotedBy p' = upVotedBy p @ [u, u])) \<and>
         (u \<in> set (downVotedBy p) \<longrightarrow>
           map vr_phase (snd (run_sched [0, 1, 0, 1] (s, [vote_request u i Up, vote_request u i Up]))) =
             [Finished (Inr 200), Finished (Inl server_error)] \<and>
           map_of (post_coll (vs_db (fst (run_sched [0, 1, 0, 1]
              (s, [vote_request u i Up, vote_request u i Up]))))) i = Some (upvote_apply u p))"
  using p valid up
  by (simp add: run_sched_Cons step_req_def read_step_def write_step_def save_delta_def vote_request_def
      upvote_delta_def apply_delta_def delta_where_def delta_inc_def upvote_apply_def Let_def
      post_valid_def update_conv')

theorem double_upvote_submission_witness:
  "map vr_phase (snd (run_sched [0, 1, 0, 1] (demo_vstore, [vote_request 2 3 Up, vote_request 2 3 Up]))) =
     [Finished (Inr 200), Finished (Inr 200)] \<and>
   map vr_phase (snd (run_sched [0, 1, 0, 1] (demo_downvoted_vstore, [vote_request 2 3 Up, vote_request 2 3 Up]))) =
     [Finished (Inr 200), Finished (Inl server_error)]"
  using double_upvote_submission [of demo_vstore 3 demo_post 2]
    double_upvote_submission [of demo_downvoted_vstore 3 "demo_post\<lparr>downVotes := 1, downVotedBy := [2]\<rparr>" 2]
  by (simp add: demo_vstore_def demo_downvoted_vstore_def demo_db_def demo_post_def post_valid_def
      category_names_def)

end
