(* ===== verification/Contention.thy ===== *)
theory Contention
  imports Concurrency
begin

text \<open>
  Comments and votes on the same post, concurrently. \<open>createComment\<close>
  (\<open>src/controllers/commentController.ts\<close>) awaits \<open>Post.findById\<close>, then
  \<open>newComment.save()\<close>, then \<open>post.save()\<close> after
  \<open>post.comments.push(newComment._id)\<close>, and reads the comment back. Its
  \<open>save()\<close> sends Mongoose's update of the changed path only: \<open>$push\<close> of the
  comment id, which increments the version key \<open>__v\<close> but carries no version
  condition. A vote's save (\<open>Concurrency.thy\<close>) that replaces a vote list
  carries the condition that \<open>__v\<close> is still the version it loaded.

  Requests of both kinds run in one schedule: a vote request steps as in
  \<open>Concurrency.thy\<close>, a comment request takes three steps (the read, the
  comment's save, the post's save with the read-back, which always finds the
  comment as no handler deletes one).
\<close>

section \<open>Comment requests in flight\<close>

text \<open>
  A comment request of an authenticated user on a well-formed post id: not
  started, holding the loaded post and its version, holding the saved
  comment's id, or answered (201 with the comment's id).
\<close>

datatype cphase = CReady | CLoaded post | CStored post oid | CDone "api_error + nat \<times> oid"

record creq =
  cr_user :: oid
  cr_post :: oid
  cr_content :: string
  cr_phase :: cphase

datatype areq = AVote vreq | AComment creq

text \<open>\<open>await Post.findById(postId)\<close> and its 404.\<close>

definition comment_read_step :: "vstore \<Rightarrow> creq \<Rightarrow> cphase" where
  "comment_read_step s r =
     (case map_of (post_coll (vs_db s)) (cr_post r) of
        None \<Rightarrow> CDone (Inl (Http 404 ''Post not found''))
      | Some p \<Rightarrow> CLoaded p)"

text \<open>\<open>new Comment({postId, author, content})\<close> and \<open>await newComment.save()\<close>.\<close>

definition comment_save_step :: "vstore \<Rightarrow> creq \<Rightarrow> post \<Rightarrow> vstore \<times> cphase" where
  "comment_save_step s r p =
     (let (cid, d1) = save_new_comment
            \<lparr>c_postId = cr_post r, c_author = cr_user r, c_content = cr_content r, replies = []\<rparr> (vs_db s)
      in (s\<lparr>vs_db := d1\<rparr>, CStored p cid))"

text \<open>
  \<open>post.save()\<close> of the loaded post \<open>p'\<close> after \<open>comments.push(cid)\<close>:
  validation of the local document, then \<open>$push\<close> on the stored one if it is
  still there (otherwise the save throws), with \<open>__v\<close> incremented.
\<close>

definition push_comment :: "oid \<Rightarrow> post \<Rightarrow> oid \<Rightarrow> vstore \<Rightarrow> vstore option" where
  "push_comment i p' cid s =
     (if \<not> post_valid p' then None
      else case map_of (post_coll (vs_db s)) i of
             None \<Rightarrow> None
           | Some cur \<Rightarrow>
               Some (s\<lparr>vs_db := (vs_db s)\<lparr>post_coll := AList.update i (cur\<lparr>comments := comments cur @ [cid]\<rparr>)
                                                   (post_coll (vs_db s))\<rparr>,
                       vs_ver := (vs_ver s)(i := Suc (vs_ver s i))\<rparr>))"

text \<open>\<open>post.comments.push(newComment._id); await post.save()\<close>, the read-back, 201.\<close>

definition comment_push_step :: "vstore \<Rightarrow> creq \<Rightarrow> post \<Rightarrow> oid \<Rightarrow> vstore \<times> cphase" where
  "comment_push_step s r p cid =
     (case push_comment (cr_post r) (p\<lparr>comments := comments p @ [cid]\<rparr>) cid s of
        None \<Rightarrow> (s, CDone (Inl server_error))
      | Some s' \<Rightarrow> (s', CDone (Inr (201, cid))))"

text \<open>A vote request steps as the only request of a \<open>Concurrency\<close> schedule.\<close>

definition vote_step :: "vstore \<Rightarrow> vreq \<Rightarrow> vstore \<times> vreq" where
  "vote_step s r = (let (s', rs') = step_req 0 (s, [r]) in (s', hd rs'))"

definition comment_step :: "vstore \<Rightarrow> creq \<Rightarrow> vstore \<times> creq" where
  "comment_step s r =
     (case cr_phase r of
        CReady \<Rightarrow> (s, r\<lparr>cr_phase := comment_read_step s r\<rparr>)
      | CLoaded p \<Rightarrow> (let (s', ph) = comment_save_step s r p in (s', r\<lparr>cr_phase := ph\<rparr>))
      | CStored p cid \<Rightarrow> (let (s', ph) = comment_push_step s r p cid in (s', r\<lparr>cr_phase := ph\<rparr>))
      | CDone x \<Rightarrow> (s, r))"

text \<open>One step of the \<open>k\<close>-th request of a mixed schedule.\<close>

definition astep :: "nat \<Rightarrow> vstore \<times> areq list \<Rightarrow> vstore \<times> areq list" where
  "astep k st =
     (let (s, rs) = st in
      if k < length rs then
        (case rs ! k of
           AVote r \<Rightarrow> (let (s', r') = vote_step s r in (s', rs[k := AVote r']))
         | AComment r \<Rightarrow> (let (s', r') = comment_step s r in (s', rs[k := AComment r'])))
      else (s, rs))"

definition run_mixed :: "nat list \<Rightarrow> vstore \<times> areq list \<Rightarrow> vstore \<times> areq list" where
  "run_mixed ks st = fold astep ks st"

definition comment_request :: "oid \<Rightarrow> oid \<Rightarrow> string \<Rightarrow> creq" where
  "comment_request u i txt = \<lparr>cr_user = u, cr_post = i, cr_content = txt, cr_phase = CReady\<rparr>"

text \<open>
  A comment request answered 201 is linked: its comment's id is in the
  \<open>comments\<close> of the stored post.
\<close>

fun linked :: "vstore \<Rightarrow> areq \<Rightarrow> bool" where
  "linked s (AVote r) = True"
| "linked s (AComment r) =
     (case cr_phase r of
        CDone (Inr (n, cid)) \<Rightarrow>
          (case map_of (post_coll (vs_db s)) (cr_post r) of None \<Rightarrow> False | Some p \<Rightarrow> cid \<in> set (comments p))
      | _ \<Rightarrow> True)"

definition all_linked :: "vstore \<times> areq list \<Rightarrow> bool" where
  "all_linked st \<longleftrightarrow> list_all (linked (fst st)) (snd st)"

text \<open>Every stored post stays stored and keeps the comment ids it had.\<close>

definition posts_grow :: "db \<Rightarrow> db \<Rightarrow> bool" where
  "posts_grow d d' \<longleftrightarrow>
     (\<forall>i p. map_of (post_coll d) i = Some p \<longrightarrow>
        (\<exists>p'. map_of (post_coll d') i = Some p' \<and> set (comments p) \<subseteq> set (comments p')))"

text \<open>
  Concrete data for the witnesses: a vote and two comments on the
  demonstration post downvoted by bob (\<open>Concurrency.demo_downvoted_vstore\<close>).
\<close>

definition demo_mixed :: "areq list" where
  "demo_mixed =
     [AVote (vote_request 2 3 Up), AComment (comment_request 1 3 ''Agreed''),
      AComment (comment_request 2 3 ''Thanks'')]"

section \<open>Lemmas\<close>

lemma posts_grow_refl [simp]: "posts_grow d d"
  by (auto simp: posts_grow_def)

lemma linked_mono: "posts_grow (vs_db s) (vs_db s') \<Longrightarrow> linked s r \<Longrightarrow> linked s' r"
  by (cases r) (fastforce simp: posts_grow_def split: cphase.splits sum.splits prod.splits option.splits)+

lemma posts_grow_update:
  "map_of (post_coll d) i = Some cur \<Longrightarrow> set (comments cur) \<subseteq> set (comments p') \<Longrightarrow>
     posts_grow d (d\<lparr>post_coll := AList.update i p' (post_coll d)\<rparr>)"
  by (auto simp: posts_grow_def AList.update_conv')

lemma posts_grow_save_delta:
  assumes "save_delta i v p' dl s = Some s'"
  shows "posts_grow (vs_db s) (vs_db s')"
proof -
  obtain cur where "map_of (post_coll (vs_db s)) i = Some cur"
    and "vs_db s' = (vs_db s)\<lparr>post_coll := AList.update i (apply_delta dl cur) (post_coll (vs_db s))\<rparr>"
    using assms by (auto simp: save_delta_def split: if_splits option.splits)
  then show ?thesis
    using posts_grow_update [of "vs_db s" i cur] by (simp add: apply_delta_def)
qed

lemma posts_grow_vote_step: "posts_grow (vs_db s) (vs_db (fst (vote_step s r)))"
  by (auto simp: vote_step_def step_req_def write_step_def posts_grow_save_delta
      split: phase.splits option.splits prod.splits)

lemma push_comment_Some:
  assumes "push_comment i p' cid s = Some s'"
  shows "posts_grow (vs_db s) (vs_db s') \<and> (\<exists>q. map_of (post_coll (vs_db s')) i = Some q \<and> cid \<in> set (comments q))"
proof -
  obtain cur where "map_of (post_coll (vs_db s)) i = Some cur"
    and "vs_db s' = (vs_db s)\<lparr>post_coll := AList.update i (cur\<lparr>comments := comments cur @ [cid]\<rparr>)
                                  (post_coll (vs_db s))\<rparr>"
    using assms by (auto simp: push_comment_def split: if_splits option.splits)
  then show ?thesis
    using posts_grow_update [of "vs_db s" i cur "cur\<lparr>comments := comments cur @ [cid]\<rparr>"]
    by (auto simp: map_of_update_same)
qed

lemma posts_grow_comment_step: "posts_grow (vs_db s) (vs_db (fst (comment_step s r)))"
proof -
  have "posts_grow (vs_db s) (vs_db (fst (comment_save_step s r p)))" for p
    by (simp add: comment_save_step_def save_new_comment_def posts_grow_def)
  moreover have "posts_grow (vs_db s) (vs_db (fst (comment_push_step s r p cid)))" for p cid
    using push_comment_Some by (auto simp: comment_push_step_def split: option.splits)
  ultimately show ?thesis
    by (simp add: comment_step_def prod.case_eq_if split: cphase.splits)
qed

lemma linked_comment_step:
  assumes "linked s (AComment r)"
  shows "linked (fst (comment_step s r)) (AComment (snd (comment_step s r)))"
proof (cases "cr_phase r")
  case (CStored p cid)
  show ?thesis
  proof (cases "push_comment (cr_post r) (p\<lparr>comments := comments p @ [cid]\<rparr>) cid s")
    case (Some s')
    with push_comment_Some [OF this] CStored show ?thesis
      by (auto simp: comment_step_def comment_push_step_def)
  qed (simp add: CStored comment_step_def comment_push_step_def)
qed (use assms in \<open>auto simp: comment_step_def comment_read_step_def comment_save_step_def
       split: option.splits prod.splits\<close>)


lemma all_linked_astep:
  assumes inv: "all_linked st"
  shows "all_linked (astep k st)"
proof (cases st)
  case (Pair s rs)
  show ?thesis
  proof (cases "k < length rs")
    case True
    then have lk: "linked s (rs ! k)"
      using inv Pair by (simp add: all_linked_def list_all_length)
    show ?thesis
    proof (cases "rs ! k")
      case (AVote r)
      obtain s' r' where e: "vote_step s r = (s', r')" by force
      then have "posts_grow (vs_db s) (vs_db s')"
        using posts_grow_vote_step [of s r] by simp
      then have "list_all (linked s') rs"
        using inv Pair linked_mono by (auto simp: all_linked_def list_all_iff)
      then show ?thesis
        using Pair True AVote e by (simp add: astep_def all_linked_def list_all_update_nth)
    next
      case (AComment r)
      obtain s' r' where e: "comment_step s r = (s', r')" by force
      then have "posts_grow (vs_db s) (vs_db s')"
        using posts_grow_comment_step [of s r] by simp
      then have "list_all (linked s') rs"
        using inv Pair linked_mono by (auto simp: all_linked_def list_all_iff)
      moreover have "linked s' (AComment r')"
        using linked_comment_step [of s r] lk AComment e by simp
      ultimately show ?thesis
        using Pair True AComment e by (simp add: astep_def all_linked_def list_all_update_nth)
    qed
  qed (use inv Pair in \<open>simp add: astep_def\<close>)
qed

lemmas mixed_step_defs = astep_def vote_step_def step_req_def read_step_def write_step_def
  save_delta_def comment_step_def comment_read_step_def comment_save_step_def comment_push_step_def
  push_comment_def save_new_comment_def vote_request_def comment_request_def

section \<open>Properties of comments and votes in one schedule\<close>

text \<open>
  C5. A downvoter's upvote (which replaces \<open>downVotedBy\<close>, a versioned
  update) whose read and save are separated by another user's whole
  \<open>createComment\<close> on the same post fails with 500: the comment's \<open>$push\<close>
  moved the version key, Mongoose's version condition matches no document
  and the vote is not recorded. With the comment request run first the same
  vote is answered 200.
\<close>

theorem comment_during_switch_fails_vote:
  assumes "map_of (post_coll (vs_db s)) i = Some p" and "post_valid p"
    and "u \<in> set (downVotedBy p)" and "u \<notin> set (upVotedBy p)"
  shows "run_mixed [0, 1, 1, 1, 0] (s, [AVote (vote_request u i Up), AComment (comment_request w i txt)]) =
           (s\<lparr>vs_db := (vs_db s)\<lparr>
                comment_coll := comment_coll (vs_db s) @
                  [(next_oid (vs_db s), \<lparr>c_postId = i, c_author = w, c_content = txt, replies = []\<rparr>)],
                next_oid := Suc (next_oid (vs_db s)),
                post_coll := AList.update i (p\<lparr>comments := comments p @ [next_oid (vs_db s)]\<rparr>)
                               (post_coll (vs_db s))\<rparr>,
              vs_ver := (vs_ver s)(i := Suc (vs_ver s i))\<rparr>,
            [AVote ((vote_request u i Up)\<lparr>vr_phase := Finished (Inl server_error)\<rparr>),
             AComment ((comment_request w i txt)\<lparr>cr_phase := CDone (Inr (201, next_oid (vs_db s)))\<rparr>)]) \<and>
         hd (snd (run_mixed [1, 1, 1, 0, 0]
                   (s, [AVote (vote_request u i Up), AComment (comment_request w i txt)]))) =
           AVote ((vote_request u i Up)\<lparr>vr_phase := Finished (Inr 200)\<rparr>)"
  using assms
  by (simp add: run_mixed_def mixed_step_defs upvote_delta_def delta_where_def post_valid_def
      map_of_update_same)

theorem comment_during_switch_fails_vote_witness:
  "hd (snd (run_mixed [0, 1, 1, 1, 0]
      (demo_downvoted_vstore, [AVote (vote_request 2 3 Up), AComment (comment_request 1 3 ''Agreed'')]))) =
     AVote ((vote_request 2 3 Up)\<lparr>vr_phase := Finished (Inl server_error)\<rparr>) \<and>
   hd (snd (run_mixed [1, 1, 1, 0, 0]
      (demo_downvoted_vstore, [AVote (vote_request 2 3 Up), AComment (comment_request 1 3 ''Agreed'')]))) =
     AVote ((vote_request 2 3 Up)\<lparr>vr_phase := Finished (Inr 200)\<rparr>)"
  using comment_during_switch_fails_vote [of demo_downvoted_vstore 3
      "demo_post\<lparr>downVotes := 1, downVotedBy := [2]\<rparr>" 2 1 "''Agreed''"]
  by (simp add: demo_downvoted_vstore_def demo_defs post_valid_def category_names_def)

text \<open>
  C17. Every schedule of comment and vote requests keeps every answered
  comment linked: a comment request answered 201 has its comment's id in the
  stored post's \<open>comments\<close>, whatever steps of other comments and votes
  run in between. Each save sends only the paths it changed, so unlike the
  counters of two votes no comment id is lost.
\<close>

theorem comments_never_lost:
  "all_linked st \<Longrightarrow> all_linked (run_mixed ks st)"
  unfolding run_mixed_def by (induction ks arbitrary: st) (simp_all add: all_linked_astep)

theorem comments_never_lost_witness:
  "all_linked (run_mixed [1, 2, 0, 1, 2, 1, 2, 0] (demo_downvoted_vstore, demo_mixed))"
  using comments_never_lost [where st = "(demo_downvoted_vstore, demo_mixed)" and ks = "[1, 2, 0, 1, 2, 1, 2, 0]"]
  by (simp add: all_linked_def demo_mixed_def vote_request_def comment_request_def)

end
