(* ===== verification/Exports.thy ===== *)
theory Exports
  imports Routes "HOL-Library.Multiset"
begin

text \<open>
  The controllers' default exports. Each controller module ends with
  \<open>export default {...}\<close>, the object whose properties the routers read
  (\<open>authController.registerUser\<close>, ...). A property the object lacks is
  \<open>undefined\<close>, and Express refuses a route whose handler is not a function
  when the router is built, so the server would not start. The exports are
  the handlers (\<open>Routes.handler\<close>) in the order the object lists them.
\<close>

definition authController_exports :: "handler list" where
  "authController_exports = [HRegister, HLogin, HLogout]"

definition postController_exports :: "handler list" where
  "postController_exports =
     [HGetAllPosts, HCreatePost, HGetPostById, HEditPost, HDeletePost, HGetAllPostsByUser,
      HUpvote, HDownvote]"

definition commentController_exports :: "handler list" where
  "commentController_exports = [HCreateComment, HGetComments, HCreateReply, HGetReplies]"

definition userController_exports :: "handler list" where
  "userController_exports = [HGetSingleUser, HGetAllUsers]"

section \<open>Lemmas\<close>

text \<open>
  Each router uses exactly the handlers of the controller it imports, each
  once: every route's handler is defined when the router is built, and no
  exported handler is left without a route.
\<close>

lemma routers_use_exports:
  "mset (map r_handler auth_routes) = mset authController_exports"
  "mset (map r_handler post_routes) = mset postController_exports"
  "mset (map r_handler comment_routes) = mset commentController_exports"
  "mset (map r_handler user_routes) = mset userController_exports"
  by (simp_all add: auth_routes_def post_routes_def comment_routes_def user_routes_def mk_route_def
      authController_exports_def postController_exports_def commentController_exports_def
      userController_exports_def)

end
