(* ===== verification/Spec2Isabelle.thy ===== *)
theory Spec2Isabelle
  imports Registration Contention Exports
begin

text \<open>
  \<^bold>\<open>A verification model of the Hospyta community API.\<close>

  The program is an Express/Mongoose REST back end (\<open>src/\<close>): users register
  and log in (\<open>src/controllers/authController.ts\<close>), a cookie holding a
  signed token identifies them to the \<open>verifyToken\<close> middleware
  (\<open>src/middleware/auth.ts\<close>), they create, edit, delete and vote on posts
  (\<open>src/controllers/postController.ts\<close>) and comment on them
  (\<open>src/controllers/commentController.ts\<close>). The routes
  (\<open>src/routes/*.ts\<close>) chain the request validators
  (\<open>src/middleware/validation.ts\<close>), \<open>verifyToken\<close> and a handler. All
  state lives in MongoDB; a handler reads documents, changes them and saves
  them, and Mongoose validates each document against its schema
  (\<open>src/models/*.ts\<close>) on save.

  \<^bold>\<open>How the code is modelled.\<close> The store is a record \<open>db\<close> of three
  collections, each an association list of documents keyed by object id in
  natural order, and a generator of fresh ids (\<open>Model.thy\<close>). Every handler
  is a HOL function from the store and the request's fields to its reply and
  the new store: an error reply is a value \<open>Inl e\<close> of type \<open>api_error\<close>
  (the status and message the code sends, \<open>NoResponse\<close> for an exception
  thrown outside the handler's \<open>try\<close>), a success is \<open>Inr (status, body)\<close>
  (\<open>Prelude.thy\<close>). Mongoose's \<open>save()\<close> is a function that validates the
  document and fails (the exception, caught as a 500) or writes it. External
  libraries are modelled by what the code relies on: \<open>jsonwebtoken\<close> as a
  perfect signature (\<open>jwt_sign\<close>, \<open>jwt_verify\<close>), \<open>bcryptjs\<close> as a
  collision-free salted hash (\<open>bcrypt_hash\<close>, \<open>bcrypt_compare\<close>), the
  random salt and the clock as inputs.

  \<^bold>\<open>Theories.\<close>
  \<^item> \<open>Prelude\<close>: ids, collections, \<open>findOne\<close>/\<open>find\<close>, error replies, and the
    shared list lemmas (collections \<open>store_simps\<close>, \<open>vote_list_simps\<close>).
  \<^item> \<open>Model\<close>: the User and Post schemas as records, the comment and reply
    documents, the category enum, the store, schema validation and the
    \<open>save()\<close> operations (\<open>src/models/User.ts\<close>, \<open>src/models/Post.ts\<close>).
  \<^item> \<open>Auth\<close>: identities, claims and tokens, \<open>verifyToken\<close>,
    \<open>registerUser\<close>, \<open>loginUser\<close>, \<open>logoutUser\<close>.
  \<^item> \<open>Votes\<close>: \<open>upvotePost\<close> and \<open>downvotePost\<close> with their document
    mutations \<open>upvote_apply\<close>/\<open>downvote_apply\<close>; the abstract vote
    specification (\<open>vote_of\<close>, the per-user state none/upvoted/downvoted,
    and its transition function \<open>cast_vote\<close>); the post invariant
    \<open>votes_ok\<close> (counters equal list lengths, no duplicates, no user in both
    lists). Its lemmas show that both handlers keep the invariant on every
    post of the store, that they refine \<open>cast_vote\<close> (a refused transition
    is the 400 reply with the store unchanged, an accepted one moves exactly
    the voter), and the repeated-vote and up-then-down behaviour of the
    specification, including its concrete scenario.
  \<^item> \<open>Posts\<close>: the request body of a post form and \<open>new Post(req.body)\<close>
    (\<open>post_of_body\<close>, which copies every schema path the client sends:
    vote lists, counters, author, date), the image
    upload, \<open>createPost\<close>, \<open>getPostById\<close>, \<open>getAllPostsByUser\<close>,
    \<open>getAllPosts\<close> with its two sort keys, \<open>editPost\<close> and \<open>deletePost\<close> with
    their ownership guards. Its lemmas show that only the author edits or
    deletes a post (and what the author's edit or delete does), that the two
    guards agree, that \<open>createPost\<close> stores the post it replies with, its
    counters reset, and stores forged vote lists, and the order of the
    listing stated on the posts' fields.
  \<^item> \<open>Comments\<close>: \<open>createComment\<close> (save the comment, then the post with its
    id appended), \<open>getCommentsForPost\<close>, \<open>createReply\<close> (a reply with a fresh
    id appended to the comment), \<open>getRepliesForComment\<close>; the comment
    document is taken from the controller and the specification, as
    \<open>models/Comment.ts\<close> is not among the sources. Its lemmas show the
    effect of commenting, that the 404 of \<open>getCommentsForPost\<close> is dead, and
    that reply ids are fresh.
  \<^item> \<open>Users\<close>: \<open>getSingleUser\<close> and \<open>getAllUsers\<close>
    (\<open>src/controllers/userController.ts\<close>), replying identities without
    password hashes.
  \<^item> \<open>Api\<close>: the server as a step relation \<open>handler_step\<close>: one step is one
    call of a writing route (\<open>src/routes/*.ts\<close>) with any request data and,
    behind \<open>verifyToken\<close>, claims the server could have issued; the bodies
    clients send to \<open>createPost\<close> are a parameter. By rule induction over
    \<open>reachable\<close>: every reachable store is well formed (distinct ids below
    the generator, schema-valid posts, fresh reply ids); the vote invariant
    holds in every reachable store when forms carry no vote lists, and a
    concrete run with a forged form reaches a store that breaks it.
  \<^item> \<open>Validators\<close>: the three validator arrays of
    \<open>src/middleware/validation.ts\<close> as data (each chain's field, whether it
    is optional, its checks with their \<open>withMessage\<close> texts and the
    \<open>normalizeEmail\<close> sanitizer) and an interpreter of express-validator 7
    over JSON bodies (\<open>jval\<close>), with \<open>handleValidationErrors\<close>. Its lemmas
    characterise the bodies \<open>validatePostRequest\<close> accepts, the password
    length check, the messages a non-string user name gets, and the bound of
    \<open>isInt({min: 0})\<close>, resting on the round trip between integers and their
    decimal text.
  \<^item> \<open>Routes\<close>: the application of \<open>src/index.ts\<close> and the four routers of
    \<open>src/routes/\<close>: the route table as data (method, path pattern, middleware
    chain, handler), first-match dispatch with Express's path matching,
    \<open>multer\<close>'s upload limits, the CORS origin check, the casts of request
    data, and \<open>serve\<close>, one request from the store to the reply status and the
    new store; the \<open>PUT\<close> route hands \<open>editPost\<close> only the three fields it
    reads (\<open>edit_body_of_json\<close>). Its lemmas show that no two routes overlap
    (so their order is irrelevant), which routes need a token and which
    validate first, when a request gets no reply, a dead 400, and the upload
    limit as the whole application enforces it.
  \<^item> \<open>Concurrency\<close>: the vote handlers as two steps each, the reader
    (\<open>findById\<close>, the 404, the repeated-vote guard) and the writer (the
    mutation and \<open>save()\<close>), over a store that keeps Mongoose's version key;
    \<open>save()\<close> is the update Mongoose sends (\<open>$set\<close> of the counters with
    the loaded value changed, \<open>$push\<close> of the voter, \<open>$set\<close> of a filtered
    array with a version check). Schedules interleave the steps of several
    requests. Its lemmas show that a request run alone is the handler, that
    two interleaved upvotes of different users are both answered while one
    count is lost, and that a double submission lists a new voter twice while
    the version check refuses a doubled switch.
  \<^item> \<open>Registration\<close>: \<open>registerUser\<close> as three steps over the shared store,
    the e-mail check (\<open>email_check_step\<close>), the user-name check
    (\<open>name_check_step\<close>) and the save with its read-back (\<open>save_step\<close>);
    schedules (\<open>run_reg\<close>) interleave several registrations. Its lemmas show
    that every interleaving
    keeps user names and e-mails unique (the unique indexes of
    \<open>src/models/User.ts\<close> catch what the checks miss), and that two racing
    registrations with one e-mail get 201 and 500 where run one after the
    other they get 201 and 409.
  \<^item> \<open>Contention\<close>: \<open>createComment\<close> as three steps (\<open>findById\<close>, the
    comment's save, the post's save as Mongoose's \<open>$push\<close> of the comment id,
    which moves the version key without a version condition) in schedules
    (\<open>run_mixed\<close>) shared with the vote requests of \<open>Concurrency\<close>. Its
    lemmas show that no interleaving of comments and votes unlinks an
    answered comment, and that a vote switching sides fails with 500 when a
    comment on the same post is saved between its read and its save.
  \<^item> \<open>Exports\<close>: the \<open>export default\<close> object of each controller as the
    list of its handlers; each router uses exactly the handlers of the
    controller it imports, each once, so no route is built on an undefined
    handler.
  \<^item> \<open>Spec2Isabelle\<close> (this theory): properties that span components:
    register then log in, the token registration sets, log in then read
    one's profile.

  No definition uses fuel: every handler is a finite composition of store
  reads and writes, and the recursion is structural over lists, strings and
  JSON values; the concurrent executions are finite schedules (lists of
  request indices), so no definition can fail to return.

  \<^bold>\<open>Plan.\<close> Every source file is modelled: the data model, the
  authenticator with its concurrent registrations, the vote engine with its
  concurrent executions, the post, comment and user handlers (comments
  concurrently with votes), the request validators, the routes and the
  application, and the writing handlers as a step relation. What is left is
  named below.

  \<^bold>\<open>Not modelled.\<close> HTTP and JSON parsing (a request arrives parsed; a
  malformed JSON body, which \<open>express.json()\<close> answers with 400, is not
  represented), URL decoding of route parameters, JSON numbers that are not
  integers, configuration and start-up (\<open>dotenv\<close>, \<open>cloudinary.config\<close>,
  \<open>app.listen\<close>, \<open>connectDB\<close>: I/O), the transport of image uploads to
  Cloudinary (an upload is an input that succeeds with a URL or fails),
  validator.js's \<open>isEmail\<close> and \<open>normalizeEmail\<close> (parameters), Mongoose
  population of referenced documents (a projection of data already in the
  store), and the JSON shape of replies beyond their status and the values the
  handlers compute.
\<close>


section \<open>Properties across components\<close>

text \<open>
  C20. Register, then log in (round trip): after a successful registration the
  same user name and password log in, the login token passes
  \<open>verifyToken\<close> and identifies the new user by its fresh id; any other
  password is refused.
\<close>

theorem register_then_login:
  assumes reg: "registerUser secret uname mail pw salt d = (Inr x, d')"
  shows "(\<exists>tok ident. loginUser secret uname pw d' = Inr (201, ident, SetCookie tok) \<and>
            verifyToken secret (Some tok) = Inr (Claims (Some ident)) \<and>
            req_user_id (Claims (Some ident)) = Some (next_oid d) \<and> id_username ident = uname) \<and>
         (\<forall>pw'. pw' \<noteq> pw \<longrightarrow> loginUser secret uname pw' d' = Inl (Http 400 ''Invalid credentials''))"
proof -
  let ?u = "\<lparr>username = uname, email = mail, password = bcrypt_hash pw salt, user_imageUrl = default_user_image\<rparr>"
  from registerUser_Inr [OF reg] have n: "find_one (\<lambda>u. username u = uname) (user_coll d) = None"
    and d': "d' = d\<lparr>user_coll := user_coll d @ [(next_oid d, ?u)], next_oid := Suc (next_oid d)\<rparr>"
    by auto
  have found: "find_one (\<lambda>u. username u = uname) (user_coll d') = Some (next_oid d, ?u)"
    by (simp add: d' find_one_append_new n)
  show ?thesis
    by (simp add: loginUser_def found verifyToken_def req_user_id_def identity_of_def bcrypt_compare_def
        bcrypt_hash_def)
qed

lemma register_then_login_witness:
  "(\<exists>tok ident. loginUser ''k'' ''carol'' ''pw12''
       (snd (registerUser ''k'' ''carol'' ''carol@mail.example'' ''pw12'' 3 demo_db)) =
         Inr (201, ident, SetCookie tok) \<and>
     verifyToken ''k'' (Some tok) = Inr (Claims (Some ident)) \<and>
     req_user_id (Claims (Some ident)) = Some (next_oid demo_db) \<and> id_username ident = ''carol'') \<and>
   loginUser ''k'' ''carol'' ''other''
       (snd (registerUser ''k'' ''carol'' ''carol@mail.example'' ''pw12'' 3 demo_db)) =
     Inl (Http 400 ''Invalid credentials'')"
proof -
  have reg: "registerUser ''k'' ''carol'' ''carol@mail.example'' ''pw12'' 3 demo_db =
      (Inr (fst (projr (fst (registerUser ''k'' ''carol'' ''carol@mail.example'' ''pw12'' 3 demo_db))),
            snd (projr (fst (registerUser ''k'' ''carol'' ''carol@mail.example'' ''pw12'' 3 demo_db)))),
       snd (registerUser ''k'' ''carol'' ''carol@mail.example'' ''pw12'' 3 demo_db))"
    by (simp add: registerUser_def save_new_user_def user_valid_def find_one_def demo_defs Let_def)
  show ?thesis using register_then_login [OF reg] by simp
qed

text \<open>
  C21. The token set by registration carries no user: \<open>registerUser\<close>
  signs \<open>{user: registerUser}\<close>, the handler function, which JSON drops.
  The cookie passes \<open>verifyToken\<close>, but every handler that reads
  \<open>req.user.user._id\<close> then fails: the vote handlers send no reply at all
  (the \<open>TypeError\<close> is thrown outside their \<open>try\<close>), \<open>createPost\<close>
  answers 500.
\<close>

theorem register_token_has_no_user:
  assumes reg: "registerUser secret uname mail pw salt d = (Inr (st, ident, SetCookie tok), d')"
    and ver: "verifyToken secret (Some tok) = Inr c"
  shows "req_user_id c = None \<and>
         upvotePost e pid c = (Inl NoResponse, e) \<and> downvotePost e pid c = (Inl NoResponse, e) \<and>
         createPost cloud now e c b f = (Inl server_error, e)"
proof -
  from registerUser_Inr [OF reg] have "tok = jwt_sign (Claims None) secret"
    by auto
  with ver have "c = Claims None"
    by (simp add: verifyToken_def)
  then show ?thesis
    by (simp add: req_user_id_def upvotePost_def downvotePost_def createPost_def)
qed

lemma register_token_has_no_user_witness:
  "req_user_id (Claims None) = None \<and>
   upvotePost demo_db (Oid 3) (Claims None) = (Inl NoResponse, demo_db) \<and>
   downvotePost demo_db (Oid 3) (Claims None) = (Inl NoResponse, demo_db) \<and>
   createPost no_cloud 5 demo_db (Claims None) empty_body None = (Inl server_error, demo_db)"
proof -
  have reg: "registerUser ''k'' ''carol'' ''carol@mail.example'' ''pw12'' 3 demo_db =
      (Inr (201, identity_of 4 \<lparr>username = ''carol'', email = ''carol@mail.example'',
                  password = bcrypt_hash ''pw12'' 3, user_imageUrl = default_user_image\<rparr>,
            SetCookie (jwt_sign (Claims None) ''k'')),
       snd (registerUser ''k'' ''carol'' ''carol@mail.example'' ''pw12'' 3 demo_db))"
    by (simp add: registerUser_def save_new_user_def user_valid_def find_one_def demo_defs Let_def)
  have ver: "verifyToken ''k'' (Some (jwt_sign (Claims None) ''k'')) = Inr (Claims None)"
    by (simp add: verifyToken_def)
  show ?thesis using register_token_has_no_user [OF reg ver] by simp
qed

text \<open>
  C26. Log in, then ask for one's profile: on a well-formed store, the login
  token leads \<open>getSingleUser\<close> to the very identity the login returned.
\<close>

theorem login_then_getSingleUser:
  assumes "db_ok d" and login: "loginUser secret uname pw d = Inr (st, ident, SetCookie tok)"
    and ver: "verifyToken secret (Some tok) = Inr c"
  shows "getSingleUser d c = Inr (200, ident)"
proof -
  from login obtain i u where found: "find_one (\<lambda>u. username u = uname) (user_coll d) = Some (i, u)"
    and ident: "ident = identity_of i u" and tok: "tok = jwt_sign (Claims (Some (identity_of i u))) secret"
    by (auto simp: loginUser_def split: option.splits if_splits)
  have "(i, u) \<in> set (user_coll d)"
    using find_one_Some_in [OF found] by simp
  then have "map_of (user_coll d) i = Some u"
    using assms(1) by (auto simp: db_ok_def coll_ok_def coll_ids_def intro: map_of_is_SomeI)
  moreover from ver tok have "c = Claims (Some (identity_of i u))"
    by (simp add: verifyToken_def)
  ultimately show ?thesis
    by (simp add: getSingleUser_def req_user_id_def ident identity_of_def)
qed

lemma login_then_getSingleUser_witness:
  "getSingleUser demo_db (Claims (Some (identity_of 2 (demo_user ''bob'')))) =
     Inr (200, identity_of 2 (demo_user ''bob''))"
proof -
  have login: "loginUser ''k'' ''bob'' ''pass'' demo_db =
      Inr (201, identity_of 2 (demo_user ''bob''),
           SetCookie (jwt_sign (Claims (Some (identity_of 2 (demo_user ''bob'')))) ''k''))"
    by (simp add: loginUser_def find_one_def demo_db_def demo_user_def)
  have ver: "verifyToken ''k'' (Some (jwt_sign (Claims (Some (identity_of 2 (demo_user ''bob'')))) ''k'')) =
      Inr (Claims (Some (identity_of 2 (demo_user ''bob''))))"
    by (simp add: verifyToken_def)
  show ?thesis using login_then_getSingleUser [OF demo_db_ok login ver] .
qed

end
